theory Spec2Isabelle
  imports Complex_Main "HOL-Library.Stream"
begin

section \<open>Conventions of the embedding\<close>

text \<open>
  The TypeScript classes \<^verbatim>\<open>Ball\<close>, \<^verbatim>\<open>Paddle\<close>, \<^verbatim>\<open>PowerUpManager\<close>, \<^verbatim>\<open>Game\<close>,
  \<^verbatim>\<open>SyncService\<close> and \<^verbatim>\<open>GameManager\<close> are embedded as records with one function per
  method; a method that mutates \<^verbatim>\<open>this\<close> takes the object last and returns the new one.

  \<^item> A JavaScript \<^verbatim>\<open>number\<close> is a \<^typ>\<open>real\<close>: rounding, \<^verbatim>\<open>NaN\<close> and the infinities of
    IEEE doubles are not modelled.
  \<^item> An optional field \<^verbatim>\<open>f?: T\<close> is a \<^typ>\<open>'a option\<close>, \<^verbatim>\<open>undefined\<close> being \<^term>\<open>None\<close>.
  \<^item> Every record field carries a prefix naming its class or interface, since the classes
    share field names: \<^verbatim>\<open>b_\<close> Ball, \<^verbatim>\<open>p_\<close> Paddle, \<^verbatim>\<open>pm_\<close> PowerUpManager, \<^verbatim>\<open>g_\<close> Game,
    \<^verbatim>\<open>sy_\<close> SyncService, \<^verbatim>\<open>gm_\<close> GameManager, \<^verbatim>\<open>bs_\<close> BallState, \<^verbatim>\<open>ps_\<close> PaddleState,
    \<^verbatim>\<open>gs_\<close> GameState, \<^verbatim>\<open>pu_\<close> PowerUp, \<^verbatim>\<open>cfg_\<close> GameConfig.
  \<^item> A private field that is initialised with a literal and never assigned again
    (\<^verbatim>\<open>maxSpeedScale\<close>, \<^verbatim>\<open>reboundDuration\<close>, \<^verbatim>\<open>fixedTimeStep\<close>, ...) is a constant.
  \<^item> \<^verbatim>\<open>Math.random()\<close> reads the head of a stream of reals that is threaded through the
    calls; the draws that only choose the pitch of a sound are left out with the sound.
  \<^item> \<^verbatim>\<open>Date.now()\<close> is a parameter \<open>now\<close> of the operation that reads the clock.
  \<^item> The audio and particle services have no effect on the state and are left out.
  \<^item> \<^verbatim>\<open>Ball\<close>, \<^verbatim>\<open>Paddle\<close>, \<^verbatim>\<open>PowerUpManager\<close> and \<^verbatim>\<open>Game\<close> have no \<^verbatim>\<open>throw\<close> statement. The
    one place where the runtime can raise, a method call on an array element in
    \<^verbatim>\<open>Game.setState\<close>, is written out in \<open>setStateE\<close>, which returns the \<^verbatim>\<open>TypeError\<close> as a
    value.
\<close>

section \<open>Shared types (types.ts)\<close>

record Vector2D =
  vec_x :: real
  vec_y :: real

record PaddleState =
  ps_position :: Vector2D
  ps_width :: real
  ps_height :: real
  ps_isMovingUp :: bool
  ps_isMovingDown :: bool
  ps_isRebounding :: "bool option"
  ps_reboundTime :: "real option"

record BallState =
  bs_position :: Vector2D
  bs_velocity :: Vector2D
  bs_radius :: real
  bs_speedScaleFactor :: "real option"
  bs_hitCounter :: "real option"
  bs_curveIntensity :: "real option"
  bs_curveDirection :: "real option"

datatype GameStatus = WAITING_FOR_OPPONENT | COUNTDOWN | PLAYING | PAUSED | GAME_OVER

datatype PlayerRole = HOST | GUEST | CLIENT

datatype ConnectionStatus = DISCONNECTED | CONNECTING | CONNECTED | ERROR

datatype PowerUpType =
  ENLARGE_PADDLE | SHRINK_OPPONENT | EXTRA_BALL | TURBO_MODE | SPEED_UP | CURVE_BALL | MULTI_BALL

text \<open>The string union \<^verbatim>\<open>"player" | "opponent"\<close>.\<close>

datatype Side = Player | Opponent

text \<open>The result of \<^verbatim>\<open>Ball.checkScoringBoundary\<close>: \<^verbatim>\<open>"left" | "right" | null\<close>, null being
  \<^term>\<open>None\<close>.\<close>

datatype Boundary = LeftB | RightB

record PowerUp =
  pu_type :: PowerUpType
  pu_position :: Vector2D
  pu_radius :: real
  pu_affectsPlayer :: Side
  pu_duration :: "real option"
  pu_activatedTime :: "real option"
  pu_active :: "bool option"

record GameConfig =
  cfg_enablePowerUps :: bool
  cfg_enableTurboMode :: bool
  cfg_enablePaddleShrinking :: bool
  cfg_enableCurveBall :: bool
  cfg_ballSpeed :: real
  cfg_paddleWidth :: real
  cfg_paddleHeight :: real
  cfg_powerUpFrequency :: real
  cfg_winningScore :: real

text \<open>\<^verbatim>\<open>winner?: "player" | "opponent" | null\<close> has three shapes: absent (\<^term>\<open>None\<close>), null
  (\<^term>\<open>Some None\<close>) and a side.\<close>

record GameState =
  gs_status :: GameStatus
  gs_playerScore :: real
  gs_opponentScore :: real
  gs_countdown :: "real option"
  gs_winner :: "Side option option"
  gs_playerPaddle :: PaddleState
  gs_opponentPaddle :: PaddleState
  gs_ball :: BallState
  gs_additionalBalls :: "BallState list option"
  gs_config :: GameConfig
  gs_turboModeActive :: "bool option"
  gs_turboModeTimeRemaining :: "real option"
  gs_activePowerUps :: "PowerUp list option"
  gs_powerUps :: "PowerUp list option"
  gs_gameSpeedMultiplier :: "real option"
  gs_timestamp :: "real option"

datatype GameControlAction = START | PAUSE | RESUME | RESTART

record PaddleMoveMessage =
  pmm_isUpPressed :: bool
  pmm_isDownPressed :: bool
  pmm_timestamp :: "real option"

record GameControlMessage =
  gcm_action :: GameControlAction
  gcm_timestamp :: "real option"

record GameStateMessage =
  gsm_state :: GameState
  gsm_timestamp :: "real option"

text \<open>What a peer hands to \<^verbatim>\<open>webRTCService.sendMessage\<close>.\<close>

datatype AnyNetworkMessage =
  GameStateMsg GameStateMessage
  | PaddleMoveMsg PaddleMoveMessage
  | GameControlMsg GameControlMessage
  | PingMsg real
  | PongMsg real

section \<open>Ball (Ball.ts)\<close>

record Ball =
  b_position :: Vector2D
  b_velocity :: Vector2D
  b_radius :: real
  b_baseSpeed :: real
  b_speedScaleFactor :: real
  b_curveIntensity :: real
  b_curveDirection :: real
  b_hitCounter :: real
  b_maxSpeed :: real

definition maxSpeedScale :: real where
  "maxSpeedScale = 22 / 10"

definition hitSpeedIncrement :: real where
  "hitSpeedIncrement = 8 / 100"

definition Ball_new :: "Vector2D \<Rightarrow> real \<Rightarrow> Vector2D \<Rightarrow> real \<Rightarrow> Ball" where
  "Ball_new pos rad vel baseSpeed =
     \<lparr>b_position = pos, b_velocity = vel, b_radius = rad, b_baseSpeed = baseSpeed,
      b_speedScaleFactor = 1, b_curveIntensity = 0, b_curveDirection = 1,
      b_hitCounter = 0, b_maxSpeed = baseSpeed\<rparr>"

definition Ball_update :: "real \<Rightarrow> Ball \<Rightarrow> Ball" where
  "Ball_update deltaTime b =
     b\<lparr>b_position :=
         \<lparr>vec_x = vec_x (b_position b) + vec_x (b_velocity b) * deltaTime,
          vec_y = vec_y (b_position b) + vec_y (b_velocity b) * deltaTime\<rparr>\<rparr>"

definition normalizeVelocity :: "Ball \<Rightarrow> Ball" where
  "normalizeVelocity b =
     (let effectiveMaxSpeed = b_baseSpeed b * b_speedScaleFactor b;
          currentSpeed = sqrt (vec_x (b_velocity b) * vec_x (b_velocity b)
                               + vec_y (b_velocity b) * vec_y (b_velocity b))
      in if currentSpeed > 0
         then (let speedFactor = effectiveMaxSpeed / currentSpeed
               in b\<lparr>b_velocity := \<lparr>vec_x = vec_x (b_velocity b) * speedFactor,
                                    vec_y = vec_y (b_velocity b) * speedFactor\<rparr>\<rparr>)
         else b)"

definition resetSpeedScaling :: "Ball \<Rightarrow> Ball" where
  "resetSpeedScaling b = normalizeVelocity (b\<lparr>b_hitCounter := 0, b_speedScaleFactor := 1\<rparr>)"

definition Ball_reset :: "Vector2D \<Rightarrow> Vector2D \<Rightarrow> bool \<Rightarrow> Ball \<Rightarrow> Ball" where
  "Ball_reset pos vel resetSpeed b =
     (let b1 = b\<lparr>b_position := pos, b_velocity := vel\<rparr>
      in if resetSpeed then resetSpeedScaling b1 else b1)"

text \<open>\<open>r\<close> is the value \<^verbatim>\<open>Math.random()\<close> returns inside the formula.\<close>

definition increaseBallSpeed :: "real \<Rightarrow> Ball \<Rightarrow> Ball" where
  "increaseBallSpeed r b =
     (let b1 = b\<lparr>b_hitCounter := b_hitCounter b + 1\<rparr>;
          b2 = b1\<lparr>b_speedScaleFactor :=
                    min maxSpeedScale
                        (1 + b_hitCounter b1 * hitSpeedIncrement * (1 + r * (2 / 10)))\<rparr>
      in normalizeVelocity b2)"

definition checkBoundaryCollision :: "real \<Rightarrow> real \<Rightarrow> Ball \<Rightarrow> bool \<times> Ball" where
  "checkBoundaryCollision boundaryTop boundaryBottom b =
     (let nextY = vec_y (b_position b) + vec_y (b_velocity b)
      in if nextY - b_radius b \<le> boundaryTop
         then (True, b\<lparr>b_velocity := (b_velocity b)\<lparr>vec_y := \<bar>vec_y (b_velocity b)\<bar>\<rparr>,
                        b_position := (b_position b)\<lparr>vec_y := boundaryTop + b_radius b + 1 / 10\<rparr>\<rparr>)
         else if nextY + b_radius b \<ge> boundaryBottom
         then (True, b\<lparr>b_velocity := (b_velocity b)\<lparr>vec_y := - \<bar>vec_y (b_velocity b)\<bar>\<rparr>,
                        b_position := (b_position b)\<lparr>vec_y := boundaryBottom - b_radius b - 1 / 10\<rparr>\<rparr>)
         else (False, b))"

definition checkScoringBoundary :: "real \<Rightarrow> real \<Rightarrow> Ball \<Rightarrow> Boundary option" where
  "checkScoringBoundary boundaryLeft boundaryRight b =
     (if vec_x (b_position b) - b_radius b \<le> boundaryLeft then Some LeftB
      else if vec_x (b_position b) + b_radius b \<ge> boundaryRight then Some RightB
      else None)"

definition setCurve :: "real \<Rightarrow> real \<Rightarrow> Ball \<Rightarrow> Ball" where
  "setCurve intensity direction b =
     b\<lparr>b_curveIntensity := min 1 (max 0 intensity), b_curveDirection := direction\<rparr>"

text \<open>The velocity after a hit, before the speed-up: reflect, deflect by the cube of the
  relative hit position, set the curve for an off-centre hit, cap the vertical share.\<close>

definition deflect :: "real \<Rightarrow> real \<Rightarrow> bool \<Rightarrow> Ball \<Rightarrow> Ball" where
  "deflect paddleY paddleHeight isLeftPaddle b =
     (let b1 = b\<lparr>b_velocity := (b_velocity b)\<lparr>vec_x :=
                  (if isLeftPaddle then \<bar>vec_x (b_velocity b)\<bar> else - \<bar>vec_x (b_velocity b)\<bar>)\<rparr>\<rparr>;
          hitPositionRelative = (vec_y (b_position b1) - paddleY) / (paddleHeight / 2);
          angleFactor = hitPositionRelative ^ 3 * 10;
          b2 = b1\<lparr>b_velocity := (b_velocity b1)\<lparr>vec_y := vec_y (b_velocity b1) + angleFactor\<rparr>\<rparr>;
          b3 = (if \<bar>hitPositionRelative\<bar> > 3 / 10
                then setCurve (min (8 / 10) (\<bar>hitPositionRelative\<bar> * (7 / 10)))
                              (if hitPositionRelative > 0 then pi / 2 else - pi / 2) b2
                else b2);
          currentSpeed = sqrt (vec_x (b_velocity b3) * vec_x (b_velocity b3)
                               + vec_y (b_velocity b3) * vec_y (b_velocity b3));
          maxYRatio = 85 / 100
      in if \<bar>vec_y (b_velocity b3) / currentSpeed\<bar> > maxYRatio
         then (let yDirection = (if vec_y (b_velocity b3) > 0 then 1 else - 1);
                   xDirection = (if vec_x (b_velocity b3) > 0 then 1 else - 1);
                   newVy = currentSpeed * maxYRatio * yDirection;
                   newXMagnitude = sqrt (currentSpeed * currentSpeed - newVy * newVy)
               in b3\<lparr>b_velocity := \<lparr>vec_x = newXMagnitude * xDirection, vec_y = newVy\<rparr>\<rparr>)
         else b3)"

definition checkPaddleCollision ::
  "real \<Rightarrow> real \<Rightarrow> real \<Rightarrow> real \<Rightarrow> bool \<Rightarrow> real stream \<Rightarrow> Ball \<Rightarrow> bool \<times> Ball \<times> real stream" where
  "checkPaddleCollision paddleX paddleY paddleWidth paddleHeight isLeftPaddle rs b =
     (let paddleLeft = (if isLeftPaddle then paddleX else paddleX - paddleWidth);
          paddleRight = (if isLeftPaddle then paddleX + paddleWidth else paddleX);
          paddleTop = paddleY - paddleHeight / 2;
          paddleBottom = paddleY + paddleHeight / 2;
          closestX = max paddleLeft (min (vec_x (b_position b)) paddleRight);
          closestY = max paddleTop (min (vec_y (b_position b)) paddleBottom);
          distanceX = vec_x (b_position b) - closestX;
          distanceY = vec_y (b_position b) - closestY;
          distanceSquared = distanceX * distanceX + distanceY * distanceY
      in if distanceSquared \<le> b_radius b * b_radius b
         then (let previousVelocityX = vec_x (b_velocity b);
                   b4 = deflect paddleY paddleHeight isLeftPaddle b;
                   b5 = increaseBallSpeed (shd rs) b4;
                   b6 = (if isLeftPaddle
                         then (if previousVelocityX < 0
                               then b5\<lparr>b_position := (b_position b5)
                                         \<lparr>vec_x := paddleRight + b_radius b5 + 1 / 10\<rparr>\<rparr>
                               else b5)
                         else (if previousVelocityX > 0
                               then b5\<lparr>b_position := (b_position b5)
                                         \<lparr>vec_x := paddleLeft - b_radius b5 - 1 / 10\<rparr>\<rparr>
                               else b5))
               in (True, b6, stl rs))
         else (False, b, rs))"

definition Ball_getState :: "Ball \<Rightarrow> BallState" where
  "Ball_getState b =
     \<lparr>bs_position = b_position b, bs_velocity = b_velocity b, bs_radius = b_radius b,
      bs_speedScaleFactor = Some (b_speedScaleFactor b), bs_hitCounter = Some (b_hitCounter b),
      bs_curveIntensity = Some (b_curveIntensity b),
      bs_curveDirection = Some (b_curveDirection b)\<rparr>"

definition Ball_setState :: "BallState \<Rightarrow> Ball \<Rightarrow> Ball" where
  "Ball_setState state b =
     (let b1 = b\<lparr>b_position := bs_position state, b_velocity := bs_velocity state,
                 b_radius := bs_radius state\<rparr>;
          b2 = (case bs_speedScaleFactor state of
                  Some v \<Rightarrow> b1\<lparr>b_speedScaleFactor := v\<rparr> | None \<Rightarrow> b1);
          b3 = (case bs_hitCounter state of Some v \<Rightarrow> b2\<lparr>b_hitCounter := v\<rparr> | None \<Rightarrow> b2);
          b4 = (case bs_curveIntensity state of
                  Some v \<Rightarrow> b3\<lparr>b_curveIntensity := v\<rparr> | None \<Rightarrow> b3)
      in (case bs_curveDirection state of Some v \<Rightarrow> b4\<lparr>b_curveDirection := v\<rparr> | None \<Rightarrow> b4))"

definition setMaxSpeed :: "real \<Rightarrow> Ball \<Rightarrow> Ball" where
  "setMaxSpeed speed b =
     (let b1 = b\<lparr>b_maxSpeed := speed\<rparr>;
          b2 = (if \<bar>vec_x (b_velocity b1)\<bar> > b_maxSpeed b1
                then b1\<lparr>b_velocity := (b_velocity b1)
                          \<lparr>vec_x := b_maxSpeed b1 * sgn (vec_x (b_velocity b1))\<rparr>\<rparr>
                else b1)
      in if \<bar>vec_y (b_velocity b2)\<bar> > b_maxSpeed b2
         then b2\<lparr>b_velocity := (b_velocity b2)
                   \<lparr>vec_y := b_maxSpeed b2 * sgn (vec_y (b_velocity b2))\<rparr>\<rparr>
         else b2)"

section \<open>Paddle (Paddle.ts)\<close>

record Paddle =
  p_position :: Vector2D
  p_width :: real
  p_height :: real
  p_speed :: real
  p_isMovingUp :: bool
  p_isMovingDown :: bool
  p_minY :: real
  p_maxY :: real
  p_isRebounding :: bool
  p_reboundTime :: real
  p_originalHeight :: real
  p_targetHeight :: real
  p_dashCooldown :: real
  p_dashDuration :: real
  p_isDashing :: bool
  p_consecutiveHits :: real
  p_isCurrentlyShrunken :: bool

definition reboundDuration :: real where "reboundDuration = 3 / 10"
definition reboundSpeed :: real where "reboundSpeed = 15 / 10"
definition boostZoneSize :: real where "boostZoneSize = 15 / 100"
definition boostMultiplier :: real where "boostMultiplier = 15 / 10"
definition resizeRate :: real where "resizeRate = 50"
definition shrinkFactor :: real where "shrinkFactor = 99 / 100"
definition minPaddleHeight :: real where "minPaddleHeight = 30"
definition maxPaddleHeight :: real where "maxPaddleHeight = 120"
definition dashSpeed :: real where "dashSpeed = 25 / 10"
definition maxDashDuration :: real where "maxDashDuration = 15 / 100"
definition maxDashCooldown :: real where "maxDashCooldown = 8 / 10"

definition Paddle_new :: "Vector2D \<Rightarrow> real \<Rightarrow> real \<Rightarrow> real \<Rightarrow> real \<Rightarrow> real \<Rightarrow> Paddle" where
  "Paddle_new initialPosition width height speed minY maxY =
     \<lparr>p_position = initialPosition, p_width = width, p_height = height, p_speed = speed,
      p_isMovingUp = False, p_isMovingDown = False, p_minY = minY, p_maxY = maxY,
      p_isRebounding = False, p_reboundTime = 0, p_originalHeight = height,
      p_targetHeight = height, p_dashCooldown = 0, p_dashDuration = 0, p_isDashing = False,
      p_consecutiveHits = 0, p_isCurrentlyShrunken = False\<rparr>"

text \<open>The expression \<^verbatim>\<open>Math.max(minY + height / 2, Math.min(y, maxY - height / 2))\<close> that
  every method of the class writes out.\<close>

definition clampY :: "Paddle \<Rightarrow> real \<Rightarrow> real" where
  "clampY p v = max (p_minY p + p_height p / 2) (min v (p_maxY p - p_height p / 2))"

text \<open>The local variable \<^verbatim>\<open>direction\<close> of the three movement methods.\<close>

definition moveDirection :: "Paddle \<Rightarrow> real" where
  "moveDirection p =
     (if p_isMovingUp p \<and> \<not> p_isMovingDown p then - 1
      else if p_isMovingDown p \<and> \<not> p_isMovingUp p then 1
      else 0)"

definition startRebound :: "real \<Rightarrow> Paddle \<Rightarrow> Paddle" where
  "startRebound originalDirection p =
     (let p1 = p\<lparr>p_isRebounding := True, p_reboundTime := 0\<rparr>
      in if originalDirection < 0
         then p1\<lparr>p_isMovingUp := False, p_isMovingDown := True\<rparr>
         else p1\<lparr>p_isMovingUp := True, p_isMovingDown := False\<rparr>)"

definition updateMovement :: "real \<Rightarrow> Paddle \<Rightarrow> Paddle" where
  "updateMovement deltaTime p =
     (let direction = moveDirection p
      in if direction \<noteq> 0
         then (let topBoostZone = p_minY p + (p_maxY p - p_minY p) * boostZoneSize;
                   speed1 = (if vec_y (p_position p) - p_height p / 2 < topBoostZone \<and> direction < 0
                             then p_speed p * boostMultiplier else p_speed p);
                   bottomBoostZone = p_maxY p - (p_maxY p - p_minY p) * boostZoneSize;
                   currentSpeed =
                     (if vec_y (p_position p) + p_height p / 2 > bottomBoostZone \<and> direction > 0
                      then speed1 * boostMultiplier else speed1);
                   newY = vec_y (p_position p) + direction * currentSpeed * deltaTime;
                   paddleTop = newY - p_height p / 2;
                   paddleBottom = newY + p_height p / 2
               in if paddleTop \<le> p_minY p \<and> direction < 0 then startRebound direction p
                  else if paddleBottom \<ge> p_maxY p \<and> direction > 0 then startRebound direction p
                  else p\<lparr>p_position := (p_position p)\<lparr>vec_y := clampY p newY\<rparr>\<rparr>)
         else p)"

definition updateDash :: "real \<Rightarrow> Paddle \<Rightarrow> Paddle" where
  "updateDash deltaTime p =
     (let p1 = p\<lparr>p_dashDuration := p_dashDuration p - deltaTime\<rparr>;
          direction = moveDirection p1;
          p2 = (if direction \<noteq> 0
                then (let dashSpeedValue = p_speed p1 * dashSpeed;
                          newY = vec_y (p_position p1) + direction * dashSpeedValue * deltaTime
                      in p1\<lparr>p_position := (p_position p1)\<lparr>vec_y := clampY p1 newY\<rparr>\<rparr>)
                else p1)
      in if p_dashDuration p2 \<le> 0
         then p2\<lparr>p_isDashing := False, p_dashCooldown := maxDashCooldown\<rparr>
         else p2)"

definition attemptDash :: "Paddle \<Rightarrow> bool \<times> Paddle" where
  "attemptDash p =
     (if \<not> p_isDashing p \<and> \<not> p_isRebounding p \<and> p_dashCooldown p \<le> 0
      then (True, p\<lparr>p_isDashing := True, p_dashDuration := maxDashDuration\<rparr>)
      else (False, p))"

definition updatePaddleSize :: "real \<Rightarrow> Paddle \<Rightarrow> Paddle" where
  "updatePaddleSize deltaTime p =
     (if p_height p \<noteq> p_targetHeight p
      then (let direction = (if p_height p < p_targetHeight p then 1 else - 1 :: real);
                change = resizeRate * deltaTime;
                p1 = (if direction > 0
                      then p\<lparr>p_height := min (p_targetHeight p) (p_height p + change)\<rparr>
                      else p\<lparr>p_height := max (p_targetHeight p) (p_height p - change)\<rparr>)
            in p1\<lparr>p_position := (p_position p1)\<lparr>vec_y := clampY p1 (vec_y (p_position p1))\<rparr>\<rparr>)
      else p)"

definition updateRebound :: "real \<Rightarrow> Paddle \<Rightarrow> Paddle" where
  "updateRebound deltaTime p =
     (let p1 = p\<lparr>p_reboundTime := p_reboundTime p + deltaTime\<rparr>;
          direction = moveDirection p1;
          p2 = (if direction \<noteq> 0
                then (let reboundSpeedValue = p_speed p1 * reboundSpeed;
                          newY = vec_y (p_position p1) + direction * reboundSpeedValue * deltaTime
                      in p1\<lparr>p_position := (p_position p1)\<lparr>vec_y := clampY p1 newY\<rparr>\<rparr>)
                else p1)
      in if p_reboundTime p2 \<ge> reboundDuration then p2\<lparr>p_isRebounding := False\<rparr> else p2)"

definition Paddle_update :: "real \<Rightarrow> Paddle \<Rightarrow> Paddle" where
  "Paddle_update deltaTime p =
     (let p1 = (if p_isRebounding p then updateRebound deltaTime p
                else if p_isDashing p then updateDash deltaTime p
                else updateMovement deltaTime p);
          p2 = (if p_dashCooldown p1 > 0
                then p1\<lparr>p_dashCooldown := max 0 (p_dashCooldown p1 - deltaTime)\<rparr>
                else p1);
          p3 = updatePaddleSize deltaTime p2
      in if p_height p3 > minPaddleHeight
         then p3\<lparr>p_targetHeight :=
                   max minPaddleHeight (p_targetHeight p3 * (shrinkFactor powr deltaTime))\<rparr>
         else p3)"

definition applyResizeEffect :: "real \<Rightarrow> bool \<Rightarrow> Paddle \<Rightarrow> Paddle" where
  "applyResizeEffect sizeFactor instant p =
     (let newHeight = min maxPaddleHeight (max minPaddleHeight (p_originalHeight p * sizeFactor));
          p1 = (if instant then p\<lparr>p_height := newHeight, p_targetHeight := newHeight\<rparr>
                else p\<lparr>p_targetHeight := newHeight\<rparr>)
      in p1\<lparr>p_isCurrentlyShrunken := (sizeFactor < 1)\<rparr>)"

definition resetSize :: "bool \<Rightarrow> Paddle \<Rightarrow> Paddle" where
  "resetSize instant p =
     (let p1 = (if instant
                then p\<lparr>p_height := p_originalHeight p, p_targetHeight := p_originalHeight p\<rparr>
                else p\<lparr>p_targetHeight := p_originalHeight p\<rparr>)
      in p1\<lparr>p_isCurrentlyShrunken := False\<rparr>)"

definition Paddle_getState :: "Paddle \<Rightarrow> PaddleState" where
  "Paddle_getState p =
     \<lparr>ps_position = p_position p, ps_width = p_width p, ps_height = p_height p,
      ps_isMovingUp = p_isMovingUp p, ps_isMovingDown = p_isMovingDown p,
      ps_isRebounding = Some (p_isRebounding p), ps_reboundTime = Some (p_reboundTime p)\<rparr>"

definition setPosition :: "Vector2D \<Rightarrow> Paddle \<Rightarrow> Paddle" where
  "setPosition pos p =
     p\<lparr>p_position := \<lparr>vec_x = vec_x pos, vec_y = clampY p (vec_y pos)\<rparr>\<rparr>"

definition Paddle_setState :: "PaddleState \<Rightarrow> Paddle \<Rightarrow> Paddle" where
  "Paddle_setState state p =
     (let p1 = p\<lparr>p_position := ps_position state, p_width := ps_width state,
                 p_height := ps_height state, p_targetHeight := ps_height state,
                 p_isMovingUp := ps_isMovingUp state, p_isMovingDown := ps_isMovingDown state\<rparr>;
          p2 = (case ps_isRebounding state of
                  Some v \<Rightarrow> p1\<lparr>p_isRebounding := v\<rparr> | None \<Rightarrow> p1);
          p3 = (case ps_reboundTime state of Some v \<Rightarrow> p2\<lparr>p_reboundTime := v\<rparr> | None \<Rightarrow> p2)
      in setPosition (p_position p3) p3)"

definition recordHit :: "Paddle \<Rightarrow> Paddle" where
  "recordHit p =
     (let p1 = p\<lparr>p_consecutiveHits := p_consecutiveHits p + 1\<rparr>
      in if p_consecutiveHits p1 \<ge> 3
         then (let growFactor = min (13 / 10) (1 + (p_consecutiveHits p1 - 2) * (5 / 100))
               in applyResizeEffect growFactor False p1)
         else p1)"

definition resetHitCombo :: "Paddle \<Rightarrow> Paddle" where
  "resetHitCombo p = p\<lparr>p_consecutiveHits := 0, p_targetHeight := p_originalHeight p\<rparr>"

definition setBoundaries :: "real \<Rightarrow> real \<Rightarrow> Paddle \<Rightarrow> Paddle" where
  "setBoundaries minY maxY p =
     (let p1 = p\<lparr>p_minY := minY, p_maxY := maxY\<rparr> in setPosition (p_position p1) p1)"

definition setHeight :: "real \<Rightarrow> Paddle \<Rightarrow> Paddle" where
  "setHeight height p = (let p1 = p\<lparr>p_height := height\<rparr> in setPosition (p_position p1) p1)"

definition isShrunken :: "Paddle \<Rightarrow> bool" where
  "isShrunken p = p_isCurrentlyShrunken p"

section \<open>PowerUpManager (PowerUpManager.ts)\<close>

record PowerUpManager =
  pm_powerUps :: "PowerUp list"
  pm_activePowerUps :: "PowerUp list"
  pm_fieldWidth :: real
  pm_fieldHeight :: real
  pm_spawnTimer :: real
  pm_spawnInterval :: real

definition maxPowerUps :: nat where "maxPowerUps = 1"
definition powerUpRadius :: real where "powerUpRadius = 15"

definition PowerUpManager_new :: "real \<Rightarrow> real \<Rightarrow> real \<Rightarrow> PowerUpManager" where
  "PowerUpManager_new fieldWidth fieldHeight spawnInterval =
     \<lparr>pm_powerUps = [], pm_activePowerUps = [], pm_fieldWidth = fieldWidth,
      pm_fieldHeight = fieldHeight, pm_spawnTimer = spawnInterval * (5 / 10),
      pm_spawnInterval = spawnInterval\<rparr>"

text \<open>\<^verbatim>\<open>Object.values(PowerUpType)\<close>, in the order of the enum's declaration.\<close>

definition powerUpTypes :: "PowerUpType list" where
  "powerUpTypes =
     [ENLARGE_PADDLE, SHRINK_OPPONENT, EXTRA_BALL, TURBO_MODE, SPEED_UP, CURVE_BALL, MULTI_BALL]"

text \<open>Four draws: the type, the two coordinates and the side. \<^verbatim>\<open>Math.random()\<close> is below 1,
  so the index is in range.\<close>

definition spawnPowerUp :: "real stream \<Rightarrow> PowerUpManager \<Rightarrow> PowerUpManager \<times> real stream" where
  "spawnPowerUp rs pm =
     (let randomType = powerUpTypes ! nat \<lfloor>shd rs * real (length powerUpTypes)\<rfloor>;
          rs1 = stl rs;
          padding = powerUpRadius * 2;
          x = padding + shd rs1 * (pm_fieldWidth pm - padding * 2);
          rs2 = stl rs1;
          y = padding + shd rs2 * (pm_fieldHeight pm - padding * 2);
          rs3 = stl rs2;
          powerUp = \<lparr>pu_type = randomType, pu_position = \<lparr>vec_x = x, vec_y = y\<rparr>,
                     pu_radius = 10, pu_affectsPlayer = (if shd rs3 < 5 / 10 then Player else Opponent),
                     pu_duration = Some 10, pu_activatedTime = None, pu_active = Some True\<rparr>
      in (pm\<lparr>pm_powerUps := pm_powerUps pm @ [powerUp]\<rparr>, stl rs3))"

text \<open>\<^verbatim>\<open>xs.splice(i, 1)\<close>.\<close>

definition splice1 :: "nat \<Rightarrow> 'a list \<Rightarrow> 'a list" where
  "splice1 i xs = take i xs @ drop (Suc i) xs"

definition expired :: "real \<Rightarrow> PowerUp \<Rightarrow> bool" where
  "expired now powerUp =
     (case pu_activatedTime powerUp of
        None \<Rightarrow> False
      | Some activatedTime \<Rightarrow>
          (let elapsedTime = (now - activatedTime) / 1000
           in (case pu_duration powerUp of None \<Rightarrow> False | Some d \<Rightarrow> elapsedTime \<ge> d)))"

text \<open>The loop \<^verbatim>\<open>for (let i = xs.length - 1; i >= 0; i--)\<close> over the active power-ups; the
  first argument is \<open>i + 1\<close>.\<close>

fun expireLoop :: "real \<Rightarrow> nat \<Rightarrow> PowerUp list \<Rightarrow> PowerUp list" where
  "expireLoop now 0 xs = xs"
| "expireLoop now (Suc i) xs =
     expireLoop now i (if expired now (xs ! i) then splice1 i xs else xs)"

definition PowerUpManager_update ::
  "real \<Rightarrow> real \<Rightarrow> real stream \<Rightarrow> PowerUpManager \<Rightarrow> PowerUpManager \<times> real stream" where
  "PowerUpManager_update deltaTime now rs pm =
     (let pm1 = pm\<lparr>pm_spawnTimer := pm_spawnTimer pm - deltaTime\<rparr>;
          (pm2, rs2) =
            (if pm_spawnTimer pm1 \<le> 0 \<and> length (pm_powerUps pm1) < maxPowerUps
             then (let (pm', rs') = spawnPowerUp rs pm1
                   in (pm'\<lparr>pm_spawnTimer := pm_spawnInterval pm'\<rparr>, rs'))
             else (pm1, rs))
      in (pm2\<lparr>pm_activePowerUps :=
                 expireLoop now (length (pm_activePowerUps pm2)) (pm_activePowerUps pm2)\<rparr>, rs2))"

text \<open>The loop of \<^verbatim>\<open>checkPowerUpCollection\<close>: \<open>seen\<close> holds the power-ups before index \<open>i\<close>.
  The first power-up the ball touches is taken off the field, stamped and returned with the
  rest of the field.\<close>

fun collectLoop ::
  "Vector2D \<Rightarrow> real \<Rightarrow> bool \<Rightarrow> real \<Rightarrow> PowerUp list \<Rightarrow> PowerUp list \<Rightarrow> (PowerUp \<times> PowerUp list) option" where
  "collectLoop ballPosition ballRadius isPlayer now seen [] = None"
| "collectLoop ballPosition ballRadius isPlayer now seen (powerUp # rest) =
     (let dx = vec_x ballPosition - vec_x (pu_position powerUp);
          dy = vec_y ballPosition - vec_y (pu_position powerUp);
          distance = sqrt (dx * dx + dy * dy)
      in if distance < ballRadius + pu_radius powerUp
         then Some (powerUp\<lparr>pu_affectsPlayer := (if isPlayer then Player else Opponent),
                             pu_activatedTime := Some now\<rparr>, seen @ rest)
         else collectLoop ballPosition ballRadius isPlayer now (seen @ [powerUp]) rest)"

definition checkPowerUpCollection ::
  "Vector2D \<Rightarrow> real \<Rightarrow> bool \<Rightarrow> real \<Rightarrow> PowerUpManager \<Rightarrow> PowerUp option \<times> PowerUpManager" where
  "checkPowerUpCollection ballPosition ballRadius isPlayer now pm =
     (case collectLoop ballPosition ballRadius isPlayer now [] (pm_powerUps pm) of
        None \<Rightarrow> (None, pm)
      | Some (powerUp, field) \<Rightarrow>
          (Some powerUp,
           pm\<lparr>pm_powerUps := field, pm_activePowerUps := pm_activePowerUps pm @ [powerUp]\<rparr>))"

definition isPowerUpActive :: "PowerUpType \<Rightarrow> Side \<Rightarrow> PowerUpManager \<Rightarrow> bool" where
  "isPowerUpActive type player pm =
     list_ex (\<lambda>p. pu_type p = type \<and> pu_affectsPlayer p = player) (pm_activePowerUps pm)"

definition PowerUpManager_reset :: "PowerUpManager \<Rightarrow> PowerUpManager" where
  "PowerUpManager_reset pm =
     pm\<lparr>pm_powerUps := [], pm_activePowerUps := [], pm_spawnTimer := pm_spawnInterval pm\<rparr>"

definition clearFieldPowerUps :: "PowerUpManager \<Rightarrow> PowerUpManager" where
  "clearFieldPowerUps pm = pm\<lparr>pm_powerUps := []\<rparr>"

definition setFieldSize :: "real \<Rightarrow> real \<Rightarrow> PowerUpManager \<Rightarrow> PowerUpManager" where
  "setFieldSize width height pm = pm\<lparr>pm_fieldWidth := width, pm_fieldHeight := height\<rparr>"

section \<open>Game (Game.ts)\<close>

text \<open>\<^verbatim>\<open>countdownTimeout\<close> holds the handle of a \<^verbatim>\<open>window.setTimeout\<close>. The model keeps the
  callback the pending timer will run, \<^term>\<open>None\<close> when no timer is pending: every path that
  clears a timer without resetting the handle goes on to set a new timer or to
  \<^verbatim>\<open>startGame\<close>, which resets it.\<close>

datatype CountdownCallback = DecrementCb | FailsafeCb

record Game =
  g_ball :: Ball
  g_playerPaddle :: Paddle
  g_opponentPaddle :: Paddle
  g_additionalBalls :: "Ball list"
  g_powerUpManager :: PowerUpManager
  g_turboModeActive :: bool
  g_turboModeTimeRemaining :: real
  g_gameSpeedMultiplier :: real
  g_status :: GameStatus
  g_playerScore :: real
  g_opponentScore :: real
  g_countdown :: real
  g_countdownTimer :: real
  g_winner :: "Side option"
  g_config :: GameConfig
  g_role :: PlayerRole
  g_fieldWidth :: real
  g_fieldHeight :: real
  g_lastUpdateTime :: real
  g_accumulator :: real
  g_countdownTimeout :: "CountdownCallback option"

definition maxAdditionalBalls :: nat where "maxAdditionalBalls = 2"
definition fixedTimeStep :: real where "fixedTimeStep = 1 / 120"
definition maxSteps :: nat where "maxSteps = 5"

definition GAME_DEFAULT_CONFIG :: GameConfig where
  "GAME_DEFAULT_CONFIG =
     \<lparr>cfg_enablePowerUps = True, cfg_enableTurboMode = True, cfg_enablePaddleShrinking = True,
      cfg_enableCurveBall = True, cfg_ballSpeed = 400, cfg_paddleWidth = 12,
      cfg_paddleHeight = 80, cfg_powerUpFrequency = 15, cfg_winningScore = 11\<rparr>"

definition initializeGameObjects :: "Game \<Rightarrow> Game" where
  "initializeGameObjects g =
     (let g1 = g\<lparr>g_ball := Ball_new \<lparr>vec_x = g_fieldWidth g / 2, vec_y = g_fieldHeight g / 2\<rparr>
                                   10 \<lparr>vec_x = 0, vec_y = 0\<rparr> (cfg_ballSpeed (g_config g))\<rparr>;
          paddleY = g_fieldHeight g1 / 2;
          leftPaddleX = 30;
          rightPaddleX = g_fieldWidth g1 - 30;
          cfg = g_config g1;
          mk = (\<lambda>px. Paddle_new \<lparr>vec_x = px, vec_y = paddleY\<rparr> (cfg_paddleWidth cfg)
                                  (cfg_paddleHeight cfg) 500 0 (g_fieldHeight g1))
      in if g_role g1 = HOST
         then g1\<lparr>g_playerPaddle := mk leftPaddleX, g_opponentPaddle := mk rightPaddleX\<rparr>
         else g1\<lparr>g_playerPaddle := mk rightPaddleX, g_opponentPaddle := mk leftPaddleX\<rparr>)"

text \<open>The constructor; \<open>config\<close> is \<^verbatim>\<open>{ ...DEFAULT_CONFIG, ...config }\<close>, already merged. The
  objects that \<^verbatim>\<open>initializeGameObjects\<close> replaces start as the ones it builds.\<close>

definition Game_new :: "PlayerRole \<Rightarrow> GameConfig \<Rightarrow> Game" where
  "Game_new role config =
     (let blank = Ball_new \<lparr>vec_x = 0, vec_y = 0\<rparr> 10 \<lparr>vec_x = 0, vec_y = 0\<rparr> 0;
          pad = Paddle_new \<lparr>vec_x = 0, vec_y = 0\<rparr> 10 60 300 0 600
      in initializeGameObjects
           \<lparr>g_ball = blank, g_playerPaddle = pad, g_opponentPaddle = pad,
            g_additionalBalls = [],
            g_powerUpManager = PowerUpManager_new 800 600 (cfg_powerUpFrequency config),
            g_turboModeActive = False, g_turboModeTimeRemaining = 0,
            g_gameSpeedMultiplier = 1, g_status = WAITING_FOR_OPPONENT, g_playerScore = 0,
            g_opponentScore = 0, g_countdown = 3, g_countdownTimer = 0, g_winner = None,
            g_config = config, g_role = role, g_fieldWidth = 800, g_fieldHeight = 600,
            g_lastUpdateTime = 0, g_accumulator = 0, g_countdownTimeout = None\<rparr>)"

definition resetBall :: "bool \<Rightarrow> real stream \<Rightarrow> Game \<Rightarrow> Game \<times> real stream" where
  "resetBall serveToLeft rs g =
     (let centerPosition = \<lparr>vec_x = g_fieldWidth g / 2, vec_y = g_fieldHeight g / 2\<rparr>;
          vx = (if serveToLeft then - 1 else 1) * cfg_ballSpeed (g_config g);
          vy = (shd rs - 5 / 10) * (cfg_ballSpeed (g_config g) * (5 / 10));
          g1 = g\<lparr>g_ball := Ball_reset centerPosition \<lparr>vec_x = vx, vec_y = vy\<rparr> True (g_ball g)\<rparr>;
          g2 = g1\<lparr>g_playerPaddle :=
                    setPosition \<lparr>vec_x = vec_x (p_position (g_playerPaddle g1)),
                                 vec_y = g_fieldHeight g1 / 2\<rparr> (g_playerPaddle g1)\<rparr>;
          g3 = g2\<lparr>g_opponentPaddle :=
                    setPosition \<lparr>vec_x = vec_x (p_position (g_opponentPaddle g2)),
                                 vec_y = g_fieldHeight g2 / 2\<rparr> (g_opponentPaddle g2)\<rparr>
      in (g3\<lparr>g_additionalBalls := []\<rparr>, stl rs))"

definition startGame :: "real stream \<Rightarrow> Game \<Rightarrow> Game \<times> real stream" where
  "startGame rs g =
     (let g1 = g\<lparr>g_countdownTimeout := None\<rparr>
      in if g_status g1 = PLAYING then (g1, rs)
         else (let g2 = g1\<lparr>g_status := PLAYING\<rparr>;
                   serveToLeft = (shd rs \<ge> 5 / 10)
               in resetBall serveToLeft (stl rs) g2))"

definition setupCountdownFailsafe :: "real stream \<Rightarrow> Game \<Rightarrow> Game \<times> real stream" where
  "setupCountdownFailsafe rs g =
     (let g1 = g\<lparr>g_countdownTimeout := None\<rparr>
      in if g_countdown g1 \<le> 0 then startGame rs g1
         else (g1\<lparr>g_countdownTimeout := Some FailsafeCb\<rparr>, rs))"

definition startCountdown :: "real stream \<Rightarrow> Game \<Rightarrow> Game \<times> real stream" where
  "startCountdown rs g =
     (if g_status g = PLAYING \<or> g_status g = COUNTDOWN then (g, rs)
      else (let g1 = g\<lparr>g_countdownTimeout := None\<rparr>;
                (g2, rs2) = resetBall (shd rs < 5 / 10) (stl rs) g1;
                g3 = g2\<lparr>g_countdown := 3, g_status := COUNTDOWN\<rparr>;
                g4 = g3\<lparr>g_countdownTimeout := Some DecrementCb\<rparr>
            in setupCountdownFailsafe rs2 g4))"

definition decrementCountdown :: "real stream \<Rightarrow> Game \<Rightarrow> Game \<times> real stream" where
  "decrementCountdown rs g =
     (let g1 = g\<lparr>g_countdown := g_countdown g - 1, g_countdownTimer := 0\<rparr>
      in if g_countdown g1 \<le> 0 then startGame rs g1
         else (g1\<lparr>g_countdownTimeout := Some DecrementCb\<rparr>, rs))"

text \<open>The arrow function that \<^verbatim>\<open>setupCountdownFailsafe\<close> schedules.\<close>

definition failsafeCallback :: "real stream \<Rightarrow> Game \<Rightarrow> Game \<times> real stream" where
  "failsafeCallback rs g =
     setupCountdownFailsafe rs (g\<lparr>g_countdown := g_countdown g - 1, g_countdownTimer := 0\<rparr>)"

text \<open>The browser runs the pending countdown timer.\<close>

definition fireCountdownTimeout :: "real stream \<Rightarrow> Game \<Rightarrow> Game \<times> real stream" where
  "fireCountdownTimeout rs g =
     (case g_countdownTimeout g of
        None \<Rightarrow> (g, rs)
      | Some DecrementCb \<Rightarrow> decrementCountdown rs g
      | Some FailsafeCb \<Rightarrow> failsafeCallback rs g)"

definition pauseGame :: "Game \<Rightarrow> Game" where
  "pauseGame g = (if g_status g = PLAYING then g\<lparr>g_status := PAUSED\<rparr> else g)"

definition resumeGame :: "Game \<Rightarrow> Game" where
  "resumeGame g = (if g_status g = PAUSED then g\<lparr>g_status := PLAYING\<rparr> else g)"

definition endGame :: "Side \<Rightarrow> Game \<Rightarrow> Game" where
  "endGame winner g = g\<lparr>g_status := GAME_OVER, g_winner := Some winner\<rparr>"

definition cleanup :: "Game \<Rightarrow> Game" where
  "cleanup g =
     g\<lparr>g_countdownTimeout := None,
       g_powerUpManager := PowerUpManager_reset (g_powerUpManager g),
       g_turboModeActive := False, g_gameSpeedMultiplier := 1\<rparr>"

definition restartGame :: "real stream \<Rightarrow> Game \<Rightarrow> Game \<times> real stream" where
  "restartGame rs g =
     (let g1 = cleanup g;
          g2 = g1\<lparr>g_playerScore := 0, g_opponentScore := 0, g_winner := None\<rparr>;
          g3 = initializeGameObjects g2;
          g4 = g3\<lparr>g_powerUpManager := PowerUpManager_reset (g_powerUpManager g3)\<rparr>;
          g5 = g4\<lparr>g_turboModeActive := False, g_gameSpeedMultiplier := 1\<rparr>;
          g6 = g5\<lparr>g_additionalBalls := []\<rparr>
      in startCountdown rs g6)"

definition setPlayerInput :: "bool \<Rightarrow> bool \<Rightarrow> Game \<Rightarrow> Game" where
  "setPlayerInput isUpPressed isDownPressed g =
     g\<lparr>g_playerPaddle := (g_playerPaddle g)\<lparr>p_isMovingUp := isUpPressed,
                                              p_isMovingDown := isDownPressed\<rparr>\<rparr>"

definition setOpponentInput :: "bool \<Rightarrow> bool \<Rightarrow> Game \<Rightarrow> Game" where
  "setOpponentInput isUpPressed isDownPressed g =
     g\<lparr>g_opponentPaddle := (g_opponentPaddle g)\<lparr>p_isMovingUp := isUpPressed,
                                                  p_isMovingDown := isDownPressed\<rparr>\<rparr>"

definition setStatus :: "GameStatus \<Rightarrow> Game \<Rightarrow> Game" where
  "setStatus status g = g\<lparr>g_status := status\<rparr>"

definition getState :: "real \<Rightarrow> Game \<Rightarrow> GameState" where
  "getState now g =
     \<lparr>gs_status = g_status g,
      gs_playerScore = g_playerScore g,
      gs_opponentScore = g_opponentScore g,
      gs_countdown = (if g_status g = COUNTDOWN then Some (g_countdown g) else None),
      gs_winner = Some (g_winner g),
      gs_playerPaddle = Paddle_getState (g_playerPaddle g),
      gs_opponentPaddle = Paddle_getState (g_opponentPaddle g),
      gs_ball = Ball_getState (g_ball g),
      gs_additionalBalls = Some (map Ball_getState (g_additionalBalls g)),
      gs_config = g_config g,
      gs_turboModeActive = Some (g_turboModeActive g),
      gs_turboModeTimeRemaining = Some (g_turboModeTimeRemaining g),
      gs_activePowerUps = Some (pm_activePowerUps (g_powerUpManager g)),
      gs_powerUps = Some (pm_powerUps (g_powerUpManager g)),
      gs_gameSpeedMultiplier = Some (g_gameSpeedMultiplier g),
      gs_timestamp = Some now\<rparr>"

subsection \<open>One fixed tick\<close>

definition updateGameSpeed :: "real \<Rightarrow> Game \<Rightarrow> Game" where
  "updateGameSpeed deltaTime g =
     (let g1 = (if g_turboModeActive g
                then (let g' = g\<lparr>g_turboModeTimeRemaining := g_turboModeTimeRemaining g - deltaTime\<rparr>
                      in if g_turboModeTimeRemaining g' \<le> 0
                         then g'\<lparr>g_turboModeActive := False, g_gameSpeedMultiplier := 1\<rparr>
                         else g')
                else g)
      in if cfg_enableTurboMode (g_config g1)
         then (let playerHasTurbo = isPowerUpActive TURBO_MODE Player (g_powerUpManager g1);
                   opponentHasTurbo = isPowerUpActive TURBO_MODE Opponent (g_powerUpManager g1)
               in if playerHasTurbo \<or> opponentHasTurbo
                  then g1\<lparr>g_turboModeActive := True, g_turboModeTimeRemaining := 5,
                          g_gameSpeedMultiplier := 15 / 10\<rparr>
                  else g1)
         else g1)"

definition updatePaddleShrinking :: "Game \<Rightarrow> Game" where
  "updatePaddleShrinking g =
     (let g1 = (if isShrunken (g_playerPaddle g)
                then g\<lparr>g_playerPaddle := resetSize False (g_playerPaddle g)\<rparr> else g)
      in if isShrunken (g_opponentPaddle g1)
         then g1\<lparr>g_opponentPaddle := resetSize False (g_opponentPaddle g1)\<rparr> else g1)"

text \<open>The loop of \<^verbatim>\<open>checkPaddleCollisions\<close> over the additional balls. \<open>pp0\<close> and \<open>op0\<close> are
  the paddles as the method read them into its constants before the loop; \<open>pp\<close> and \<open>op\<close>
  are the paddles the loop records hits on.\<close>

fun collideAdditionalBalls ::
  "Paddle \<Rightarrow> Paddle \<Rightarrow> bool \<Rightarrow> bool \<Rightarrow> Ball list \<Rightarrow> Paddle \<Rightarrow> Paddle \<Rightarrow> real stream
   \<Rightarrow> Ball list \<times> Paddle \<times> Paddle \<times> real stream" where
  "collideAdditionalBalls pp0 op0 isPlayerPaddleOnLeft isOpponentPaddleOnLeft [] pp op rs =
     ([], pp, op, rs)"
| "collideAdditionalBalls pp0 op0 isPlayerPaddleOnLeft isOpponentPaddleOnLeft (ball # balls) pp op rs =
     (let (addPlayerCollision, ball1, rs1) =
            checkPaddleCollision (vec_x (p_position pp0)) (vec_y (p_position pp0))
              (p_width pp0) (p_height pp0) isPlayerPaddleOnLeft rs ball;
          (addOpponentCollision, ball2, rs2) =
            checkPaddleCollision (vec_x (p_position op0)) (vec_y (p_position op0))
              (p_width op0) (p_height op0) isOpponentPaddleOnLeft rs1 ball1;
          pp1 = (if addPlayerCollision then recordHit pp else pp);
          op1 = (if addOpponentCollision then recordHit op else op);
          (balls', pp2, op2, rs3) =
            collideAdditionalBalls pp0 op0 isPlayerPaddleOnLeft isOpponentPaddleOnLeft
              balls pp1 op1 rs2
      in (ball2 # balls', pp2, op2, rs3))"

definition checkPaddleCollisions :: "real stream \<Rightarrow> Game \<Rightarrow> Game \<times> real stream" where
  "checkPaddleCollisions rs g =
     (let pp0 = g_playerPaddle g;
          op0 = g_opponentPaddle g;
          isPlayerPaddleOnLeft = (g_role g = HOST);
          (playerCollision, b1, rs1) =
            checkPaddleCollision (vec_x (p_position pp0)) (vec_y (p_position pp0))
              (p_width pp0) (p_height pp0) isPlayerPaddleOnLeft rs (g_ball g);
          isOpponentPaddleOnLeft = (g_role g \<noteq> HOST);
          (opponentCollision, b2, rs2) =
            checkPaddleCollision (vec_x (p_position op0)) (vec_y (p_position op0))
              (p_width op0) (p_height op0) isOpponentPaddleOnLeft rs1 b1;
          (balls, pp1, op1, rs3) =
            collideAdditionalBalls pp0 op0 isPlayerPaddleOnLeft isOpponentPaddleOnLeft
              (g_additionalBalls g) pp0 op0 rs2;
          pp2 = (if playerCollision then recordHit pp1 else pp1);
          op2 = (if opponentCollision then recordHit op1 else op1)
      in (g\<lparr>g_ball := b2, g_additionalBalls := balls, g_playerPaddle := pp2,
             g_opponentPaddle := op2\<rparr>, rs3))"

definition checkBoundaryCollisions :: "Game \<Rightarrow> Game" where
  "checkBoundaryCollisions g =
     g\<lparr>g_ball := snd (checkBoundaryCollision 0 (g_fieldHeight g) (g_ball g)),
       g_additionalBalls :=
         map (\<lambda>ball. snd (checkBoundaryCollision 0 (g_fieldHeight g) ball)) (g_additionalBalls g)\<rparr>"

definition addExtraBall :: "real stream \<Rightarrow> Game \<Rightarrow> Game \<times> real stream" where
  "addExtraBall rs g =
     (if length (g_additionalBalls g) \<ge> maxAdditionalBalls then (g, rs)
      else (let centerPosition = \<lparr>vec_x = g_fieldWidth g / 2, vec_y = g_fieldHeight g / 2\<rparr>;
                angle = shd rs * pi * 2;
                speed = cfg_ballSpeed (g_config g);
                velocity = \<lparr>vec_x = cos angle * speed, vec_y = sin angle * speed\<rparr>;
                extraBall = Ball_new centerPosition 10 velocity (cfg_ballSpeed (g_config g));
                extraBall1 =
                  Ball_setState ((Ball_getState extraBall)
                                   \<lparr>bs_speedScaleFactor := Some (b_speedScaleFactor (g_ball g))\<rparr>)
                                extraBall
            in (g\<lparr>g_additionalBalls := g_additionalBalls g @ [extraBall1]\<rparr>, stl rs)))"

definition applyPowerUpEffect :: "PowerUp \<Rightarrow> real stream \<Rightarrow> Game \<Rightarrow> Game \<times> real stream" where
  "applyPowerUpEffect powerUp rs g =
     (let isPlayerPowerUp = (pu_affectsPlayer powerUp = Player);
          isOpponentPowerUp = (pu_affectsPlayer powerUp = Opponent)
      in case pu_type powerUp of
           SPEED_UP \<Rightarrow>
             (let currentSpeed = b_speedScaleFactor (g_ball g);
                  newFactor = min (25 / 10) (currentSpeed * (13 / 10))
              in (g\<lparr>g_ball := Ball_setState ((Ball_getState (g_ball g))
                                                \<lparr>bs_speedScaleFactor := Some newFactor\<rparr>)
                                             (g_ball g)\<rparr>, rs))
         | ENLARGE_PADDLE \<Rightarrow>
             (if isPlayerPowerUp
              then (g\<lparr>g_playerPaddle := applyResizeEffect (15 / 10) False (g_playerPaddle g)\<rparr>, rs)
              else if isOpponentPowerUp
              then (g\<lparr>g_opponentPaddle := applyResizeEffect (15 / 10) False (g_opponentPaddle g)\<rparr>, rs)
              else (g, rs))
         | SHRINK_OPPONENT \<Rightarrow>
             (if isPlayerPowerUp
              then (g\<lparr>g_opponentPaddle := applyResizeEffect (7 / 10) False (g_opponentPaddle g)\<rparr>, rs)
              else if isOpponentPowerUp
              then (g\<lparr>g_playerPaddle := applyResizeEffect (7 / 10) False (g_playerPaddle g)\<rparr>, rs)
              else (g, rs))
         | CURVE_BALL \<Rightarrow>
             (let curveIntensity = 8 / 10;
                  curveDirection = shd rs * pi * 2
              in (g\<lparr>g_ball := setCurve curveIntensity curveDirection (g_ball g)\<rparr>, stl rs))
         | MULTI_BALL \<Rightarrow> addExtraBall rs g
         | TURBO_MODE \<Rightarrow>
             (g\<lparr>g_turboModeActive := True, g_turboModeTimeRemaining := 5,
                g_gameSpeedMultiplier := 15 / 10\<rparr>, rs)
         | EXTRA_BALL \<Rightarrow> (g, rs))"

text \<open>What \<^verbatim>\<open>checkPowerUpCollections\<close> does for one ball: ask the manager, apply the effect.\<close>

definition collectFor :: "Ball \<Rightarrow> real \<Rightarrow> real stream \<Rightarrow> Game \<Rightarrow> Game \<times> real stream" where
  "collectFor ball now rs g =
     (let ballPos = b_position ball;
          ballRadius = b_radius ball;
          ballVelocity = b_velocity ball;
          isMovingTowardsPlayer =
            ((g_role g = HOST \<and> vec_x ballVelocity < 0) \<or> (g_role g \<noteq> HOST \<and> vec_x ballVelocity > 0));
          (collectedPowerUp, pm) =
            checkPowerUpCollection ballPos ballRadius isMovingTowardsPlayer now (g_powerUpManager g);
          g1 = g\<lparr>g_powerUpManager := pm\<rparr>
      in case collectedPowerUp of
           Some powerUp \<Rightarrow> applyPowerUpEffect powerUp rs g1
         | None \<Rightarrow> (g1, rs))"

lemma length_addExtraBall:
  "max maxAdditionalBalls (length (g_additionalBalls (fst (addExtraBall rs g))))
     = max maxAdditionalBalls (length (g_additionalBalls g))"
  by (simp add: addExtraBall_def Let_def)

lemma length_applyPowerUpEffect:
  "max maxAdditionalBalls (length (g_additionalBalls (fst (applyPowerUpEffect pu rs g))))
     = max maxAdditionalBalls (length (g_additionalBalls g))"
  by (cases "pu_type pu") (simp_all add: applyPowerUpEffect_def Let_def length_addExtraBall)

lemma length_collectFor:
  "max maxAdditionalBalls (length (g_additionalBalls (fst (collectFor ball now rs g))))
     = max maxAdditionalBalls (length (g_additionalBalls g))"
  by (simp add: collectFor_def Let_def length_applyPowerUpEffect split: prod.splits option.splits)

lemma collectFor_measure:
  assumes "(g1, rs1) = collectFor ball now rs g" and "i < length (g_additionalBalls g)"
  shows "max maxAdditionalBalls (length (g_additionalBalls g1)) - Suc i
           < max maxAdditionalBalls (length (g_additionalBalls g)) - i"
proof -
  have "g1 = fst (collectFor ball now rs g)"
    using assms(1) by (metis fst_conv)
  then have "max maxAdditionalBalls (length (g_additionalBalls g1))
             = max maxAdditionalBalls (length (g_additionalBalls g))"
    by (simp add: length_collectFor)
  with assms(2) show ?thesis by simp
qed

text \<open>The \<^verbatim>\<open>for ... of this.additionalBalls\<close> loop of \<^verbatim>\<open>checkPowerUpCollections\<close>, by index:
  the iterator reads the live array, so a ball that a collected multi-ball power-up pushes
  during the loop is visited too. It ends because \<^verbatim>\<open>addExtraBall\<close> stops pushing at
  \<^verbatim>\<open>maxAdditionalBalls\<close>.\<close>

function additionalBallsCollect :: "real \<Rightarrow> nat \<Rightarrow> real stream \<Rightarrow> Game \<Rightarrow> Game \<times> real stream" where
  "additionalBallsCollect now i rs g =
     (if i < length (g_additionalBalls g)
      then (case collectFor (g_additionalBalls g ! i) now rs g of
              (g1, rs1) \<Rightarrow> additionalBallsCollect now (Suc i) rs1 g1)
      else (g, rs))"
  by pat_completeness auto
termination
  by (relation "measure (\<lambda>(now, i, rs, g). max maxAdditionalBalls (length (g_additionalBalls g)) - i)")
     (simp_all add: collectFor_measure)

declare additionalBallsCollect.simps [simp del]

definition checkPowerUpCollections :: "real \<Rightarrow> real stream \<Rightarrow> Game \<Rightarrow> Game \<times> real stream" where
  "checkPowerUpCollections now rs g =
     (let (g1, rs1) = collectFor (g_ball g) now rs g
      in additionalBallsCollect now 0 rs1 g1)"

text \<open>The loop \<^verbatim>\<open>for (let i = balls.length - 1; i >= 0; i--)\<close> of \<^verbatim>\<open>checkScoring\<close>, which
  splices out every additional ball that is past a scoring boundary; the second argument is
  \<open>i + 1\<close>.\<close>

fun removeScoredLoop :: "real \<Rightarrow> nat \<Rightarrow> Ball list \<Rightarrow> Ball list" where
  "removeScoredLoop fieldWidth 0 balls = balls"
| "removeScoredLoop fieldWidth (Suc i) balls =
     removeScoredLoop fieldWidth i
       (if checkScoringBoundary 0 fieldWidth (balls ! i) \<noteq> None then splice1 i balls else balls)"

definition checkScoring :: "real stream \<Rightarrow> Game \<Rightarrow> Game \<times> real stream" where
  "checkScoring rs g =
     (let scoringSide = checkScoringBoundary 0 (g_fieldWidth g) (g_ball g);
          (g1, rs1, scored) =
            (case scoringSide of
               Some LeftB \<Rightarrow>
                 (let ga = (if g_role g = HOST
                            then g\<lparr>g_opponentScore := g_opponentScore g + 1,
                                   g_playerPaddle := resetHitCombo (g_playerPaddle g)\<rparr>
                            else g\<lparr>g_playerScore := g_playerScore g + 1,
                                   g_opponentPaddle := resetHitCombo (g_opponentPaddle g)\<rparr>);
                      (gb, rsb) = resetBall False rs ga
                  in (gb, rsb, True))
             | Some RightB \<Rightarrow>
                 (let ga = (if g_role g = HOST
                            then g\<lparr>g_playerScore := g_playerScore g + 1,
                                   g_opponentPaddle := resetHitCombo (g_opponentPaddle g)\<rparr>
                            else g\<lparr>g_opponentScore := g_opponentScore g + 1,
                                   g_playerPaddle := resetHitCombo (g_playerPaddle g)\<rparr>);
                      (gb, rsb) = resetBall True rs ga
                  in (gb, rsb, True))
             | None \<Rightarrow> (g, rs, False));
          g2 = g1\<lparr>g_additionalBalls :=
                    removeScoredLoop (g_fieldWidth g1) (length (g_additionalBalls g1))
                      (g_additionalBalls g1)\<rparr>;
          g3 = (if g_playerScore g2 \<ge> cfg_winningScore (g_config g2) then endGame Player g2
                else if g_opponentScore g2 \<ge> cfg_winningScore (g_config g2) then endGame Opponent g2
                else g2)
      in (if scored
          then g3\<lparr>g_powerUpManager := clearFieldPowerUps (g_powerUpManager g3)\<rparr>
          else g3, rs1))"

text \<open>The last block of the COUNTDOWN branch of \<^verbatim>\<open>fixedUpdate\<close>:
  \<^verbatim>\<open>if (this.countdown < 0) this.startGame()\<close>.\<close>

definition countdownSafeguard :: "real stream \<Rightarrow> Game \<Rightarrow> Game \<times> real stream" where
  "countdownSafeguard rs g = (if g_countdown g < 0 then startGame rs g else (g, rs))"

text \<open>The COUNTDOWN branch of \<^verbatim>\<open>fixedUpdate\<close>.\<close>

definition countdownTick :: "real \<Rightarrow> real stream \<Rightarrow> Game \<Rightarrow> Game \<times> real stream" where
  "countdownTick deltaTime rs g =
     (let g1 = g\<lparr>g_countdownTimer := g_countdownTimer g + deltaTime\<rparr>
      in if g_countdownTimer g1 > 2
         then (let g2 = g1\<lparr>g_countdown := g_countdown g1 - 1, g_countdownTimer := 0\<rparr>
               in if g_countdown g2 \<le> 0 then startGame rs g2 else countdownSafeguard rs g2)
         else if g_countdownTimer g1 \<ge> 1
         then (let g2 = g1\<lparr>g_countdown := g_countdown g1 - 1, g_countdownTimer := 0\<rparr>;
                   (g3, rs3) = (if g_countdown g2 \<le> 0 then startGame rs g2 else (g2, rs))
               in countdownSafeguard rs3 g3)
         else countdownSafeguard rs g1)"

text \<open>The PLAYING part of \<^verbatim>\<open>fixedUpdate\<close>, from \<^verbatim>\<open>updateGameSpeed\<close> on.\<close>

definition playingTick :: "real \<Rightarrow> real \<Rightarrow> real stream \<Rightarrow> Game \<Rightarrow> Game \<times> real stream" where
  "playingTick deltaTime now rs g =
     (let g1 = updateGameSpeed deltaTime g;
          adjustedDeltaTime = deltaTime * g_gameSpeedMultiplier g1;
          (g2, rs2) =
            (if cfg_enablePowerUps (g_config g1)
             then (let (pm, rs') = PowerUpManager_update adjustedDeltaTime now rs (g_powerUpManager g1)
                   in (g1\<lparr>g_powerUpManager := pm\<rparr>, rs'))
             else (g1, rs));
          g3 = g2\<lparr>g_playerPaddle := Paddle_update adjustedDeltaTime (g_playerPaddle g2)\<rparr>;
          g4 = g3\<lparr>g_opponentPaddle := Paddle_update adjustedDeltaTime (g_opponentPaddle g3)\<rparr>;
          g5 = g4\<lparr>g_ball := Ball_update adjustedDeltaTime (g_ball g4)\<rparr>;
          g6 = g5\<lparr>g_additionalBalls := map (Ball_update adjustedDeltaTime) (g_additionalBalls g5)\<rparr>;
          (g7, rs7) = checkPaddleCollisions rs2 g6;
          g8 = checkBoundaryCollisions g7;
          (g9, rs9) = (if cfg_enablePowerUps (g_config g8)
                       then checkPowerUpCollections now rs7 g8 else (g8, rs7));
          (g10, rs10) = checkScoring rs9 g9
      in (if cfg_enablePaddleShrinking (g_config g10) then updatePaddleShrinking g10 else g10,
          rs10))"

definition fixedUpdate :: "real \<Rightarrow> real \<Rightarrow> real stream \<Rightarrow> Game \<Rightarrow> Game \<times> real stream" where
  "fixedUpdate deltaTime now rs g =
     (if g_status g = WAITING_FOR_OPPONENT \<or> g_status g = GAME_OVER then (g, rs)
      else if g_status g = COUNTDOWN then countdownTick deltaTime rs g
      else if g_status g = PAUSED then (g, rs)
      else playingTick deltaTime now rs g)"

text \<open>The \<^verbatim>\<open>while\<close> loop of \<^verbatim>\<open>update\<close>; \<open>steps\<close> is the loop's own counter, returned with
  the game.\<close>

function updateLoop :: "real \<Rightarrow> nat \<Rightarrow> real stream \<Rightarrow> Game \<Rightarrow> Game \<times> nat \<times> real stream" where
  "updateLoop now steps rs g =
     (if g_accumulator g \<ge> fixedTimeStep \<and> steps < maxSteps
      then (case fixedUpdate fixedTimeStep now rs g of
              (g1, rs1) \<Rightarrow>
                updateLoop now (Suc steps) rs1
                  (g1\<lparr>g_accumulator := g_accumulator g1 - fixedTimeStep\<rparr>))
      else (g, steps, rs))"
  by pat_completeness auto
termination
  by (relation "measure (\<lambda>(now, steps, rs, g). maxSteps - steps)") (simp, simp, arith)

declare updateLoop.simps [simp del]

text \<open>\<^verbatim>\<open>Game.update\<close>. The result carries the final value of \<open>steps\<close>, which counts the
  calls of \<^verbatim>\<open>fixedUpdate\<close>; it is 0 on the first call, which only records the time.\<close>

definition Game_update :: "real \<Rightarrow> real \<Rightarrow> real stream \<Rightarrow> Game \<Rightarrow> Game \<times> nat \<times> real stream" where
  "Game_update currentTime now rs g =
     (if g_lastUpdateTime g = 0 then (g\<lparr>g_lastUpdateTime := currentTime\<rparr>, 0, rs)
      else (let deltaTime = (currentTime - g_lastUpdateTime g) / 1000;
                g1 = g\<lparr>g_lastUpdateTime := currentTime\<rparr>;
                cappedDeltaTime = min deltaTime (1 / 10);
                g2 = g1\<lparr>g_accumulator := g_accumulator g1 + cappedDeltaTime\<rparr>;
                (g3, steps, rs3) = updateLoop now 0 rs g2
            in (if steps \<ge> maxSteps \<and> g_accumulator g3 \<ge> fixedTimeStep
                then g3\<lparr>g_accumulator := 0\<rparr> else g3, steps, rs3)))"

subsection \<open>Applying a received snapshot\<close>

text \<open>The statements of \<^verbatim>\<open>setState\<close> after its early return. The two \<^verbatim>\<open>while\<close> loops that
  push fresh balls and pop excess ones until the list has the length of the received one are
  \<^term>\<open>replicate\<close> and \<^term>\<open>take\<close>; the \<^verbatim>\<open>for\<close> loop that applies the i-th state to the
  i-th ball is \<^term>\<open>map2\<close>.\<close>

definition applySnapshot :: "GameState \<Rightarrow> Game \<Rightarrow> Game" where
  "applySnapshot state g =
     (let g1 = g\<lparr>g_ball := Ball_setState (gs_ball state) (g_ball g),
                 g_playerPaddle := Paddle_setState (gs_playerPaddle state) (g_playerPaddle g),
                 g_opponentPaddle := Paddle_setState (gs_opponentPaddle state) (g_opponentPaddle g),
                 g_playerScore := gs_playerScore state,
                 g_opponentScore := gs_opponentScore state\<rparr>;
          g2 = (case gs_countdown state of
                  Some c \<Rightarrow>
                    (if gs_status state = COUNTDOWN \<and> g_countdown g1 \<noteq> c
                     then g1\<lparr>g_countdown := c, g_countdownTimer := 0\<rparr> else g1)
                | None \<Rightarrow> g1);
          g3 = g2\<lparr>g_winner := (case gs_winner state of Some (Some w) \<Rightarrow> Some w | _ \<Rightarrow> None),
                  g_config := gs_config state\<rparr>;
          g4 = (case gs_turboModeActive state of
                  Some v \<Rightarrow> g3\<lparr>g_turboModeActive := v\<rparr> | None \<Rightarrow> g3);
          g5 = (case gs_turboModeTimeRemaining state of
                  Some v \<Rightarrow> g4\<lparr>g_turboModeTimeRemaining := v\<rparr> | None \<Rightarrow> g4);
          g6 = (case gs_gameSpeedMultiplier state of
                  Some v \<Rightarrow> g5\<lparr>g_gameSpeedMultiplier := v\<rparr> | None \<Rightarrow> g5)
      in case gs_additionalBalls state of
           Some states \<Rightarrow>
             (if length states > 0
              then (let fresh = Ball_new \<lparr>vec_x = g_fieldWidth g6 / 2, vec_y = g_fieldHeight g6 / 2\<rparr>
                                         10 \<lparr>vec_x = 0, vec_y = 0\<rparr> (cfg_ballSpeed (g_config g6));
                        grown = g_additionalBalls g6
                                @ replicate (length states - length (g_additionalBalls g6)) fresh;
                        cut = take (length states) grown
                    in g6\<lparr>g_additionalBalls := map2 Ball_setState states cut\<rparr>)
              else g6\<lparr>g_additionalBalls := []\<rparr>)
         | None \<Rightarrow> g6\<lparr>g_additionalBalls := []\<rparr>)"

definition setState :: "GameState \<Rightarrow> real stream \<Rightarrow> Game \<Rightarrow> Game \<times> real stream" where
  "setState state rs g =
     (let oldStatus = g_status g;
          g1 = g\<lparr>g_status := gs_status state\<rparr>;
          (g2, rs2) =
            (if oldStatus \<noteq> gs_status state \<and> oldStatus = WAITING_FOR_OPPONENT
                \<and> gs_status state = PLAYING
                \<and> vec_x (b_velocity (g_ball g1)) = 0 \<and> vec_y (b_velocity (g_ball g1)) = 0
             then resetBall (shd rs \<ge> 5 / 10) (stl rs) g1
             else (g1, rs))
      in if gs_status state = COUNTDOWN \<and> oldStatus \<noteq> COUNTDOWN
         then startCountdown rs2 g2
         else (applySnapshot state g2, rs2))"

definition resizeField :: "real \<Rightarrow> real \<Rightarrow> Game \<Rightarrow> Game" where
  "resizeField width height g =
     (let g1 = g\<lparr>g_fieldWidth := width, g_fieldHeight := height\<rparr>
      in g1\<lparr>g_playerPaddle := setBoundaries 0 (g_fieldHeight g1) (g_playerPaddle g1),
            g_opponentPaddle := setBoundaries 0 (g_fieldHeight g1) (g_opponentPaddle g1),
            g_powerUpManager := setFieldSize width height (g_powerUpManager g1)\<rparr>)"

subsection \<open>The snapshot with the TypeError written out\<close>

text \<open>JavaScript raises a \<^verbatim>\<open>TypeError\<close> when a property is read or a method is called on
  \<^verbatim>\<open>undefined\<close>. In \<^verbatim>\<open>setState\<close> that can happen at one place, the call
  \<^verbatim>\<open>this.additionalBalls[i].setState(state.additionalBalls[i])\<close>: an array read out of range
  gives \<^verbatim>\<open>undefined\<close>. Every other read of an optional field stands under a test for its
  presence. The functions below are \<^verbatim>\<open>setState\<close> again with that raise as a value and the
  three loops over the additional balls as the source writes them.\<close>

datatype error = TypeError

text \<open>\<^verbatim>\<open>while (this.additionalBalls.length < n) this.additionalBalls.push(new Ball(...))\<close>.\<close>

function pushBalls :: "nat \<Rightarrow> Ball \<Rightarrow> Ball list \<Rightarrow> Ball list" where
  "pushBalls n fresh balls =
     (if length balls < n then pushBalls n fresh (balls @ [fresh]) else balls)"
  by pat_completeness auto
termination
  by (relation "measure (\<lambda>(n, fresh, balls). n - length balls)") auto

declare pushBalls.simps [simp del]

text \<open>\<^verbatim>\<open>while (this.additionalBalls.length > n) this.additionalBalls.pop()\<close>.\<close>

function popBalls :: "nat \<Rightarrow> Ball list \<Rightarrow> Ball list" where
  "popBalls n balls = (if length balls > n then popBalls n (butlast balls) else balls)"
  by pat_completeness auto
termination
  by (relation "measure (\<lambda>(n, balls). length balls)") auto

declare popBalls.simps [simp del]

text \<open>\<^verbatim>\<open>for (let i = 0; i < states.length; i++) this.additionalBalls[i].setState(states[i])\<close>,
  from index \<open>i\<close> on.\<close>

function setBallStates :: "nat \<Rightarrow> BallState list \<Rightarrow> Ball list \<Rightarrow> error + Ball list" where
  "setBallStates i states balls =
     (if i < length states
      then (if i < length balls
            then setBallStates (Suc i) states (balls[i := Ball_setState (states ! i) (balls ! i)])
            else Inl TypeError)
      else Inr balls)"
  by pat_completeness auto
termination
  by (relation "measure (\<lambda>(i, states, balls). length states - i)") auto

declare setBallStates.simps [simp del]

definition applySnapshotE :: "GameState \<Rightarrow> Game \<Rightarrow> error + Game" where
  "applySnapshotE state g =
     (let g1 = g\<lparr>g_ball := Ball_setState (gs_ball state) (g_ball g),
                 g_playerPaddle := Paddle_setState (gs_playerPaddle state) (g_playerPaddle g),
                 g_opponentPaddle := Paddle_setState (gs_opponentPaddle state) (g_opponentPaddle g),
                 g_playerScore := gs_playerScore state,
                 g_opponentScore := gs_opponentScore state\<rparr>;
          g2 = (case gs_countdown state of
                  Some c \<Rightarrow>
                    (if gs_status state = COUNTDOWN \<and> g_countdown g1 \<noteq> c
                     then g1\<lparr>g_countdown := c, g_countdownTimer := 0\<rparr> else g1)
                | None \<Rightarrow> g1);
          g3 = g2\<lparr>g_winner := (case gs_winner state of Some (Some w) \<Rightarrow> Some w | _ \<Rightarrow> None),
                  g_config := gs_config state\<rparr>;
          g4 = (case gs_turboModeActive state of
                  Some v \<Rightarrow> g3\<lparr>g_turboModeActive := v\<rparr> | None \<Rightarrow> g3);
          g5 = (case gs_turboModeTimeRemaining state of
                  Some v \<Rightarrow> g4\<lparr>g_turboModeTimeRemaining := v\<rparr> | None \<Rightarrow> g4);
          g6 = (case gs_gameSpeedMultiplier state of
                  Some v \<Rightarrow> g5\<lparr>g_gameSpeedMultiplier := v\<rparr> | None \<Rightarrow> g5)
      in case gs_additionalBalls state of
           Some states \<Rightarrow>
             (if length states > 0
              then (let fresh = Ball_new \<lparr>vec_x = g_fieldWidth g6 / 2, vec_y = g_fieldHeight g6 / 2\<rparr>
                                         10 \<lparr>vec_x = 0, vec_y = 0\<rparr> (cfg_ballSpeed (g_config g6));
                        grown = pushBalls (length states) fresh (g_additionalBalls g6);
                        cut = popBalls (length states) grown
                    in case setBallStates 0 states cut of
                         Inl e \<Rightarrow> Inl e
                       | Inr balls \<Rightarrow> Inr (g6\<lparr>g_additionalBalls := balls\<rparr>))
              else Inr (g6\<lparr>g_additionalBalls := []\<rparr>))
         | None \<Rightarrow> Inr (g6\<lparr>g_additionalBalls := []\<rparr>))"

definition setStateE :: "GameState \<Rightarrow> real stream \<Rightarrow> Game \<Rightarrow> error + Game \<times> real stream" where
  "setStateE state rs g =
     (let oldStatus = g_status g;
          g1 = g\<lparr>g_status := gs_status state\<rparr>;
          (g2, rs2) =
            (if oldStatus \<noteq> gs_status state \<and> oldStatus = WAITING_FOR_OPPONENT
                \<and> gs_status state = PLAYING
                \<and> vec_x (b_velocity (g_ball g1)) = 0 \<and> vec_y (b_velocity (g_ball g1)) = 0
             then resetBall (shd rs \<ge> 5 / 10) (stl rs) g1
             else (g1, rs))
      in if gs_status state = COUNTDOWN \<and> oldStatus \<noteq> COUNTDOWN
         then Inr (startCountdown rs2 g2)
         else (case applySnapshotE state g2 of
                 Inl e \<Rightarrow> Inl e
               | Inr g3 \<Rightarrow> Inr (g3, rs2)))"

section \<open>SyncService (SyncService.ts)\<close>

record SyncConfig =
  syncInterval :: real
  inputSyncInterval :: real
  maxPredictionTime :: real
  reconciliationThreshold :: real
  pingInterval :: real

definition SYNC_DEFAULT_CONFIG :: SyncConfig where
  "SYNC_DEFAULT_CONFIG =
     \<lparr>syncInterval = 16, inputSyncInterval = 16, maxPredictionTime = 200,
      reconciliationThreshold = 10, pingInterval = 5000\<rparr>"

text \<open>\<open>sy_syncInterval\<close> says whether the handle of the ping interval is set.\<close>

record SyncService =
  sy_config :: SyncConfig
  sy_lastSyncTime :: real
  sy_lastInputSyncTime :: real
  sy_stateBuffer :: "GameState list"
  sy_inputBuffer :: "PaddleMoveMessage list"
  sy_networkLatency :: real
  sy_syncInterval :: bool

definition SyncService_new :: "SyncConfig \<Rightarrow> SyncService" where
  "SyncService_new config =
     \<lparr>sy_config = config, sy_lastSyncTime = 0, sy_lastInputSyncTime = 0, sy_stateBuffer = [],
      sy_inputBuffer = [], sy_networkLatency = 0, sy_syncInterval = False\<rparr>"

text \<open>The exported singleton \<^verbatim>\<open>new SyncService()\<close>.\<close>

definition syncService :: SyncService where
  "syncService = SyncService_new SYNC_DEFAULT_CONFIG"

text \<open>\<^verbatim>\<open>start\<close> returns the service and the messages it hands to the transport: the ping of
  \<^verbatim>\<open>measureLatency\<close>.\<close>

definition SyncService_start :: "real \<Rightarrow> SyncService \<Rightarrow> SyncService \<times> AnyNetworkMessage list" where
  "SyncService_start now sy =
     (if sy_syncInterval sy then (sy, [])
      else (sy\<lparr>sy_stateBuffer := [], sy_inputBuffer := [], sy_syncInterval := True\<rparr>,
            [PingMsg now]))"

definition SyncService_stop :: "SyncService \<Rightarrow> SyncService" where
  "SyncService_stop sy = sy\<lparr>sy_syncInterval := False, sy_stateBuffer := [], sy_inputBuffer := []\<rparr>"

definition bufferGameState :: "GameState \<Rightarrow> SyncService \<Rightarrow> SyncService" where
  "bufferGameState state sy =
     (let buf = (if length (sy_stateBuffer sy) \<ge> 10 then tl (sy_stateBuffer sy)
                 else sy_stateBuffer sy)
      in sy\<lparr>sy_stateBuffer := buf @ [state]\<rparr>)"

definition bufferInput :: "PaddleMoveMessage \<Rightarrow> SyncService \<Rightarrow> SyncService" where
  "bufferInput input sy =
     (let buf = (if length (sy_inputBuffer sy) \<ge> 10 then tl (sy_inputBuffer sy)
                 else sy_inputBuffer sy)
      in sy\<lparr>sy_inputBuffer := buf @ [input]\<rparr>)"

definition needsReconciliation :: "GameState \<Rightarrow> GameState \<Rightarrow> SyncService \<Rightarrow> bool" where
  "needsReconciliation localState remoteState sy =
     (let ballDiff =
            sqrt ((vec_x (bs_position (gs_ball localState))
                     - vec_x (bs_position (gs_ball remoteState))) ^ 2
                  + (vec_y (bs_position (gs_ball localState))
                       - vec_y (bs_position (gs_ball remoteState))) ^ 2);
          playerPaddleDiff =
            \<bar>vec_y (ps_position (gs_playerPaddle localState))
               - vec_y (ps_position (gs_playerPaddle remoteState))\<bar>;
          opponentPaddleDiff =
            \<bar>vec_y (ps_position (gs_opponentPaddle localState))
               - vec_y (ps_position (gs_opponentPaddle remoteState))\<bar>
      in ballDiff > reconciliationThreshold (sy_config sy)
         \<or> playerPaddleDiff > reconciliationThreshold (sy_config sy)
         \<or> opponentPaddleDiff > reconciliationThreshold (sy_config sy))"

section \<open>GameManager (GameManager.ts)\<close>

text \<open>\<^verbatim>\<open>WebRTCService\<close> is not among the sources. The manager's record carries what the
  manager sees of it: \<open>gm_connectionStatus\<close> is what \<^verbatim>\<open>getConnectionStatus()\<close> returns and
  \<open>gm_sent\<close> lists the messages handed to \<^verbatim>\<open>sendMessage\<close>, oldest first. \<open>gm_sync\<close> is the
  \<^verbatim>\<open>syncService\<close> singleton and \<open>gm_gameLoopRunning\<close> the \<^verbatim>\<open>isRunning\<close> flag of the
  \<^verbatim>\<open>GameLoop\<close>. The keyboard state is left out.\<close>

record GameManager =
  gm_game :: Game
  gm_gameLoopRunning :: bool
  gm_isHost :: bool
  gm_isNetworkGame :: bool
  gm_lastProcessedGameControl :: "(GameControlAction \<times> real) option"
  gm_isStarting :: bool
  gm_sync :: SyncService
  gm_connectionStatus :: ConnectionStatus
  gm_sent :: "AnyNetworkMessage list"

definition GameManager_new :: "PlayerRole \<Rightarrow> ConnectionStatus \<Rightarrow> GameConfig \<Rightarrow> GameManager" where
  "GameManager_new webRole connectionStatus config =
     (let isHost = (webRole = HOST);
          role = (if isHost then HOST else CLIENT)
      in \<lparr>gm_game = Game_new role config, gm_gameLoopRunning = False, gm_isHost = isHost,
          gm_isNetworkGame = (connectionStatus \<noteq> DISCONNECTED),
          gm_lastProcessedGameControl = None, gm_isStarting = False, gm_sync = syncService,
          gm_connectionStatus = connectionStatus, gm_sent = []\<rparr>)"

definition sendGameControl :: "GameControlAction \<Rightarrow> real \<Rightarrow> GameManager \<Rightarrow> GameManager" where
  "sendGameControl action now m =
     m\<lparr>gm_sent := gm_sent m @ [GameControlMsg \<lparr>gcm_action = action, gcm_timestamp = Some now\<rparr>]\<rparr>"

definition GameManager_startGame :: "real \<Rightarrow> real stream \<Rightarrow> GameManager \<Rightarrow> GameManager \<times> real stream" where
  "GameManager_startGame now rs m =
     (if gm_isNetworkGame m \<and> gm_connectionStatus m \<noteq> CONNECTED then (m, rs)
      else if gm_isNetworkGame m \<and> \<not> gm_isHost m then (sendGameControl START now m, rs)
      else (let (g, rs1) = startCountdown rs (gm_game m);
                m1 = m\<lparr>gm_game := g, gm_gameLoopRunning := True\<rparr>;
                m2 = (if gm_isNetworkGame m1
                      then (let (sy, out) = SyncService_start now (gm_sync m1)
                            in m1\<lparr>gm_sync := sy, gm_sent := gm_sent m1 @ out\<rparr>)
                      else m1)
            in (if gm_isNetworkGame m2 \<and> gm_isHost m2 then sendGameControl START now m2 else m2,
                rs1)))"

definition GameManager_pauseGame :: "real \<Rightarrow> GameManager \<Rightarrow> GameManager" where
  "GameManager_pauseGame now m =
     (if gm_isNetworkGame m \<and> \<not> gm_isHost m then sendGameControl PAUSE now m
      else (let m1 = m\<lparr>gm_game := pauseGame (gm_game m)\<rparr>
            in if gm_isNetworkGame m1 \<and> gm_isHost m1 then sendGameControl PAUSE now m1 else m1))"

definition GameManager_resumeGame :: "real \<Rightarrow> GameManager \<Rightarrow> GameManager" where
  "GameManager_resumeGame now m =
     (if gm_isNetworkGame m \<and> \<not> gm_isHost m then sendGameControl RESUME now m
      else (let m1 = m\<lparr>gm_game := resumeGame (gm_game m)\<rparr>
            in if gm_isNetworkGame m1 \<and> gm_isHost m1 then sendGameControl RESUME now m1 else m1))"

definition GameManager_restartGame ::
  "real \<Rightarrow> real stream \<Rightarrow> GameManager \<Rightarrow> GameManager \<times> real stream" where
  "GameManager_restartGame now rs m =
     (if gm_isNetworkGame m \<and> \<not> gm_isHost m then (sendGameControl RESTART now m, rs)
      else (let (g, rs1) = restartGame rs (gm_game m);
                m1 = m\<lparr>gm_game := g\<rparr>
            in (if gm_isNetworkGame m1 \<and> gm_isHost m1 then sendGameControl RESTART now m1 else m1,
                rs1)))"

text \<open>The handler of \<^verbatim>\<open>GAME_STATE\<close> messages that \<^verbatim>\<open>setupNetworkHandlers\<close> registers.\<close>

definition onGameState ::
  "real \<Rightarrow> real stream \<Rightarrow> GameStateMessage \<Rightarrow> GameManager \<Rightarrow> GameManager \<times> real stream" where
  "onGameState now rs message m =
     (if gm_isHost m then (m, rs)
      else (let remote = gsm_state message;
                m1 = m\<lparr>gm_sync := bufferGameState remote (gm_sync m)\<rparr>;
                localState = getState now (gm_game m1);
                m2 = (if gs_status localState = WAITING_FOR_OPPONENT
                         \<and> gs_status remote \<noteq> WAITING_FOR_OPPONENT
                      then (let ma = m1\<lparr>gm_game := setStatus (gs_status remote) (gm_game m1),
                                         gm_gameLoopRunning := True\<rparr>;
                                (sy, out) = SyncService_start now (gm_sync ma)
                            in ma\<lparr>gm_sync := sy, gm_sent := gm_sent ma @ out\<rparr>)
                      else m1)
            in if needsReconciliation localState remote (gm_sync m2)
               then (let (g, rs1) = setState remote rs (gm_game m2) in (m2\<lparr>gm_game := g\<rparr>, rs1))
               else (let updatedState =
                           localState\<lparr>gs_ball := gs_ball remote,
                                      gs_opponentPaddle := gs_opponentPaddle remote,
                                      gs_playerScore := gs_playerScore remote,
                                      gs_opponentScore := gs_opponentScore remote,
                                      gs_status := gs_status remote,
                                      gs_countdown := gs_countdown remote,
                                      gs_winner := gs_winner remote\<rparr>;
                         (g, rs1) = setState updatedState rs (gm_game m2)
                     in (m2\<lparr>gm_game := g\<rparr>, rs1))))"

text \<open>The handler of \<^verbatim>\<open>PADDLE_MOVE\<close> messages.\<close>

definition onPaddleMove :: "PaddleMoveMessage \<Rightarrow> GameManager \<Rightarrow> GameManager" where
  "onPaddleMove message m =
     (if gm_isHost m
      then m\<lparr>gm_sync := bufferInput message (gm_sync m),
             gm_game := setOpponentInput (pmm_isUpPressed message) (pmm_isDownPressed message)
                          (gm_game m)\<rparr>
      else m)"

text \<open>The handler of \<^verbatim>\<open>GAME_CONTROL\<close> messages. A timestamp is truthy when it is present
  and not 0. The timer that resets \<^verbatim>\<open>isStarting\<close> two seconds after a START is
  \<open>isStartingTimeout\<close> below.\<close>

definition onGameControl ::
  "real \<Rightarrow> real stream \<Rightarrow> GameControlMessage \<Rightarrow> GameManager \<Rightarrow> GameManager \<times> real stream" where
  "onGameControl now rs message m =
     (let older = (case (gm_lastProcessedGameControl m, gcm_timestamp message) of
                     (Some (lastAction, lastTimestamp), Some t) \<Rightarrow>
                       lastTimestamp \<noteq> 0 \<and> t \<noteq> 0 \<and> t < lastTimestamp
                   | _ \<Rightarrow> False)
      in if older then (m, rs)
         else (let timestamp = (case gcm_timestamp message of
                                  Some t \<Rightarrow> (if t \<noteq> 0 then t else now)
                                | None \<Rightarrow> now);
                   m1 = m\<lparr>gm_lastProcessedGameControl := Some (gcm_action message, timestamp)\<rparr>
               in case gcm_action message of
                    START \<Rightarrow>
                      (if \<not> gm_isStarting m1
                       then GameManager_startGame now rs (m1\<lparr>gm_isStarting := True\<rparr>)
                       else (m1, rs))
                  | PAUSE \<Rightarrow> (GameManager_pauseGame now m1, rs)
                  | RESUME \<Rightarrow> (GameManager_resumeGame now m1, rs)
                  | RESTART \<Rightarrow> GameManager_restartGame now rs m1))"

definition isStartingTimeout :: "GameManager \<Rightarrow> GameManager" where
  "isStartingTimeout m = m\<lparr>gm_isStarting := False\<rparr>"


section \<open>Stages, predicates and example states of the statements\<close>

text \<open>
  The definitions below are not functions of the program. A stage names a part of the body of
  a method, and a lemma of the later sections relates the method to its stages;
  a predicate names a condition that a statement is about; an example state is a concrete game,
  paddle, ball or message on which a statement is evaluated.
\<close>

subsection \<open>The reconciliation test\<close>

text \<open>A position as a point of the plane; \<^term>\<open>dist\<close> on \<^typ>\<open>complex\<close> is the Euclidean
  distance.\<close>

definition point :: "Vector2D \<Rightarrow> complex" where
  "point v = Complex (vec_x v) (vec_y v)"


subsection \<open>The speed scale of a rally\<close>

text \<open>Consecutive paddle hits with no serve in between: one \<^verbatim>\<open>increaseBallSpeed\<close> per hit,
  the list giving what \<^verbatim>\<open>Math.random()\<close> returns at each hit.\<close>

definition paddleHits :: "real list \<Rightarrow> Ball \<Rightarrow> Ball" where
  "paddleHits rs b = fold increaseBallSpeed rs b"

text \<open>A ball as \<^verbatim>\<open>resetBall\<close> serves it on the default field.\<close>

definition servedBall :: Ball where
  "servedBall = Ball_reset \<lparr>vec_x = 400, vec_y = 300\<rparr> \<lparr>vec_x = 400, vec_y = 0\<rparr> True
                  (Ball_new \<lparr>vec_x = 400, vec_y = 300\<rparr> 10 \<lparr>vec_x = 0, vec_y = 0\<rparr> 400)"


subsection \<open>The paddle inside its boundaries\<close>

text \<open>The interval of the boundaries has room for the paddle's height; the paddle's centre is
  half a height away from either boundary.\<close>

definition fitsBoundaries :: "Paddle \<Rightarrow> bool" where
  "fitsBoundaries p \<longleftrightarrow> p_maxY p - p_minY p \<ge> p_height p"

definition contained :: "Paddle \<Rightarrow> bool" where
  "contained p \<longleftrightarrow>
     p_minY p + p_height p / 2 \<le> vec_y (p_position p)
     \<and> vec_y (p_position p) \<le> p_maxY p - p_height p / 2"

text \<open>The first statement of \<open>update\<close>: the branch on the rebound and dash flags.\<close>

definition moved :: "real \<Rightarrow> Paddle \<Rightarrow> Paddle" where
  "moved dt p = (if p_isRebounding p then updateRebound dt p
                 else if p_isDashing p then updateDash dt p else updateMovement dt p)"

text \<open>The host's paddle of the default game, moving down.\<close>

definition examplePaddle :: Paddle where
  "examplePaddle = (Paddle_new \<lparr>vec_x = 30, vec_y = 300\<rparr> 12 80 500 0 600)\<lparr>p_isMovingDown := True\<rparr>"

text \<open>A paddle of height 80 in the middle of boundaries 100 apart, and a paddle of height 80
  at the top of the default field.\<close>

definition narrowPaddle :: Paddle where
  "narrowPaddle = Paddle_new \<lparr>vec_x = 30, vec_y = 50\<rparr> 12 80 500 0 100"

definition topPaddle :: Paddle where
  "topPaddle = Paddle_new \<lparr>vec_x = 30, vec_y = 40\<rparr> 12 80 500 0 600"


subsection \<open>Scoring\<close>

text \<open>The game after the first block of \<open>checkScoring\<close>: the main ball's score and reset.\<close>

definition mainBallScored :: "real stream \<Rightarrow> Game \<Rightarrow> Game \<times> real stream \<times> bool" where
  "mainBallScored rs g =
     (case checkScoringBoundary 0 (g_fieldWidth g) (g_ball g) of
        Some LeftB \<Rightarrow>
          (let ga = (if g_role g = HOST
                     then g\<lparr>g_opponentScore := g_opponentScore g + 1,
                            g_playerPaddle := resetHitCombo (g_playerPaddle g)\<rparr>
                     else g\<lparr>g_playerScore := g_playerScore g + 1,
                            g_opponentPaddle := resetHitCombo (g_opponentPaddle g)\<rparr>);
               (gb, rsb) = resetBall False rs ga
           in (gb, rsb, True))
      | Some RightB \<Rightarrow>
          (let ga = (if g_role g = HOST
                     then g\<lparr>g_playerScore := g_playerScore g + 1,
                            g_opponentPaddle := resetHitCombo (g_opponentPaddle g)\<rparr>
                     else g\<lparr>g_opponentScore := g_opponentScore g + 1,
                            g_playerPaddle := resetHitCombo (g_playerPaddle g)\<rparr>);
               (gb, rsb) = resetBall True rs ga
           in (gb, rsb, True))
      | None \<Rightarrow> (g, rs, False))"

text \<open>The rest of \<open>checkScoring\<close>: additional balls, win condition, field power-ups.\<close>

definition afterMainBall :: "Game \<times> real stream \<times> bool \<Rightarrow> Game \<times> real stream" where
  "afterMainBall t =
     (case t of (g1, rs1, scored) \<Rightarrow>
        (let g2 = g1\<lparr>g_additionalBalls :=
                      removeScoredLoop (g_fieldWidth g1) (length (g_additionalBalls g1))
                        (g_additionalBalls g1)\<rparr>;
             g3 = (if g_playerScore g2 \<ge> cfg_winningScore (g_config g2) then endGame Player g2
                   else if g_opponentScore g2 \<ge> cfg_winningScore (g_config g2)
                   then endGame Opponent g2
                   else g2)
         in (if scored
             then g3\<lparr>g_powerUpManager := clearFieldPowerUps (g_powerUpManager g3)\<rparr>
             else g3, rs1)))"

text \<open>The first statements of a scoring branch of \<open>checkScoring\<close>: the score and the combo.\<close>

definition creditScore :: "Boundary \<Rightarrow> Game \<Rightarrow> Game" where
  "creditScore side g =
     (if (side = LeftB) = (g_role g = HOST)
      then g\<lparr>g_opponentScore := g_opponentScore g + 1,
             g_playerPaddle := resetHitCombo (g_playerPaddle g)\<rparr>
      else g\<lparr>g_playerScore := g_playerScore g + 1,
             g_opponentPaddle := resetHitCombo (g_opponentPaddle g)\<rparr>)"

text \<open>What a tick leaves alone until it checks the scores: the two scores, the role, the size
  of the field, the configuration and the base speed of the main ball.\<close>

definition tally :: "Game \<Rightarrow> real \<times> real \<times> PlayerRole \<times> real \<times> real \<times> GameConfig \<times> real" where
  "tally g = (g_playerScore g, g_opponentScore g, g_role g, g_fieldWidth g, g_fieldHeight g,
              g_config g, b_baseSpeed (g_ball g))"

text \<open>The host of a default game in play.\<close>

definition hostGame :: Game where
  "hostGame = (Game_new HOST GAME_DEFAULT_CONFIG)\<lparr>g_status := PLAYING\<rparr>"

text \<open>The main ball has run out on the host's side with speed 400.\<close>

definition outLeftBall :: Ball where
  "outLeftBall = (Ball_new \<lparr>vec_x = 5, vec_y = 300\<rparr> 10 \<lparr>vec_x = - 400, vec_y = 0\<rparr> 400)
                   \<lparr>b_hitCounter := 3, b_speedScaleFactor := 13 / 10\<rparr>"

definition outLeftGame :: Game where
  "outLeftGame = hostGame\<lparr>g_ball := outLeftBall\<rparr>"

text \<open>Two additional balls, the first one past the left boundary; the main ball is at the
  centre.\<close>

definition multiBallGame :: Game where
  "multiBallGame =
     hostGame\<lparr>g_additionalBalls :=
                [Ball_new \<lparr>vec_x = 5, vec_y = 100\<rparr> 10 \<lparr>vec_x = - 400, vec_y = 0\<rparr> 400,
                 Ball_new \<lparr>vec_x = 200, vec_y = 100\<rparr> 10 \<lparr>vec_x = 400, vec_y = 0\<rparr> 400]\<rparr>"


subsection \<open>Applying a snapshot without optional fields\<close>

text \<open>The condition of \<open>setState\<close>'s early return: the snapshot enters the countdown.\<close>

definition entersCountdown :: "GameState \<Rightarrow> Game \<Rightarrow> bool" where
  "entersCountdown state g \<longleftrightarrow> gs_status state = COUNTDOWN \<and> g_status g \<noteq> COUNTDOWN"

text \<open>The condition under which \<open>setState\<close> serves the ball before it applies the snapshot:
  a waiting game with a ball at rest receives a PLAYING snapshot.\<close>

definition servesFirst :: "GameState \<Rightarrow> Game \<Rightarrow> bool" where
  "servesFirst state g \<longleftrightarrow>
     g_status g = WAITING_FOR_OPPONENT \<and> gs_status state = PLAYING
     \<and> vec_x (b_velocity (g_ball g)) = 0 \<and> vec_y (b_velocity (g_ball g)) = 0"

text \<open>The game \<open>setState\<close> applies the snapshot to.\<close>

definition beforeSnapshot :: "GameState \<Rightarrow> real stream \<Rightarrow> Game \<Rightarrow> Game" where
  "beforeSnapshot state rs g =
     (if servesFirst state g
      then fst (resetBall (shd rs \<ge> 5 / 10) (stl rs) (g\<lparr>g_status := gs_status state\<rparr>))
      else g\<lparr>g_status := gs_status state\<rparr>)"

text \<open>The three parts of \<open>applySnapshot\<close>: the objects, scores, countdown, winner and
  configuration; the three optional speed fields; the additional balls.\<close>

definition snapshotRequired :: "GameState \<Rightarrow> Game \<Rightarrow> Game" where
  "snapshotRequired state g =
     (let g1 = g\<lparr>g_ball := Ball_setState (gs_ball state) (g_ball g),
                 g_playerPaddle := Paddle_setState (gs_playerPaddle state) (g_playerPaddle g),
                 g_opponentPaddle := Paddle_setState (gs_opponentPaddle state) (g_opponentPaddle g),
                 g_playerScore := gs_playerScore state,
                 g_opponentScore := gs_opponentScore state\<rparr>;
          g2 = (case gs_countdown state of
                  Some c \<Rightarrow>
                    (if gs_status state = COUNTDOWN \<and> g_countdown g1 \<noteq> c
                     then g1\<lparr>g_countdown := c, g_countdownTimer := 0\<rparr> else g1)
                | None \<Rightarrow> g1)
      in g2\<lparr>g_winner := (case gs_winner state of Some (Some w) \<Rightarrow> Some w | _ \<Rightarrow> None),
            g_config := gs_config state\<rparr>)"

definition snapshotSpeed :: "GameState \<Rightarrow> Game \<Rightarrow> Game" where
  "snapshotSpeed state g3 =
     (let g4 = (case gs_turboModeActive state of
                  Some v \<Rightarrow> g3\<lparr>g_turboModeActive := v\<rparr> | None \<Rightarrow> g3);
          g5 = (case gs_turboModeTimeRemaining state of
                  Some v \<Rightarrow> g4\<lparr>g_turboModeTimeRemaining := v\<rparr> | None \<Rightarrow> g4)
      in (case gs_gameSpeedMultiplier state of
            Some v \<Rightarrow> g5\<lparr>g_gameSpeedMultiplier := v\<rparr> | None \<Rightarrow> g5))"

definition snapshotBalls :: "GameState \<Rightarrow> Game \<Rightarrow> Game" where
  "snapshotBalls state g6 =
     (case gs_additionalBalls state of
        Some states \<Rightarrow>
          (if length states > 0
           then (let fresh = Ball_new \<lparr>vec_x = g_fieldWidth g6 / 2, vec_y = g_fieldHeight g6 / 2\<rparr>
                                      10 \<lparr>vec_x = 0, vec_y = 0\<rparr> (cfg_ballSpeed (g_config g6));
                     grown = g_additionalBalls g6
                             @ replicate (length states - length (g_additionalBalls g6)) fresh;
                     cut = take (length states) grown
                 in g6\<lparr>g_additionalBalls := map2 Ball_setState states cut\<rparr>)
           else g6\<lparr>g_additionalBalls := []\<rparr>)
      | None \<Rightarrow> g6\<lparr>g_additionalBalls := []\<rparr>)"

text \<open>Every optional field of the snapshot, of its ball and of its two paddles is absent.\<close>

definition optionalFieldsAbsent :: "GameState \<Rightarrow> bool" where
  "optionalFieldsAbsent state \<longleftrightarrow>
     gs_countdown state = None \<and> gs_winner state = None \<and> gs_additionalBalls state = None
     \<and> gs_powerUps state = None \<and> gs_activePowerUps state = None
     \<and> gs_turboModeActive state = None \<and> gs_turboModeTimeRemaining state = None
     \<and> gs_gameSpeedMultiplier state = None
     \<and> bs_speedScaleFactor (gs_ball state) = None \<and> bs_hitCounter (gs_ball state) = None
     \<and> bs_curveIntensity (gs_ball state) = None \<and> bs_curveDirection (gs_ball state) = None
     \<and> ps_isRebounding (gs_playerPaddle state) = None
     \<and> ps_reboundTime (gs_playerPaddle state) = None
     \<and> ps_isRebounding (gs_opponentPaddle state) = None
     \<and> ps_reboundTime (gs_opponentPaddle state) = None"

text \<open>A snapshot with the given status whose optional fields are all absent.\<close>

definition bareState :: "GameStatus \<Rightarrow> GameState" where
  "bareState status =
     \<lparr>gs_status = status, gs_playerScore = 2, gs_opponentScore = 1, gs_countdown = None,
      gs_winner = None,
      gs_playerPaddle = \<lparr>ps_position = \<lparr>vec_x = 30, vec_y = 250\<rparr>, ps_width = 12, ps_height = 80,
                         ps_isMovingUp = False, ps_isMovingDown = False,
                         ps_isRebounding = None, ps_reboundTime = None\<rparr>,
      gs_opponentPaddle = \<lparr>ps_position = \<lparr>vec_x = 770, vec_y = 350\<rparr>, ps_width = 12,
                           ps_height = 80, ps_isMovingUp = False, ps_isMovingDown = False,
                           ps_isRebounding = None, ps_reboundTime = None\<rparr>,
      gs_ball = \<lparr>bs_position = \<lparr>vec_x = 420, vec_y = 310\<rparr>,
                 bs_velocity = \<lparr>vec_x = 400, vec_y = 0\<rparr>, bs_radius = 10,
                 bs_speedScaleFactor = None, bs_hitCounter = None, bs_curveIntensity = None,
                 bs_curveDirection = None\<rparr>,
      gs_additionalBalls = None, gs_config = GAME_DEFAULT_CONFIG, gs_turboModeActive = None,
      gs_turboModeTimeRemaining = None, gs_activePowerUps = None, gs_powerUps = None,
      gs_gameSpeedMultiplier = None, gs_timestamp = None\<rparr>"

text \<open>A finished match that the player won.\<close>

definition finishedGame :: Game where
  "finishedGame = hostGame\<lparr>g_status := GAME_OVER, g_winner := Some Player, g_playerScore := 11\<rparr>"

text \<open>A game in play under turbo mode with one additional ball.\<close>

definition turboGame :: Game where
  "turboGame =
     hostGame\<lparr>g_turboModeActive := True, g_turboModeTimeRemaining := 3,
               g_gameSpeedMultiplier := 3 / 2,
               g_additionalBalls :=
                 [Ball_new \<lparr>vec_x = 200, vec_y = 100\<rparr> 10 \<lparr>vec_x = 400, vec_y = 0\<rparr> 400]\<rparr>"

text \<open>A waiting client whose ball is at rest with the counters of three hits.\<close>

definition restingGame :: Game where
  "restingGame =
     (Game_new CLIENT GAME_DEFAULT_CONFIG)
       \<lparr>g_ball := (Ball_new \<lparr>vec_x = 400, vec_y = 300\<rparr> 10 \<lparr>vec_x = 0, vec_y = 0\<rparr> 400)
                    \<lparr>b_hitCounter := 3, b_speedScaleFactor := 31 / 25\<rparr>\<rparr>"


subsection \<open>The client's handler of host snapshots\<close>

text \<open>The game the client's handler hands to \<open>setState\<close>: a waiting game has taken the status
  of a snapshot that is not waiting.\<close>

definition afterWaitingCheck :: "GameState \<Rightarrow> Game \<Rightarrow> Game" where
  "afterWaitingCheck remote g =
     (if g_status g = WAITING_FOR_OPPONENT \<and> gs_status remote \<noteq> WAITING_FOR_OPPONENT
      then setStatus (gs_status remote) g else g)"

text \<open>The snapshot the handler builds on the soft-merge path.\<close>

definition softMerged :: "GameState \<Rightarrow> GameState \<Rightarrow> GameState" where
  "softMerged localState remote =
     localState\<lparr>gs_ball := gs_ball remote,
                gs_opponentPaddle := gs_opponentPaddle remote,
                gs_playerScore := gs_playerScore remote,
                gs_opponentScore := gs_opponentScore remote,
                gs_status := gs_status remote,
                gs_countdown := gs_countdown remote,
                gs_winner := gs_winner remote\<rparr>"

text \<open>The manager after the handler has buffered the snapshot and left the waiting state.\<close>

definition clientPrepared :: "real \<Rightarrow> GameStateMessage \<Rightarrow> GameManager \<Rightarrow> GameManager" where
  "clientPrepared now message m =
     (let remote = gsm_state message;
          m1 = m\<lparr>gm_sync := bufferGameState remote (gm_sync m)\<rparr>;
          localState = getState now (gm_game m1)
      in if gs_status localState = WAITING_FOR_OPPONENT
            \<and> gs_status remote \<noteq> WAITING_FOR_OPPONENT
         then (let ma = m1\<lparr>gm_game := setStatus (gs_status remote) (gm_game m1),
                            gm_gameLoopRunning := True\<rparr>;
                   (sy, out) = SyncService_start now (gm_sync ma)
               in ma\<lparr>gm_sync := sy, gm_sent := gm_sent ma @ out\<rparr>)
         else m1)"

text \<open>The local statuses from which a COUNTDOWN snapshot makes \<open>setState\<close> return early.\<close>

definition pastCountdown :: "GameStatus \<Rightarrow> bool" where
  "pastCountdown status \<longleftrightarrow> status = PLAYING \<or> status = PAUSED \<or> status = GAME_OVER"

text \<open>A client in play with the ball at the centre, and two snapshots of the host that
  differ from the client's state in the ball position only: by 3 px and by 50 px.\<close>

definition clientGame :: Game where
  "clientGame = (Game_new CLIENT GAME_DEFAULT_CONFIG)\<lparr>g_status := PLAYING, g_ball := servedBall\<rparr>"

definition clientManager :: GameManager where
  "clientManager = (GameManager_new CLIENT CONNECTED GAME_DEFAULT_CONFIG)\<lparr>gm_game := clientGame\<rparr>"

definition snapshotAt :: "real \<Rightarrow> GameStateMessage" where
  "snapshotAt x =
     \<lparr>gsm_state = (getState 0 clientGame)
                     \<lparr>gs_ball := (gs_ball (getState 0 clientGame))
                                   \<lparr>bs_position := \<lparr>vec_x = x, vec_y = 300\<rparr>\<rparr>\<rparr>,
      gsm_timestamp = Some 0\<rparr>"


subsection \<open>Status, countdown and winner\<close>

text \<open>Status and winner, the two fields the lifecycle couples.\<close>

definition lifecycle :: "Game \<Rightarrow> GameStatus \<times> Side option" where
  "lifecycle g = (g_status g, g_winner g)"

text \<open>The coupling the claim is about, on the game: a winner only in GAME_OVER.\<close>

definition winnerOnlyWhenOver :: "Game \<Rightarrow> bool" where
  "winnerOnlyWhenOver g \<longleftrightarrow> g_winner g = None \<or> g_status g = GAME_OVER"

text \<open>The game that \<open>playingTick\<close> hands to \<open>checkScoring\<close>.\<close>

definition beforeScoring :: "real \<Rightarrow> real \<Rightarrow> real stream \<Rightarrow> Game \<Rightarrow> Game \<times> real stream" where
  "beforeScoring deltaTime now rs g =
     (let g1 = updateGameSpeed deltaTime g;
          adjustedDeltaTime = deltaTime * g_gameSpeedMultiplier g1;
          (g2, rs2) =
            (if cfg_enablePowerUps (g_config g1)
             then (let (pm, rs') = PowerUpManager_update adjustedDeltaTime now rs (g_powerUpManager g1)
                   in (g1\<lparr>g_powerUpManager := pm\<rparr>, rs'))
             else (g1, rs));
          g3 = g2\<lparr>g_playerPaddle := Paddle_update adjustedDeltaTime (g_playerPaddle g2)\<rparr>;
          g4 = g3\<lparr>g_opponentPaddle := Paddle_update adjustedDeltaTime (g_opponentPaddle g3)\<rparr>;
          g5 = g4\<lparr>g_ball := Ball_update adjustedDeltaTime (g_ball g4)\<rparr>;
          g6 = g5\<lparr>g_additionalBalls := map (Ball_update adjustedDeltaTime) (g_additionalBalls g5)\<rparr>;
          (g7, rs7) = checkPaddleCollisions rs2 g6;
          g8 = checkBoundaryCollisions g7
      in if cfg_enablePowerUps (g_config g8)
         then checkPowerUpCollections now rs7 g8 else (g8, rs7))"

text \<open>The constraint of the claim on a snapshot: a countdown only in COUNTDOWN, a winner that
  is neither absent nor null only in GAME_OVER.\<close>

definition statusFieldsConsistent :: "GameState \<Rightarrow> bool" where
  "statusFieldsConsistent s \<longleftrightarrow>
     (gs_countdown s = None \<or> gs_status s = COUNTDOWN)
     \<and> (gs_winner s = None \<or> gs_winner s = Some None \<or> gs_status s = GAME_OVER)"

text \<open>A client that has applied the host's final snapshot: the player has won.\<close>

definition gameOverSnapshot :: GameState where
  "gameOverSnapshot = (bareState GAME_OVER)\<lparr>gs_winner := Some (Some Player), gs_playerScore := 11\<rparr>"

definition overGame :: Game where
  "overGame = fst (setState gameOverSnapshot (sconst (1 / 2)) (Game_new CLIENT GAME_DEFAULT_CONFIG))"


subsection \<open>Bounded catch-up of the update loop\<close>

text \<open>One iteration of the loop of \<open>update\<close>: a call of \<open>fixedUpdate\<close> with the fixed step,
  then the step is taken off the accumulator.\<close>

definition tickStep :: "real \<Rightarrow> Game \<times> real stream \<Rightarrow> Game \<times> real stream" where
  "tickStep now = (\<lambda>(g, rs).
     case fixedUpdate fixedTimeStep now rs g of
       (g1, rs1) \<Rightarrow> (g1\<lparr>g_accumulator := g_accumulator g1 - fixedTimeStep\<rparr>, rs1))"

text \<open>A paused game whose last update was an hour before the next one.\<close>

definition stalledGame :: Game where
  "stalledGame = hostGame\<lparr>g_status := PAUSED, g_lastUpdateTime := 1000\<rparr>"


subsection \<open>Game-control messages\<close>

text \<open>The game that \<open>restartGame\<close> hands to \<open>startCountdown\<close>.\<close>

definition restarted :: "Game \<Rightarrow> Game" where
  "restarted g =
     (let g1 = cleanup g;
          g2 = g1\<lparr>g_playerScore := 0, g_opponentScore := 0, g_winner := None\<rparr>;
          g3 = initializeGameObjects g2;
          g4 = g3\<lparr>g_powerUpManager := PowerUpManager_reset (g_powerUpManager g3)\<rparr>;
          g5 = g4\<lparr>g_turboModeActive := False, g_gameSpeedMultiplier := 1\<rparr>
      in g5\<lparr>g_additionalBalls := []\<rparr>)"

text \<open>A manager outside a network game (the host's constructor with no connection), and the
  RESTART message of the specification's example.\<close>

definition localManager :: GameManager where
  "localManager = GameManager_new HOST DISCONNECTED GAME_DEFAULT_CONFIG"

definition restartAt100 :: GameControlMessage where
  "restartAt100 = \<lparr>gcm_action = RESTART, gcm_timestamp = Some 100\<rparr>"

text \<open>The manager after the first and after the second delivery of the same message.\<close>

definition firstDelivery :: GameManager where
  "firstDelivery = fst (onGameControl 100 (sconst (1 / 2)) restartAt100 localManager)"

definition secondDelivery :: GameManager where
  "secondDelivery = fst (onGameControl 100 (sconst (1 / 2)) restartAt100 firstDelivery)"


section \<open>The reconciliation test\<close>

text \<open>
  Claim C5. For every pair of local and remote game states, \<^verbatim>\<open>needsReconciliation\<close> of the
  exported \<^verbatim>\<open>syncService\<close> (threshold 10) is true exactly when the Euclidean distance of the
  two ball positions exceeds 10, or the player paddles' y positions differ by more than 10,
  or the opponent paddles' y positions differ by more than 10.
\<close>

theorem needsReconciliation_iff:
  "needsReconciliation localState remoteState syncService \<longleftrightarrow>
     dist (point (bs_position (gs_ball localState))) (point (bs_position (gs_ball remoteState))) > 10
     \<or> \<bar>vec_y (ps_position (gs_playerPaddle localState))
          - vec_y (ps_position (gs_playerPaddle remoteState))\<bar> > 10
     \<or> \<bar>vec_y (ps_position (gs_opponentPaddle localState))
          - vec_y (ps_position (gs_opponentPaddle remoteState))\<bar> > 10"
  by (simp add: needsReconciliation_def syncService_def SyncService_new_def
        SYNC_DEFAULT_CONFIG_def point_def dist_norm cmod_def)


section \<open>The speed scale of a rally\<close>

lemma normalizeVelocity_speedScaleFactor [simp]:
  "b_speedScaleFactor (normalizeVelocity b) = b_speedScaleFactor b"
  by (simp add: normalizeVelocity_def Let_def)

lemma normalizeVelocity_hitCounter [simp]:
  "b_hitCounter (normalizeVelocity b) = b_hitCounter b"
  by (simp add: normalizeVelocity_def Let_def)

lemma increaseBallSpeed_speedScaleFactor:
  "b_speedScaleFactor (increaseBallSpeed r b)
     = min maxSpeedScale (1 + (b_hitCounter b + 1) * hitSpeedIncrement * (1 + r * (2 / 10)))"
  by (simp add: increaseBallSpeed_def Let_def)

lemma increaseBallSpeed_hitCounter:
  "b_hitCounter (increaseBallSpeed r b) = b_hitCounter b + 1"
  by (simp add: increaseBallSpeed_def Let_def)

lemma servedBall_counters:
  "b_hitCounter servedBall = 0" "b_speedScaleFactor servedBall = 1"
  by (simp_all add: servedBall_def Ball_reset_def resetSpeedScaling_def Ball_new_def)

lemma sqrt_160000: "sqrt 160000 = 400"
  by (rule real_sqrt_unique) simp_all

text \<open>No method that a tick calls on a ball changes its base speed.\<close>

lemma baseSpeed_Ball_update [simp]: "b_baseSpeed (Ball_update dt b) = b_baseSpeed b"
  by (simp add: Ball_update_def)

lemma baseSpeed_normalizeVelocity [simp]: "b_baseSpeed (normalizeVelocity b) = b_baseSpeed b"
  by (simp add: normalizeVelocity_def Let_def)

lemma baseSpeed_increaseBallSpeed [simp]: "b_baseSpeed (increaseBallSpeed r b) = b_baseSpeed b"
  by (simp add: increaseBallSpeed_def Let_def)

lemma baseSpeed_setCurve [simp]: "b_baseSpeed (setCurve i d b) = b_baseSpeed b"
  by (simp add: setCurve_def)

lemma baseSpeed_deflect [simp]: "b_baseSpeed (deflect paddleY paddleHeight isLeftPaddle b) = b_baseSpeed b"
  by (simp add: deflect_def Let_def)

lemma baseSpeed_checkPaddleCollision [simp]:
  "b_baseSpeed (fst (snd (checkPaddleCollision px py pw ph isLeft rs b))) = b_baseSpeed b"
  by (simp add: checkPaddleCollision_def Let_def)

lemma baseSpeed_checkBoundaryCollision [simp]:
  "b_baseSpeed (snd (checkBoundaryCollision lo hi b)) = b_baseSpeed b"
  by (simp add: checkBoundaryCollision_def Let_def)

lemma baseSpeed_Ball_setState [simp]: "b_baseSpeed (Ball_setState st b) = b_baseSpeed b"
  by (simp add: Ball_setState_def Let_def split: option.splits)

lemma increaseBallSpeed_velocity:
  "b_velocity (increaseBallSpeed r b)
     = (let s = sqrt (vec_x (b_velocity b) * vec_x (b_velocity b)
                      + vec_y (b_velocity b) * vec_y (b_velocity b))
        in if s > 0
           then \<lparr>vec_x = vec_x (b_velocity b)
                           * (b_baseSpeed b * b_speedScaleFactor (increaseBallSpeed r b) / s),
                 vec_y = vec_y (b_velocity b)
                           * (b_baseSpeed b * b_speedScaleFactor (increaseBallSpeed r b) / s)\<rparr>
           else b_velocity b)"
  by (simp add: increaseBallSpeed_def normalizeVelocity_def Let_def)

lemma servedBall_velocity:
  "b_velocity servedBall = \<lparr>vec_x = 400, vec_y = 0\<rparr>" "b_baseSpeed servedBall = 400"
  by (simp_all add: servedBall_def Ball_reset_def resetSpeedScaling_def Ball_new_def
        normalizeVelocity_def Let_def sqrt_160000)

lemma paddleHits_snoc: "paddleHits (rs @ [r]) b = increaseBallSpeed r (paddleHits rs b)"
  by (simp add: paddleHits_def)

text \<open>A served ball that only meets paddles flies along the x axis at 400 times its
  speed-scale factor.\<close>

lemma paddleHits_velocity_x:
  "b_velocity (paddleHits rs servedBall)
     = \<lparr>vec_x = 400 * b_speedScaleFactor (paddleHits rs servedBall), vec_y = 0\<rparr>
   \<and> 0 < b_speedScaleFactor (paddleHits rs servedBall)
   \<and> 0 \<le> b_hitCounter (paddleHits rs servedBall)
   \<and> b_baseSpeed (paddleHits rs servedBall) = 400"
  if "list_all (\<lambda>r. 0 \<le> r) rs"
  using that
proof (induction rs rule: rev_induct)
  case Nil
  then show ?case by (simp add: paddleHits_def servedBall_velocity servedBall_counters)
next
  case (snoc r rs)
  then have ih: "b_velocity (paddleHits rs servedBall)
     = \<lparr>vec_x = 400 * b_speedScaleFactor (paddleHits rs servedBall), vec_y = 0\<rparr>"
    "0 < b_speedScaleFactor (paddleHits rs servedBall)"
    "0 \<le> b_hitCounter (paddleHits rs servedBall)"
    "b_baseSpeed (paddleHits rs servedBall) = 400" and r: "0 \<le> r"
    by simp_all
  define b where "b = paddleHits rs servedBall"
  have pos: "0 < b_speedScaleFactor (increaseBallSpeed r b)"
    using ih(3) r unfolding b_def [symmetric]
    by (simp add: increaseBallSpeed_speedScaleFactor maxSpeedScale_def hitSpeedIncrement_def
          min_def add_pos_nonneg)
  have root: "sqrt (vec_x (b_velocity b) * vec_x (b_velocity b)
                    + vec_y (b_velocity b) * vec_y (b_velocity b)) = 400 * b_speedScaleFactor b"
    using ih(1,2) unfolding b_def [symmetric] by (intro real_sqrt_unique) (simp_all add: power2_eq_square)
  have vel: "b_velocity (increaseBallSpeed r b)
               = \<lparr>vec_x = 400 * b_speedScaleFactor (increaseBallSpeed r b), vec_y = 0\<rparr>"
    unfolding increaseBallSpeed_velocity root Let_def
    using ih unfolding b_def [symmetric] by simp
  have hits: "0 \<le> b_hitCounter (increaseBallSpeed r b)"
    using ih(3) unfolding b_def [symmetric] by (simp add: increaseBallSpeed_hitCounter)
  show ?case
    unfolding paddleHits_snoc b_def [symmetric]
    using vel pos hits ih(4) unfolding b_def [symmetric] by simp
qed

text \<open>
  Claim C3 at a rally of seven hits on a served ball, \<^verbatim>\<open>Math.random()\<close> returning 0 at the
  first five hits, 0.9 at the sixth and 0 at the seventh. The speed-scale factor is 1.5664
  after the sixth hit and 1.56 after the seventh, and the ball, which flies at 626.56 px/s
  after the sixth hit, flies at 624 px/s after the seventh: the hit has slowed the ball down.
  The comment of \<^verbatim>\<open>increaseBallSpeed\<close> reads "Increase the ball speed after a paddle hit".
\<close>

theorem speedScale_decreases_at_seventh_hit:
  "b_speedScaleFactor (paddleHits [0, 0, 0, 0, 0, 9 / 10] servedBall) = 979 / 625
   \<and> b_speedScaleFactor (paddleHits [0, 0, 0, 0, 0, 9 / 10, 0] servedBall) = 39 / 25
   \<and> b_velocity (paddleHits [0, 0, 0, 0, 0, 9 / 10] servedBall) = \<lparr>vec_x = 15664 / 25, vec_y = 0\<rparr>
   \<and> b_velocity (paddleHits [0, 0, 0, 0, 0, 9 / 10, 0] servedBall) = \<lparr>vec_x = 624, vec_y = 0\<rparr>"
proof -
  have f6: "b_speedScaleFactor (paddleHits [0, 0, 0, 0, 0, 9 / 10] servedBall) = 979 / 625"
    by (simp add: paddleHits_def increaseBallSpeed_speedScaleFactor increaseBallSpeed_hitCounter
        servedBall_counters maxSpeedScale_def hitSpeedIncrement_def)
  have f7: "b_speedScaleFactor (paddleHits [0, 0, 0, 0, 0, 9 / 10, 0] servedBall) = 39 / 25"
    by (simp add: paddleHits_def increaseBallSpeed_speedScaleFactor increaseBallSpeed_hitCounter
        servedBall_counters maxSpeedScale_def hitSpeedIncrement_def)
  have v6: "b_velocity (paddleHits [0, 0, 0, 0, 0, 9 / 10] servedBall)
              = \<lparr>vec_x = 400 * (979 / 625), vec_y = 0\<rparr>"
    using paddleHits_velocity_x [of "[0, 0, 0, 0, 0, 9 / 10]"] by (simp add: f6)
  have v7: "b_velocity (paddleHits [0, 0, 0, 0, 0, 9 / 10, 0] servedBall)
              = \<lparr>vec_x = 400 * (39 / 25), vec_y = 0\<rparr>"
    using paddleHits_velocity_x [of "[0, 0, 0, 0, 0, 9 / 10, 0]"] by (simp add: f7)
  show ?thesis using f6 f7 v6 v7 by simp
qed

text \<open>What holds of the claim. The factor after a hit lies between 1 and the maximum 2.2 for
  every draw. The factor after the next hit is at least the factor after this hit when the
  next draw is not below this one, when this hit is at most the fifth of the rally, or when
  it is at least the fourteenth (the next hit then reaches the maximum). At every hit from
  the sixth to the thirteenth, the draw 0.9 followed by the draw 0 makes the factor
  decrease.\<close>

lemma increaseBallSpeed_bounds:
  assumes hc: "0 \<le> b_hitCounter b" and r: "0 \<le> r" "r \<le> 1"
  shows "1 \<le> b_speedScaleFactor (increaseBallSpeed r b)"
    and "b_speedScaleFactor (increaseBallSpeed r b) \<le> 22 / 10"
proof -
  have "0 \<le> (b_hitCounter b + 1) * (8 / 100) * (1 + r * (2 / 10))"
    using hc r by simp
  then show "1 \<le> b_speedScaleFactor (increaseBallSpeed r b)"
    by (simp add: increaseBallSpeed_speedScaleFactor maxSpeedScale_def hitSpeedIncrement_def)
  show "b_speedScaleFactor (increaseBallSpeed r b) \<le> 22 / 10"
    unfolding increaseBallSpeed_speedScaleFactor maxSpeedScale_def by (rule min.cobounded1)
qed

lemma increaseBallSpeed_monotone:
  assumes hc: "0 \<le> b_hitCounter b"
    and r1: "0 \<le> r1" "r1 \<le> 1" and r2: "0 \<le> r2" "r2 \<le> 1"
    and c: "r1 \<le> r2 \<or> b_hitCounter (increaseBallSpeed r1 b) \<le> 5
            \<or> 14 \<le> b_hitCounter (increaseBallSpeed r1 b)"
  shows "b_speedScaleFactor (increaseBallSpeed r1 b)
           \<le> b_speedScaleFactor (increaseBallSpeed r2 (increaseBallSpeed r1 b))"
proof -
  define k where "k = b_hitCounter b + 1"
  define A where "A = 1 + k * (8 / 100) * (1 + r1 * (2 / 10))"
  define B where "B = 1 + (k + 1) * (8 / 100) * (1 + r2 * (2 / 10))"
  have k1: "1 \<le> k" using hc by (simp add: k_def)
  have kr1: "0 \<le> k * r1" "k * r1 \<le> k" using k1 r1 by (simp_all add: mult_left_le)
  have kr2: "0 \<le> k * r2" using k1 r2 by simp
  have s1: "b_speedScaleFactor (increaseBallSpeed r1 b) = min (22 / 10) A"
    by (simp add: increaseBallSpeed_speedScaleFactor k_def A_def maxSpeedScale_def
          hitSpeedIncrement_def)
  have s2: "b_speedScaleFactor (increaseBallSpeed r2 (increaseBallSpeed r1 b)) = min (22 / 10) B"
    by (simp add: increaseBallSpeed_speedScaleFactor increaseBallSpeed_hitCounter k_def B_def
          maxSpeedScale_def hitSpeedIncrement_def)
  have hk: "b_hitCounter (increaseBallSpeed r1 b) = k"
    by (simp add: increaseBallSpeed_hitCounter k_def)
  have A_eq: "A = 1 + (8 / 100) * k + (16 / 1000) * (k * r1)"
    by (simp add: A_def field_simps)
  have B_eq: "B = 1 + (8 / 100) * k + 8 / 100 + (16 / 1000) * (k * r2) + (16 / 1000) * r2"
    by (simp add: B_def field_simps)
  from c consider "r1 \<le> r2" | "k \<le> 5" | "14 \<le> k" unfolding hk by blast
  then have "min (22 / 10) A \<le> min (22 / 10) B"
  proof cases
    case 1
    have "k * r1 \<le> k * r2"
      using 1 k1 by (intro mult_left_mono) simp_all
    then have "A \<le> B" using r2 unfolding A_eq B_eq by linarith
    then show ?thesis by (intro min.mono order_refl)
  next
    case 2
    have "A \<le> B" using 2 kr1 kr2 r2 unfolding A_eq B_eq by linarith
    then show ?thesis by (intro min.mono order_refl)
  next
    case 3
    have "22 / 10 \<le> B" using 3 kr2 r2 unfolding B_eq by linarith
    then show ?thesis by simp
  qed
  then show ?thesis unfolding s1 s2 .
qed

lemma increaseBallSpeed_can_decrease:
  assumes "6 \<le> b_hitCounter (increaseBallSpeed (9 / 10) b)"
    "b_hitCounter (increaseBallSpeed (9 / 10) b) < 14"
  shows "b_speedScaleFactor (increaseBallSpeed 0 (increaseBallSpeed (9 / 10) b))
           < b_speedScaleFactor (increaseBallSpeed (9 / 10) b)"
  using assms
  by (simp add: increaseBallSpeed_speedScaleFactor increaseBallSpeed_hitCounter
        maxSpeedScale_def hitSpeedIncrement_def min_def)



section \<open>The paddle inside its boundaries\<close>

lemma clampY_bounds:
  assumes "fitsBoundaries p"
  shows "p_minY p + p_height p / 2 \<le> clampY p v" and "clampY p v \<le> p_maxY p - p_height p / 2"
  using assms unfolding clampY_def fitsBoundaries_def by linarith+

lemma contained_clamped:
  assumes "fitsBoundaries q" and "p_height q = p_height p" and "p_minY q = p_minY p"
    and "p_maxY q = p_maxY p" and "vec_y (p_position q) = clampY p v"
  shows "contained q"
  using assms clampY_bounds [of p v]
  by (simp add: contained_def fitsBoundaries_def)

lemma setPosition_contained: "fitsBoundaries p \<Longrightarrow> contained (setPosition pos p)"
  by (rule contained_clamped [where p = p and v = "vec_y pos"])
     (simp_all add: setPosition_def fitsBoundaries_def)

lemma setPosition_shape [simp]:
  "p_height (setPosition pos p) = p_height p"
  "p_minY (setPosition pos p) = p_minY p"
  "p_maxY (setPosition pos p) = p_maxY p"
  by (simp_all add: setPosition_def)

lemma fits_setPosition [simp]: "fitsBoundaries (setPosition pos p) = fitsBoundaries p"
  by (simp add: fitsBoundaries_def)

lemma startRebound_shape [simp]:
  "p_height (startRebound d p) = p_height p"
  "p_minY (startRebound d p) = p_minY p"
  "p_maxY (startRebound d p) = p_maxY p"
  "p_targetHeight (startRebound d p) = p_targetHeight p"
  "p_position (startRebound d p) = p_position p"
  by (simp_all add: startRebound_def Let_def)

lemma updateMovement_shape [simp]:
  "p_height (updateMovement dt p) = p_height p"
  "p_minY (updateMovement dt p) = p_minY p"
  "p_maxY (updateMovement dt p) = p_maxY p"
  "p_targetHeight (updateMovement dt p) = p_targetHeight p"
  by (simp_all add: updateMovement_def Let_def)

lemma updateDash_shape [simp]:
  "p_height (updateDash dt p) = p_height p"
  "p_minY (updateDash dt p) = p_minY p"
  "p_maxY (updateDash dt p) = p_maxY p"
  "p_targetHeight (updateDash dt p) = p_targetHeight p"
  by (simp_all add: updateDash_def Let_def)

lemma updateRebound_shape [simp]:
  "p_height (updateRebound dt p) = p_height p"
  "p_minY (updateRebound dt p) = p_minY p"
  "p_maxY (updateRebound dt p) = p_maxY p"
  "p_targetHeight (updateRebound dt p) = p_targetHeight p"
  by (simp_all add: updateRebound_def Let_def)

lemma updateMovement_contained:
  "fitsBoundaries p \<Longrightarrow> contained p \<Longrightarrow> contained (updateMovement dt p)"
  using clampY_bounds [of p]
  by (simp add: updateMovement_def Let_def contained_def)

lemma updateDash_contained:
  "fitsBoundaries p \<Longrightarrow> contained p \<Longrightarrow> contained (updateDash dt p)"
  using clampY_bounds [of "p\<lparr>p_dashDuration := p_dashDuration p - dt\<rparr>"]
  by (simp add: updateDash_def Let_def contained_def fitsBoundaries_def)

lemma updateRebound_contained:
  "fitsBoundaries p \<Longrightarrow> contained p \<Longrightarrow> contained (updateRebound dt p)"
  using clampY_bounds [of "p\<lparr>p_reboundTime := p_reboundTime p + dt\<rparr>"]
  by (simp add: updateRebound_def Let_def contained_def fitsBoundaries_def)

lemma moved_shape [simp]:
  "p_height (moved dt p) = p_height p"
  "p_minY (moved dt p) = p_minY p"
  "p_maxY (moved dt p) = p_maxY p"
  "p_targetHeight (moved dt p) = p_targetHeight p"
  by (simp_all add: moved_def)

lemma moved_contained: "fitsBoundaries p \<Longrightarrow> contained p \<Longrightarrow> contained (moved dt p)"
  by (simp add: moved_def updateMovement_contained updateDash_contained updateRebound_contained)

lemma updatePaddleSize_same:
  "p_height p = p_targetHeight p \<Longrightarrow> updatePaddleSize dt p = p"
  by (simp add: updatePaddleSize_def)

lemma updatePaddleSize_contained:
  assumes "p_height p \<noteq> p_targetHeight p" and "fitsBoundaries (updatePaddleSize dt p)"
  shows "contained (updatePaddleSize dt p)"
proof -
  define q where "q = (if p_height p < p_targetHeight p
                       then p\<lparr>p_height := min (p_targetHeight p) (p_height p + resizeRate * dt)\<rparr>
                       else p\<lparr>p_height := max (p_targetHeight p) (p_height p - resizeRate * dt)\<rparr>)"
  have u: "updatePaddleSize dt p
             = q\<lparr>p_position := (p_position q)\<lparr>vec_y := clampY q (vec_y (p_position q))\<rparr>\<rparr>"
    using assms(1) by (simp add: updatePaddleSize_def Let_def q_def)
  have "fitsBoundaries q" using assms(2) unfolding u by (simp add: fitsBoundaries_def)
  then show ?thesis unfolding u
    by (intro contained_clamped [where p = q and v = "vec_y (p_position q)"])
       (simp_all add: fitsBoundaries_def)
qed

lemma Paddle_update_unfold:
  "Paddle_update dt p =
     (let p1 = moved dt p;
          p2 = (if p_dashCooldown p1 > 0
                then p1\<lparr>p_dashCooldown := max 0 (p_dashCooldown p1 - dt)\<rparr> else p1);
          p3 = updatePaddleSize dt p2
      in if p_height p3 > minPaddleHeight
         then p3\<lparr>p_targetHeight :=
                   max minPaddleHeight (p_targetHeight p3 * (shrinkFactor powr dt))\<rparr>
         else p3)"
  by (simp add: Paddle_update_def moved_def)

lemma Paddle_update_contained:
  assumes c: "contained p" and f: "fitsBoundaries (Paddle_update dt p)"
  shows "contained (Paddle_update dt p)"
proof -
  define p1 where "p1 = moved dt p"
  define p2 where "p2 = (if p_dashCooldown p1 > 0
                then p1\<lparr>p_dashCooldown := max 0 (p_dashCooldown p1 - dt)\<rparr> else p1)"
  define p3 where "p3 = updatePaddleSize dt p2"
  have shape2: "p_height p2 = p_height p" "p_minY p2 = p_minY p" "p_maxY p2 = p_maxY p"
    "p_targetHeight p2 = p_targetHeight p" "p_position p2 = p_position p1"
    by (simp_all add: p2_def p1_def)
  have fin: "contained (Paddle_update dt p) = contained p3"
    "fitsBoundaries (Paddle_update dt p) = fitsBoundaries p3"
    by (simp_all add: Paddle_update_unfold Let_def p1_def p2_def p3_def contained_def
          fitsBoundaries_def)
  show ?thesis
  proof (cases "p_height p = p_targetHeight p")
    case True
    then have p3: "p3 = p2" by (simp add: p3_def shape2 updatePaddleSize_same)
    have fp: "fitsBoundaries p" using f fin(2) p3 shape2 by (simp add: fitsBoundaries_def)
    have "contained p1" unfolding p1_def using fp c by (rule moved_contained)
    then have "contained p2" using shape2 by (simp add: contained_def p1_def)
    then show ?thesis using fin(1) p3 by simp
  next
    case False
    then have "p_height p2 \<noteq> p_targetHeight p2" by (simp add: shape2)
    moreover have "fitsBoundaries (updatePaddleSize dt p2)" using f fin(2) by (simp add: p3_def)
    ultimately have "contained p3" unfolding p3_def by (rule updatePaddleSize_contained)
    then show ?thesis using fin(1) by simp
  qed
qed

lemma Paddle_setState_contained:
  "fitsBoundaries (Paddle_setState st p) \<Longrightarrow> contained (Paddle_setState st p)"
  by (simp add: Paddle_setState_def Let_def setPosition_contained split: option.splits)

lemma setBoundaries_contained:
  "fitsBoundaries (setBoundaries lo hi p) \<Longrightarrow> contained (setBoundaries lo hi p)"
  by (simp add: setBoundaries_def Let_def setPosition_contained)

lemma setHeight_contained:
  "fitsBoundaries (setHeight h p) \<Longrightarrow> contained (setHeight h p)"
  by (simp add: setHeight_def Let_def setPosition_contained)

text \<open>The public methods that touch neither the position nor the height nor the boundaries:
  the resize effects in their gradual form only set the target height.\<close>

lemma applyResizeEffect_gradual_contained:
  "contained (applyResizeEffect sizeFactor False p) = contained p"
  by (simp add: applyResizeEffect_def contained_def Let_def)

lemma resetSize_gradual_contained: "contained (resetSize False p) = contained p"
  by (simp add: resetSize_def contained_def Let_def)

lemma attemptDash_contained: "contained (snd (attemptDash p)) = contained p"
  by (simp add: attemptDash_def contained_def)

lemma recordHit_contained: "contained (recordHit p) = contained p"
  by (simp add: recordHit_def contained_def Let_def applyResizeEffect_def)

lemma resetHitCombo_contained: "contained (resetHitCombo p) = contained p"
  by (simp add: resetHitCombo_def contained_def)

text \<open>
  Claim C10 as stated fails when the operation leaves the paddle no room. The paddle of
  height 80 between the boundaries 0 and 100 satisfies \<open>maxY - minY \<ge> height\<close> and lies
  inside them. It does not lie inside after \<^verbatim>\<open>setHeight(120)\<close>, nor after
  \<^verbatim>\<open>setBoundaries(0, 50)\<close>, nor after \<^verbatim>\<open>setState\<close> of a state with height 120, nor after an
  \<^verbatim>\<open>update\<close> that lets it grow to the target height 120 of an enlarging effect: it is then
  taller than the distance of its boundaries.
\<close>

theorem paddle_containment_counterexample:
  "fitsBoundaries narrowPaddle \<and> contained narrowPaddle
   \<and> \<not> contained (setHeight 120 narrowPaddle)
   \<and> \<not> contained (setBoundaries 0 50 narrowPaddle)
   \<and> \<not> contained (Paddle_setState ((Paddle_getState narrowPaddle)\<lparr>ps_height := 120\<rparr>) narrowPaddle)
   \<and> fitsBoundaries (applyResizeEffect (3 / 2) False narrowPaddle)
   \<and> contained (applyResizeEffect (3 / 2) False narrowPaddle)
   \<and> \<not> contained (Paddle_update 1 (applyResizeEffect (3 / 2) False narrowPaddle))"
  by (simp add: narrowPaddle_def Paddle_new_def fitsBoundaries_def contained_def setHeight_def
        setBoundaries_def Paddle_setState_def Paddle_getState_def setPosition_def clampY_def
        applyResizeEffect_def Paddle_update_def updateMovement_def moveDirection_def
        updatePaddleSize_def resizeRate_def minPaddleHeight_def maxPaddleHeight_def Let_def)

text \<open>
  Claim C10, amended. \<^verbatim>\<open>setPosition\<close> puts a paddle that satisfies \<open>maxY - minY \<ge> height\<close>
  fully inside its boundaries, \<open>minY + height / 2 \<le> y \<le> maxY - height / 2\<close>. \<^verbatim>\<open>update\<close>
  (rebound, dash and normal movement, then the resize) keeps a paddle inside, and
  \<^verbatim>\<open>setState\<close>, \<^verbatim>\<open>setBoundaries\<close> and \<^verbatim>\<open>setHeight\<close> put it inside, whenever the paddle they
  return satisfies the size condition: these four can change the height or the boundaries.
  The resize effects in their gradual form (\<open>instant = false\<close>), \<^verbatim>\<open>attemptDash\<close>, \<^verbatim>\<open>recordHit\<close>
  and \<^verbatim>\<open>resetHitCombo\<close> keep a paddle inside.
\<close>

theorem paddle_containment:
  "(fitsBoundaries p \<longrightarrow> contained (setPosition pos p))
   \<and> (contained p \<and> fitsBoundaries (Paddle_update deltaTime p)
        \<longrightarrow> contained (Paddle_update deltaTime p))
   \<and> (fitsBoundaries (Paddle_setState state p) \<longrightarrow> contained (Paddle_setState state p))
   \<and> (fitsBoundaries (setBoundaries minY maxY p) \<longrightarrow> contained (setBoundaries minY maxY p))
   \<and> (fitsBoundaries (setHeight height p) \<longrightarrow> contained (setHeight height p))
   \<and> (contained p \<longrightarrow>
        contained (applyResizeEffect sizeFactor False p) \<and> contained (resetSize False p)
        \<and> contained (snd (attemptDash p)) \<and> contained (recordHit p)
        \<and> contained (resetHitCombo p))"
  by (simp add: setPosition_contained Paddle_update_contained Paddle_setState_contained
        setBoundaries_contained setHeight_contained applyResizeEffect_gradual_contained
        resetSize_gradual_contained attemptDash_contained recordHit_contained
        resetHitCombo_contained)

theorem paddle_containment_witness:
  "fitsBoundaries examplePaddle \<and> contained examplePaddle
   \<and> contained (setPosition \<lparr>vec_x = 30, vec_y = 1000\<rparr> examplePaddle)
   \<and> fitsBoundaries (Paddle_update (1 / 120) examplePaddle)
   \<and> contained (Paddle_update (1 / 120) examplePaddle)
   \<and> fitsBoundaries (setBoundaries 0 100 examplePaddle)
   \<and> contained (setBoundaries 0 100 examplePaddle)
   \<and> fitsBoundaries (setHeight 120 examplePaddle)
   \<and> contained (setHeight 120 examplePaddle)
   \<and> fitsBoundaries (Paddle_setState (Paddle_getState examplePaddle) examplePaddle)
   \<and> contained (Paddle_setState (Paddle_getState examplePaddle) examplePaddle)
   \<and> contained (applyResizeEffect (3 / 2) False examplePaddle)
   \<and> contained (resetSize False examplePaddle)
   \<and> contained (snd (attemptDash examplePaddle))
   \<and> contained (recordHit examplePaddle)
   \<and> contained (resetHitCombo examplePaddle)"
proof -
  have f: "fitsBoundaries examplePaddle" "contained examplePaddle"
    by (simp_all add: examplePaddle_def Paddle_new_def fitsBoundaries_def contained_def)
  have u: "fitsBoundaries (Paddle_update (1 / 120) examplePaddle)"
    by (simp add: examplePaddle_def Paddle_new_def fitsBoundaries_def Paddle_update_def
          updateMovement_def moveDirection_def updatePaddleSize_def Let_def clampY_def
          boostZoneSize_def boostMultiplier_def minPaddleHeight_def)
  have b: "fitsBoundaries (setBoundaries 0 100 examplePaddle)"
    by (simp add: examplePaddle_def Paddle_new_def fitsBoundaries_def setBoundaries_def Let_def)
  have h: "fitsBoundaries (setHeight 120 examplePaddle)"
    by (simp add: examplePaddle_def Paddle_new_def fitsBoundaries_def setHeight_def Let_def)
  have s: "fitsBoundaries (Paddle_setState (Paddle_getState examplePaddle) examplePaddle)"
    by (simp add: examplePaddle_def Paddle_new_def fitsBoundaries_def Paddle_setState_def
          Paddle_getState_def Let_def)
  show ?thesis
    using f u b h s
      paddle_containment [of examplePaddle "\<lparr>vec_x = 30, vec_y = 1000\<rparr>" "1 / 120"
        "Paddle_getState examplePaddle" 0 100 120 "3 / 2"]
    by simp
qed

text \<open>The resize effect with \<open>instant = true\<close> assigns the height without clamping the
  position. The paddle at the top of the default field, which has room for a height of 120,
  sticks out after it, and \<^verbatim>\<open>update\<close> leaves it there as long as the paddle neither moves nor
  resizes; \<^verbatim>\<open>setHeight\<close> with the same height clamps. No caller in the sources passes
  \<open>instant = true\<close>.\<close>

lemma instant_resize_not_clamped:
  "fitsBoundaries topPaddle \<and> contained topPaddle
   \<and> fitsBoundaries (applyResizeEffect (3 / 2) True topPaddle)
   \<and> \<not> contained (applyResizeEffect (3 / 2) True topPaddle)
   \<and> \<not> contained (Paddle_update (1 / 120) (applyResizeEffect (3 / 2) True topPaddle))
   \<and> contained (setHeight 120 topPaddle)"
  by (simp add: topPaddle_def Paddle_new_def fitsBoundaries_def contained_def setHeight_def
        setPosition_def clampY_def
        applyResizeEffect_def Paddle_update_def updateMovement_def moveDirection_def
        updatePaddleSize_def resizeRate_def minPaddleHeight_def maxPaddleHeight_def Let_def)


section \<open>Scoring\<close>

lemma splice1_take_drop:
  "i < length xs \<Longrightarrow> take i (splice1 i xs) = take i xs \<and> drop i (splice1 i xs) = drop (Suc i) xs"
  by (simp add: splice1_def)

lemma removeScoredLoop_filter_prefix:
  "i \<le> length balls \<Longrightarrow>
     removeScoredLoop fieldWidth i balls
       = filter (\<lambda>b. checkScoringBoundary 0 fieldWidth b = None) (take i balls) @ drop i balls"
proof (induction i arbitrary: balls)
  case 0
  then show ?case by simp
next
  case (Suc i)
  then have lt: "i < length balls" by simp
  show ?case
  proof (cases "checkScoringBoundary 0 fieldWidth (balls ! i) = None")
    case True
    have "removeScoredLoop fieldWidth (Suc i) balls = removeScoredLoop fieldWidth i balls"
      using True by simp
    also have "\<dots> = filter (\<lambda>b. checkScoringBoundary 0 fieldWidth b = None) (take i balls)
                      @ drop i balls"
      using Suc.IH [of balls] lt by simp
    finally show ?thesis
      using True lt by (simp add: take_Suc_conv_app_nth Cons_nth_drop_Suc)
  next
    case False
    have len: "i \<le> length (splice1 i balls)" using lt by (simp add: splice1_def)
    have "removeScoredLoop fieldWidth (Suc i) balls
            = removeScoredLoop fieldWidth i (splice1 i balls)"
      using False by simp
    also have "\<dots> = filter (\<lambda>b. checkScoringBoundary 0 fieldWidth b = None) (take i balls)
                      @ drop (Suc i) balls"
      using Suc.IH [OF len] splice1_take_drop [OF lt] by simp
    finally show ?thesis
      using False lt by (simp add: take_Suc_conv_app_nth)
  qed
qed

lemma removeScoredLoop_filter:
  "removeScoredLoop fieldWidth (length balls) balls
     = filter (\<lambda>b. checkScoringBoundary 0 fieldWidth b = None) balls"
  by (simp add: removeScoredLoop_filter_prefix)

lemma setPosition_consecutiveHits [simp]:
  "p_consecutiveHits (setPosition pos p) = p_consecutiveHits p"
  by (simp add: setPosition_def)

lemma resetBall_frame [simp]:
  "g_playerScore (fst (resetBall serveToLeft rs g)) = g_playerScore g"
  "g_opponentScore (fst (resetBall serveToLeft rs g)) = g_opponentScore g"
  "g_fieldWidth (fst (resetBall serveToLeft rs g)) = g_fieldWidth g"
  "g_fieldHeight (fst (resetBall serveToLeft rs g)) = g_fieldHeight g"
  "g_config (fst (resetBall serveToLeft rs g)) = g_config g"
  "g_role (fst (resetBall serveToLeft rs g)) = g_role g"
  "g_status (fst (resetBall serveToLeft rs g)) = g_status g"
  "g_winner (fst (resetBall serveToLeft rs g)) = g_winner g"
  "g_powerUpManager (fst (resetBall serveToLeft rs g)) = g_powerUpManager g"
  by (simp_all add: resetBall_def Let_def)

lemma resetBall_effect:
  "g_additionalBalls (fst (resetBall serveToLeft rs g)) = []"
  "g_ball (fst (resetBall serveToLeft rs g))
     = Ball_reset \<lparr>vec_x = g_fieldWidth g / 2, vec_y = g_fieldHeight g / 2\<rparr>
         \<lparr>vec_x = (if serveToLeft then - 1 else 1) * cfg_ballSpeed (g_config g),
          vec_y = (shd rs - 5 / 10) * (cfg_ballSpeed (g_config g) * (5 / 10))\<rparr> True (g_ball g)"
  "p_consecutiveHits (g_playerPaddle (fst (resetBall serveToLeft rs g)))
     = p_consecutiveHits (g_playerPaddle g)"
  "p_consecutiveHits (g_opponentPaddle (fst (resetBall serveToLeft rs g)))
     = p_consecutiveHits (g_opponentPaddle g)"
  by (simp_all add: resetBall_def Let_def)

lemma Ball_reset_served:
  "b_position (Ball_reset pos vel True b) = pos"
  "b_speedScaleFactor (Ball_reset pos vel True b) = 1"
  "b_hitCounter (Ball_reset pos vel True b) = 0"
  "b_velocity (Ball_reset pos vel True b)
     = (let speed = sqrt (vec_x vel * vec_x vel + vec_y vel * vec_y vel)
        in if speed > 0
           then \<lparr>vec_x = vec_x vel * (b_baseSpeed b / speed),
                 vec_y = vec_y vel * (b_baseSpeed b / speed)\<rparr>
           else vel)"
  by (simp_all add: Ball_reset_def resetSpeedScaling_def normalizeVelocity_def Let_def)

lemma checkScoring_split: "checkScoring rs g = afterMainBall (mainBallScored rs g)"
  by (simp add: checkScoring_def mainBallScored_def afterMainBall_def Let_def
        split: option.splits Boundary.splits prod.splits)

lemma afterMainBall_frame:
  "g_playerScore (fst (afterMainBall (g1, rs1, scored))) = g_playerScore g1"
  "g_opponentScore (fst (afterMainBall (g1, rs1, scored))) = g_opponentScore g1"
  "g_ball (fst (afterMainBall (g1, rs1, scored))) = g_ball g1"
  "g_playerPaddle (fst (afterMainBall (g1, rs1, scored))) = g_playerPaddle g1"
  "g_opponentPaddle (fst (afterMainBall (g1, rs1, scored))) = g_opponentPaddle g1"
  "g_additionalBalls (fst (afterMainBall (g1, rs1, scored)))
     = filter (\<lambda>b. checkScoringBoundary 0 (g_fieldWidth g1) b = None) (g_additionalBalls g1)"
  by (simp_all add: afterMainBall_def Let_def endGame_def removeScoredLoop_filter)

lemma mainBallScored_crossing:
  assumes "checkScoringBoundary 0 (g_fieldWidth g) (g_ball g) = Some side"
  shows "mainBallScored rs g
           = (fst (resetBall (side = RightB) rs (creditScore side g)),
              snd (resetBall (side = RightB) rs (creditScore side g)), True)"
  using assms
  by (cases side) (simp_all add: mainBallScored_def creditScore_def Let_def split: prod.splits)

lemma creditScore_frame [simp]:
  "g_fieldWidth (creditScore side g) = g_fieldWidth g"
  "g_fieldHeight (creditScore side g) = g_fieldHeight g"
  "g_config (creditScore side g) = g_config g"
  "g_ball (creditScore side g) = g_ball g"
  by (simp_all add: creditScore_def)

lemma creditScore_effect:
  "if (side = LeftB) = (g_role g = HOST)
   then g_opponentScore (creditScore side g) = g_opponentScore g + 1
        \<and> g_playerScore (creditScore side g) = g_playerScore g
        \<and> p_consecutiveHits (g_playerPaddle (creditScore side g)) = 0
   else g_playerScore (creditScore side g) = g_playerScore g + 1
        \<and> g_opponentScore (creditScore side g) = g_opponentScore g
        \<and> p_consecutiveHits (g_opponentPaddle (creditScore side g)) = 0"
  by (simp add: creditScore_def resetHitCombo_def)

text \<open>\<^verbatim>\<open>checkScoring\<close> with the main ball at a scoring boundary. Exactly one score goes up by
  one: the opponent's when the ball left on the local player's side (left for the host,
  right otherwise), the player's otherwise; the other score is unchanged and the hit combo
  of the paddle on the side the ball left is 0. The main ball is at the centre of the field
  with scale factor 1 and hit counter 0, its velocity is the serve vector
  \<open>(\<plusminus>ballSpeed, (random - 0.5) * ballSpeed / 2)\<close>, away from the boundary it left by,
  rescaled to the ball's base speed, and no additional ball is left.\<close>

lemma checkScoring_crossing:
  assumes "checkScoringBoundary 0 (g_fieldWidth g) (g_ball g) = Some side"
  shows "(let g' = fst (checkScoring rs g);
              serve = \<lparr>vec_x = (if side = RightB then - 1 else 1) * cfg_ballSpeed (g_config g),
                       vec_y = (shd rs - 5 / 10) * (cfg_ballSpeed (g_config g) * (5 / 10))\<rparr>;
              speed = sqrt (vec_x serve * vec_x serve + vec_y serve * vec_y serve)
          in (if (side = LeftB) = (g_role g = HOST)
              then g_opponentScore g' = g_opponentScore g + 1 \<and> g_playerScore g' = g_playerScore g
                   \<and> p_consecutiveHits (g_playerPaddle g') = 0
              else g_playerScore g' = g_playerScore g + 1 \<and> g_opponentScore g' = g_opponentScore g
                   \<and> p_consecutiveHits (g_opponentPaddle g') = 0)
             \<and> b_position (g_ball g') = \<lparr>vec_x = g_fieldWidth g / 2, vec_y = g_fieldHeight g / 2\<rparr>
             \<and> b_velocity (g_ball g')
                 = (if speed > 0
                    then \<lparr>vec_x = vec_x serve * (b_baseSpeed (g_ball g) / speed),
                          vec_y = vec_y serve * (b_baseSpeed (g_ball g) / speed)\<rparr>
                    else serve)
             \<and> b_speedScaleFactor (g_ball g') = 1
             \<and> b_hitCounter (g_ball g') = 0
             \<and> g_additionalBalls g' = [])"
proof -
  define ga where "ga = creditScore side g"
  define rs1 where "rs1 = snd (resetBall (side = RightB) rs ga)"
  have m: "mainBallScored rs g = (fst (resetBall (side = RightB) rs ga), rs1, True)"
    unfolding ga_def rs1_def using assms by (rule mainBallScored_crossing)
  have ga: "g_fieldWidth ga = g_fieldWidth g" "g_fieldHeight ga = g_fieldHeight g"
      "g_config ga = g_config g" "g_ball ga = g_ball g"
    by (simp_all add: ga_def)
  have sc: "if (side = LeftB) = (g_role g = HOST)
             then g_opponentScore ga = g_opponentScore g + 1 \<and> g_playerScore ga = g_playerScore g
                  \<and> p_consecutiveHits (g_playerPaddle ga) = 0
             else g_playerScore ga = g_playerScore g + 1 \<and> g_opponentScore ga = g_opponentScore g
                  \<and> p_consecutiveHits (g_opponentPaddle ga) = 0"
    unfolding ga_def by (rule creditScore_effect)
  define g' where "g' = fst (checkScoring rs g)"
  define gb where "gb = fst (resetBall (side = RightB) rs ga)"
  have g': "g' = fst (afterMainBall (gb, rs1, True))"
    by (simp add: g'_def gb_def checkScoring_split m)
  have scores: "g_playerScore g' = g_playerScore ga" "g_opponentScore g' = g_opponentScore ga"
    "p_consecutiveHits (g_playerPaddle g') = p_consecutiveHits (g_playerPaddle ga)"
    "p_consecutiveHits (g_opponentPaddle g') = p_consecutiveHits (g_opponentPaddle ga)"
    by (simp_all add: g' afterMainBall_frame gb_def resetBall_effect)
  have ball: "g_ball g'
     = Ball_reset \<lparr>vec_x = g_fieldWidth g / 2, vec_y = g_fieldHeight g / 2\<rparr>
         \<lparr>vec_x = (if side = RightB then - 1 else 1) * cfg_ballSpeed (g_config g),
          vec_y = (shd rs - 5 / 10) * (cfg_ballSpeed (g_config g) * (5 / 10))\<rparr> True (g_ball g)"
    by (simp add: g' afterMainBall_frame gb_def resetBall_effect ga)
  have balls: "g_additionalBalls g' = []"
    by (simp add: g' afterMainBall_frame gb_def resetBall_effect)
  have first: "if (side = LeftB) = (g_role g = HOST)
              then g_opponentScore g' = g_opponentScore g + 1 \<and> g_playerScore g' = g_playerScore g
                   \<and> p_consecutiveHits (g_playerPaddle g') = 0
              else g_playerScore g' = g_playerScore g + 1 \<and> g_opponentScore g' = g_opponentScore g
                   \<and> p_consecutiveHits (g_opponentPaddle g') = 0"
    using sc by (simp add: scores)
  show ?thesis
    unfolding g'_def [symmetric] Let_def
    using first balls by (simp add: ball Ball_reset_served Let_def)
qed

lemma hostGame_fields:
  "g_role hostGame = HOST" "g_fieldWidth hostGame = 800" "g_fieldHeight hostGame = 600"
  "g_playerScore hostGame = 0" "g_opponentScore hostGame = 0"
  "g_config hostGame = GAME_DEFAULT_CONFIG" "g_additionalBalls hostGame = []"
  "g_ball hostGame = Ball_new \<lparr>vec_x = 400, vec_y = 300\<rparr> 10 \<lparr>vec_x = 0, vec_y = 0\<rparr> 400"
  "g_status hostGame = PLAYING" "g_winner hostGame = None"
  by (simp_all add: hostGame_def Game_new_def initializeGameObjects_def Let_def
        GAME_DEFAULT_CONFIG_def)

lemma mainBallScored_none:
  "checkScoringBoundary 0 (g_fieldWidth g) (g_ball g) = None \<Longrightarrow>
     mainBallScored rs g = (g, rs, False)"
  by (simp add: mainBallScored_def)

lemma mainBallScored_additionalBalls:
  "g_additionalBalls (fst (mainBallScored rs g))
     = (if checkScoringBoundary 0 (g_fieldWidth g) (g_ball g) = None
        then g_additionalBalls g else [])"
  "g_fieldWidth (fst (mainBallScored rs g)) = g_fieldWidth g"
proof -
  show "g_additionalBalls (fst (mainBallScored rs g))
     = (if checkScoringBoundary 0 (g_fieldWidth g) (g_ball g) = None
        then g_additionalBalls g else [])"
  proof (cases "checkScoringBoundary 0 (g_fieldWidth g) (g_ball g)")
    case None
    then show ?thesis by (simp add: mainBallScored_none)
  next
    case (Some side)
    then show ?thesis by (simp add: mainBallScored_crossing resetBall_effect)
  qed
  show "g_fieldWidth (fst (mainBallScored rs g)) = g_fieldWidth g"
  proof (cases "checkScoringBoundary 0 (g_fieldWidth g) (g_ball g)")
    case None
    then show ?thesis by (simp add: mainBallScored_none)
  next
    case (Some side)
    then show ?thesis by (simp add: mainBallScored_crossing)
  qed
qed

lemma creditScore_additionalBalls:
  "g_playerScore (creditScore side (g\<lparr>g_additionalBalls := balls\<rparr>))
     = g_playerScore (creditScore side g)"
  "g_opponentScore (creditScore side (g\<lparr>g_additionalBalls := balls\<rparr>))
     = g_opponentScore (creditScore side g)"
  by (simp_all add: creditScore_def)

lemma mainBallScored_scores:
  "g_playerScore (fst (mainBallScored rs (g\<lparr>g_additionalBalls := balls\<rparr>)))
     = g_playerScore (fst (mainBallScored rs g))"
  "g_opponentScore (fst (mainBallScored rs (g\<lparr>g_additionalBalls := balls\<rparr>)))
     = g_opponentScore (fst (mainBallScored rs g))"
proof -
  show "g_playerScore (fst (mainBallScored rs (g\<lparr>g_additionalBalls := balls\<rparr>)))
     = g_playerScore (fst (mainBallScored rs g))"
  proof (cases "checkScoringBoundary 0 (g_fieldWidth g) (g_ball g)")
    case None
    then show ?thesis by (simp add: mainBallScored_none)
  next
    case (Some side)
    then show ?thesis by (simp add: mainBallScored_crossing creditScore_additionalBalls)
  qed
  show "g_opponentScore (fst (mainBallScored rs (g\<lparr>g_additionalBalls := balls\<rparr>)))
     = g_opponentScore (fst (mainBallScored rs g))"
  proof (cases "checkScoringBoundary 0 (g_fieldWidth g) (g_ball g)")
    case None
    then show ?thesis by (simp add: mainBallScored_none)
  next
    case (Some side)
    then show ?thesis by (simp add: mainBallScored_crossing creditScore_additionalBalls)
  qed
qed

text \<open>After \<^verbatim>\<open>checkScoring\<close> no additional ball that is past a scoring boundary is left in
  the list, and both scores are what they would be with no additional ball at all. When the
  main ball is not at a boundary, the scores are unchanged and the list is the old one
  without the balls past a boundary.\<close>

lemma checkScoring_additional_balls:
  "(let g' = fst (checkScoring rs g)
    in list_all (\<lambda>b. checkScoringBoundary 0 (g_fieldWidth g) b = None) (g_additionalBalls g')
       \<and> g_playerScore g' = g_playerScore (fst (checkScoring rs (g\<lparr>g_additionalBalls := []\<rparr>)))
       \<and> g_opponentScore g'
           = g_opponentScore (fst (checkScoring rs (g\<lparr>g_additionalBalls := []\<rparr>)))
       \<and> (checkScoringBoundary 0 (g_fieldWidth g) (g_ball g) = None \<longrightarrow>
            g_playerScore g' = g_playerScore g \<and> g_opponentScore g' = g_opponentScore g
            \<and> g_additionalBalls g'
                = filter (\<lambda>b. checkScoringBoundary 0 (g_fieldWidth g) b = None)
                    (g_additionalBalls g)))"
proof -
  obtain g1 rs1 scored where m: "mainBallScored rs g = (g1, rs1, scored)"
    by (cases "mainBallScored rs g") auto
  obtain g1' rs1' scored' where m': "mainBallScored rs (g\<lparr>g_additionalBalls := []\<rparr>) = (g1', rs1', scored')"
    by (cases "mainBallScored rs (g\<lparr>g_additionalBalls := []\<rparr>)") auto
  have g1: "g_additionalBalls g1
              = (if checkScoringBoundary 0 (g_fieldWidth g) (g_ball g) = None
                 then g_additionalBalls g else [])"
    "g_fieldWidth g1 = g_fieldWidth g"
    using mainBallScored_additionalBalls [of rs g] by (simp_all add: m)
  have sc: "g_playerScore g1' = g_playerScore g1" "g_opponentScore g1' = g_opponentScore g1"
    using mainBallScored_scores [where rs = rs and g = g and balls = "[]"] by (simp_all add: m m')
  have none: "g1 = g" if "checkScoringBoundary 0 (g_fieldWidth g) (g_ball g) = None"
    using mainBallScored_none [OF that, of rs] by (simp add: m)
  show ?thesis
    using none
    by (simp add: Let_def checkScoring_split m m' afterMainBall_frame g1 sc list_all_iff)
qed

subsection \<open>A tick that scores\<close>

text \<open>The movement and the collisions of a tick change neither the scores nor the role,
  the field, the configuration or the base speed of the main ball.\<close>

lemma tally_updates [simp]:
  "tally (g\<lparr>g_playerPaddle := p\<rparr>) = tally g"
  "tally (g\<lparr>g_opponentPaddle := p\<rparr>) = tally g"
  "tally (g\<lparr>g_additionalBalls := bs\<rparr>) = tally g"
  "tally (g\<lparr>g_powerUpManager := pm\<rparr>) = tally g"
  "tally (g\<lparr>g_turboModeActive := t\<rparr>) = tally g"
  "tally (g\<lparr>g_turboModeTimeRemaining := r\<rparr>) = tally g"
  "tally (g\<lparr>g_gameSpeedMultiplier := r\<rparr>) = tally g"
  by (simp_all add: tally_def)

lemma tally_ball: "b_baseSpeed b = b_baseSpeed (g_ball g) \<Longrightarrow> tally (g\<lparr>g_ball := b\<rparr>) = tally g"
  by (simp add: tally_def)

lemma tally_updateGameSpeed [simp]: "tally (updateGameSpeed dt g) = tally g"
  by (simp add: updateGameSpeed_def Let_def)

lemma tally_updatePaddleShrinking [simp]: "tally (updatePaddleShrinking g) = tally g"
  by (simp add: updatePaddleShrinking_def Let_def)

lemma tally_checkPaddleCollisions [simp]: "tally (fst (checkPaddleCollisions rs g)) = tally g"
  by (simp add: checkPaddleCollisions_def Let_def split_beta tally_def)

lemma tally_checkBoundaryCollisions [simp]: "tally (checkBoundaryCollisions g) = tally g"
  by (simp add: checkBoundaryCollisions_def tally_def)

lemma tally_addExtraBall [simp]: "tally (fst (addExtraBall rs g)) = tally g"
  by (simp add: addExtraBall_def Let_def)

lemma tally_applyPowerUpEffect [simp]: "tally (fst (applyPowerUpEffect powerUp rs g)) = tally g"
  by (cases "pu_type powerUp") (simp_all add: applyPowerUpEffect_def Let_def tally_ball)

lemma tally_collectFor [simp]: "tally (fst (collectFor ball now rs g)) = tally g"
  by (simp add: collectFor_def Let_def split_beta split: option.splits)

lemma tally_additionalBallsCollect [simp]:
  "tally (fst (additionalBallsCollect now i rs g)) = tally g"
proof (induction now i rs g rule: additionalBallsCollect.induct)
  case (1 now i rs g)
  show ?case
  proof (cases "i < length (g_additionalBalls g)")
    case True
    obtain g1 rs1 where c: "collectFor (g_additionalBalls g ! i) now rs g = (g1, rs1)"
      by (cases "collectFor (g_additionalBalls g ! i) now rs g") auto
    have "tally g1 = tally g"
      using tally_collectFor [of "g_additionalBalls g ! i" now rs g] by (simp add: c)
    then show ?thesis
      using True c "1.IH" [OF True c [symmetric]]
      by (subst additionalBallsCollect.simps) simp
  next
    case False
    then show ?thesis by (subst additionalBallsCollect.simps) simp
  qed
qed

lemma tally_checkPowerUpCollections [simp]:
  "tally (fst (checkPowerUpCollections now rs g)) = tally g"
  by (simp add: checkPowerUpCollections_def split_beta)

lemma tally_beforeScoring [simp]: "tally (fst (beforeScoring deltaTime now rs g)) = tally g"
  by (simp add: beforeScoring_def Let_def split_beta tally_ball)

lemma tally_fields:
  assumes "tally g' = tally g"
  shows "g_playerScore g' = g_playerScore g" "g_opponentScore g' = g_opponentScore g"
    "g_role g' = g_role g" "g_fieldWidth g' = g_fieldWidth g" "g_fieldHeight g' = g_fieldHeight g"
    "g_config g' = g_config g" "b_baseSpeed (g_ball g') = b_baseSpeed (g_ball g)"
  using assms by (simp_all add: tally_def)

lemma updatePaddleShrinking_frame [simp]:
  "g_ball (updatePaddleShrinking g) = g_ball g"
  "g_additionalBalls (updatePaddleShrinking g) = g_additionalBalls g"
  "g_playerScore (updatePaddleShrinking g) = g_playerScore g"
  "g_opponentScore (updatePaddleShrinking g) = g_opponentScore g"
  "p_consecutiveHits (g_playerPaddle (updatePaddleShrinking g)) = p_consecutiveHits (g_playerPaddle g)"
  "p_consecutiveHits (g_opponentPaddle (updatePaddleShrinking g))
     = p_consecutiveHits (g_opponentPaddle g)"
  by (simp_all add: updatePaddleShrinking_def Let_def resetSize_def)

text \<open>A PLAYING tick is the movement and the collisions, then \<open>checkScoring\<close>, then the
  shrinking of the paddles, which touches neither the balls nor the scores nor the combos.\<close>

lemma playingTick_parts:
  "playingTick deltaTime now rs g =
     (let (g9, rs9) = beforeScoring deltaTime now rs g;
          (g10, rs10) = checkScoring rs9 g9
      in (if cfg_enablePaddleShrinking (g_config g10) then updatePaddleShrinking g10 else g10,
          rs10))"
  unfolding playingTick_def beforeScoring_def Let_def split_beta by (rule refl)

lemma fixedUpdate_playing:
  assumes "g_status g = PLAYING"
  shows "fixedUpdate deltaTime now rs g = playingTick deltaTime now rs g"
  using assms by (simp add: fixedUpdate_def)

lemma playingTick_scoring:
  fixes deltaTime now rs g
  defines "g10 \<equiv> fst (checkScoring (snd (beforeScoring deltaTime now rs g))
                         (fst (beforeScoring deltaTime now rs g)))"
  shows "g_ball (fst (playingTick deltaTime now rs g)) = g_ball g10"
    "g_additionalBalls (fst (playingTick deltaTime now rs g)) = g_additionalBalls g10"
    "g_playerScore (fst (playingTick deltaTime now rs g)) = g_playerScore g10"
    "g_opponentScore (fst (playingTick deltaTime now rs g)) = g_opponentScore g10"
    "p_consecutiveHits (g_playerPaddle (fst (playingTick deltaTime now rs g)))
       = p_consecutiveHits (g_playerPaddle g10)"
    "p_consecutiveHits (g_opponentPaddle (fst (playingTick deltaTime now rs g)))
       = p_consecutiveHits (g_opponentPaddle g10)"
  by (simp_all add: playingTick_parts split_beta g10_def)

lemma checkScoring_scores:
  "g_playerScore (fst (checkScoring rs g))
     = g_playerScore (case checkScoringBoundary 0 (g_fieldWidth g) (g_ball g) of
                        None \<Rightarrow> g | Some side \<Rightarrow> creditScore side g)"
  "g_opponentScore (fst (checkScoring rs g))
     = g_opponentScore (case checkScoringBoundary 0 (g_fieldWidth g) (g_ball g) of
                          None \<Rightarrow> g | Some side \<Rightarrow> creditScore side g)"
proof -
  obtain g1 rs1 scored where m: "mainBallScored rs g = (g1, rs1, scored)"
    by (cases "mainBallScored rs g") auto
  have g1: "g_playerScore g1
              = g_playerScore (case checkScoringBoundary 0 (g_fieldWidth g) (g_ball g) of
                                 None \<Rightarrow> g | Some side \<Rightarrow> creditScore side g)
            \<and> g_opponentScore g1
              = g_opponentScore (case checkScoringBoundary 0 (g_fieldWidth g) (g_ball g) of
                                   None \<Rightarrow> g | Some side \<Rightarrow> creditScore side g)"
  proof (cases "checkScoringBoundary 0 (g_fieldWidth g) (g_ball g)")
    case None
    then show ?thesis using mainBallScored_none [OF None, of rs] by (simp add: m)
  next
    case (Some side)
    then show ?thesis using mainBallScored_crossing [OF Some, of rs] by (simp add: m)
  qed
  show "g_playerScore (fst (checkScoring rs g))
     = g_playerScore (case checkScoringBoundary 0 (g_fieldWidth g) (g_ball g) of
                        None \<Rightarrow> g | Some side \<Rightarrow> creditScore side g)"
    using g1 by (simp add: checkScoring_split m afterMainBall_frame)
  show "g_opponentScore (fst (checkScoring rs g))
     = g_opponentScore (case checkScoringBoundary 0 (g_fieldWidth g) (g_ball g) of
                          None \<Rightarrow> g | Some side \<Rightarrow> creditScore side g)"
    using g1 by (simp add: checkScoring_split m afterMainBall_frame)
qed

lemma creditScore_tally:
  assumes "tally g' = tally g"
  shows "g_playerScore (creditScore side g') = g_playerScore (creditScore side g)"
    "g_opponentScore (creditScore side g') = g_opponentScore (creditScore side g)"
  using assms by (simp_all add: creditScore_def tally_def)

text \<open>A tick on a field with no power-up, none active and none due, and balls that miss
  the paddles and the walls.\<close>

lemma collectFor_empty_field:
  "pm_powerUps (g_powerUpManager g) = [] \<Longrightarrow> collectFor ball now rs g = (g, rs)"
  by (simp add: collectFor_def checkPowerUpCollection_def Let_def)

lemma additionalBallsCollect_empty_field:
  "pm_powerUps (g_powerUpManager g) = [] \<Longrightarrow> additionalBallsCollect now i rs g = (g, rs)"
proof (induction now i rs g rule: additionalBallsCollect.induct)
  case (1 now i rs g)
  show ?case
  proof (cases "i < length (g_additionalBalls g)")
    case True
    have c: "collectFor (g_additionalBalls g ! i) now rs g = (g, rs)"
      using "1.prems" by (rule collectFor_empty_field)
    show ?thesis
      using True c "1.IH" [OF True c [symmetric] "1.prems"]
      by (subst additionalBallsCollect.simps) simp
  next
    case False
    then show ?thesis by (subst additionalBallsCollect.simps) simp
  qed
qed

lemma checkPowerUpCollections_empty_field:
  "pm_powerUps (g_powerUpManager g) = [] \<Longrightarrow> checkPowerUpCollections now rs g = (g, rs)"
  by (simp add: checkPowerUpCollections_def collectFor_empty_field
        additionalBallsCollect_empty_field)

lemma updateGameSpeed_idle:
  "\<not> g_turboModeActive g \<Longrightarrow> pm_activePowerUps (g_powerUpManager g) = [] \<Longrightarrow>
     updateGameSpeed deltaTime g = g"
  by (simp add: updateGameSpeed_def isPowerUpActive_def Let_def)

lemma PowerUpManager_update_idle:
  "deltaTime < pm_spawnTimer pm \<Longrightarrow> pm_activePowerUps pm = [] \<Longrightarrow>
     PowerUpManager_update deltaTime now rs pm
       = (pm\<lparr>pm_spawnTimer := pm_spawnTimer pm - deltaTime, pm_activePowerUps := []\<rparr>, rs)"
  by (simp add: PowerUpManager_update_def Let_def)

lemma Paddle_update_idle:
  assumes "\<not> p_isMovingUp p" "\<not> p_isMovingDown p" "\<not> p_isRebounding p" "\<not> p_isDashing p"
    "p_targetHeight p = p_height p"
  shows "p_position (Paddle_update deltaTime p) = p_position p"
    "p_width (Paddle_update deltaTime p) = p_width p"
    "p_height (Paddle_update deltaTime p) = p_height p"
proof -
  have m: "moved deltaTime p = p"
    using assms by (simp add: moved_def updateMovement_def moveDirection_def)
  have u: "updatePaddleSize deltaTime q = q" if "p_targetHeight q = p_height q" for q
    using that by (simp add: updatePaddleSize_def)
  define p2 where "p2 = (if p_dashCooldown p > 0
                then p\<lparr>p_dashCooldown := max 0 (p_dashCooldown p - deltaTime)\<rparr> else p)"
  have p2: "p_targetHeight p2 = p_height p2" "p_position p2 = p_position p"
    "p_width p2 = p_width p" "p_height p2 = p_height p"
    using assms(5) by (simp_all add: p2_def)
  have "Paddle_update deltaTime p
          = (if p_height p2 > minPaddleHeight
             then p2\<lparr>p_targetHeight :=
                       max minPaddleHeight (p_targetHeight p2 * (shrinkFactor powr deltaTime))\<rparr>
             else p2)"
    unfolding Paddle_update_unfold m Let_def p2_def [symmetric] u [OF p2(1)] by (rule refl)
  then show "p_position (Paddle_update deltaTime p) = p_position p"
    "p_width (Paddle_update deltaTime p) = p_width p"
    "p_height (Paddle_update deltaTime p) = p_height p"
    by (simp_all add: p2)
qed

text \<open>The movement and the collisions of a tick in which no power-up is on the field or
  active and none is due: the objects move, then the two collision checks run.\<close>

lemma beforeScoring_no_powerUps:
  assumes "\<not> g_turboModeActive g" "pm_activePowerUps (g_powerUpManager g) = []"
    "pm_powerUps (g_powerUpManager g) = []"
    "deltaTime * g_gameSpeedMultiplier g < pm_spawnTimer (g_powerUpManager g)"
  shows "beforeScoring deltaTime now rs g
     = (let dt = deltaTime * g_gameSpeedMultiplier g;
            g6 = g\<lparr>g_powerUpManager :=
                      (if cfg_enablePowerUps (g_config g)
                       then (g_powerUpManager g)
                              \<lparr>pm_spawnTimer := pm_spawnTimer (g_powerUpManager g) - dt,
                               pm_activePowerUps := []\<rparr>
                       else g_powerUpManager g),
                    g_playerPaddle := Paddle_update dt (g_playerPaddle g),
                    g_opponentPaddle := Paddle_update dt (g_opponentPaddle g),
                    g_ball := Ball_update dt (g_ball g),
                    g_additionalBalls := map (Ball_update dt) (g_additionalBalls g)\<rparr>
        in (checkBoundaryCollisions (fst (checkPaddleCollisions rs g6)),
            snd (checkPaddleCollisions rs g6)))"
proof -
  have pm: "g_powerUpManager (checkBoundaryCollisions (fst (checkPaddleCollisions rs' g')))
              = g_powerUpManager g'" for rs' g'
    by (simp add: checkBoundaryCollisions_def checkPaddleCollisions_def Let_def split_beta)
  show ?thesis
    using assms
    by (simp add: beforeScoring_def updateGameSpeed_idle PowerUpManager_update_idle Let_def
          split_beta checkPowerUpCollections_empty_field pm)
qed

lemma hostGame_objects:
  "g_playerPaddle hostGame = Paddle_new \<lparr>vec_x = 30, vec_y = 300\<rparr> 12 80 500 0 600"
  "g_opponentPaddle hostGame = Paddle_new \<lparr>vec_x = 770, vec_y = 300\<rparr> 12 80 500 0 600"
  "g_powerUpManager hostGame = PowerUpManager_new 800 600 15"
  "g_turboModeActive hostGame = False" "g_gameSpeedMultiplier hostGame = 1"
  by (simp_all add: hostGame_def Game_new_def initializeGameObjects_def Let_def
        GAME_DEFAULT_CONFIG_def)

lemma Paddle_update_new:
  "p_position (Paddle_update deltaTime (Paddle_new pos w h s lo hi)) = pos"
  "p_width (Paddle_update deltaTime (Paddle_new pos w h s lo hi)) = w"
  "p_height (Paddle_update deltaTime (Paddle_new pos w h s lo hi)) = h"
  by (simp_all add: Paddle_update_idle Paddle_new_def)

lemma checkBoundaryCollisions_balls:
  "g_ball (checkBoundaryCollisions g) = snd (checkBoundaryCollision 0 (g_fieldHeight g) (g_ball g))"
  "g_additionalBalls (checkBoundaryCollisions g)
     = map (\<lambda>ball. snd (checkBoundaryCollision 0 (g_fieldHeight g) ball)) (g_additionalBalls g)"
  "g_fieldHeight (fst (checkPaddleCollisions rs g)) = g_fieldHeight g"
  by (simp_all add: checkBoundaryCollisions_def checkPaddleCollisions_def Let_def split_beta)

lemma checkPaddleCollision_miss:
  assumes "b_radius b * b_radius b
             < (vec_x (b_position b) - max pl (min (vec_x (b_position b)) pr))
               * (vec_x (b_position b) - max pl (min (vec_x (b_position b)) pr))
               + (vec_y (b_position b) - max (py - ph / 2) (min (vec_y (b_position b)) (py + ph / 2)))
                 * (vec_y (b_position b) - max (py - ph / 2) (min (vec_y (b_position b)) (py + ph / 2)))"
    and "pl = (if isLeft then px else px - pw)" and "pr = (if isLeft then px + pw else px)"
  shows "checkPaddleCollision px py pw ph isLeft rs b = (False, b, rs)"
  using assms by (simp add: checkPaddleCollision_def Let_def)

lemma checkPaddleCollisions_miss:
  assumes "checkPaddleCollision (vec_x (p_position (g_playerPaddle g)))
             (vec_y (p_position (g_playerPaddle g))) (p_width (g_playerPaddle g))
             (p_height (g_playerPaddle g)) (g_role g = HOST) rs (g_ball g) = (False, g_ball g, rs)"
    and "checkPaddleCollision (vec_x (p_position (g_opponentPaddle g)))
             (vec_y (p_position (g_opponentPaddle g))) (p_width (g_opponentPaddle g))
             (p_height (g_opponentPaddle g)) (g_role g \<noteq> HOST) rs (g_ball g) = (False, g_ball g, rs)"
  shows "g_ball (fst (checkPaddleCollisions rs g)) = g_ball g"
    and "g_additionalBalls g = [] \<Longrightarrow> snd (checkPaddleCollisions rs g) = rs"
    and "g_additionalBalls (fst (checkPaddleCollisions rs g))
           = fst (collideAdditionalBalls (g_playerPaddle g) (g_opponentPaddle g) (g_role g = HOST)
                    (g_role g \<noteq> HOST) (g_additionalBalls g) (g_playerPaddle g)
                    (g_opponentPaddle g) rs)"
  using assms by (simp_all add: checkPaddleCollisions_def Let_def split_beta)

lemma checkBoundaryCollision_miss:
  assumes "lo < vec_y (b_position b) + vec_y (b_velocity b) - b_radius b"
    and "vec_y (b_position b) + vec_y (b_velocity b) + b_radius b < hi"
  shows "checkBoundaryCollision lo hi b = (False, b)"
  using assms by (simp add: checkBoundaryCollision_def Let_def)

lemma example_fields:
  "g_status outLeftGame = PLAYING" "g_fieldWidth outLeftGame = 800"
  "g_fieldHeight outLeftGame = 600" "g_role outLeftGame = HOST"
  "g_playerScore outLeftGame = 0" "g_opponentScore outLeftGame = 0"
  "g_config outLeftGame = GAME_DEFAULT_CONFIG" "g_ball outLeftGame = outLeftBall"
  "g_status multiBallGame = PLAYING" "g_fieldWidth multiBallGame = 800"
  "g_playerScore multiBallGame = 0" "g_opponentScore multiBallGame = 0"
  by (simp_all add: outLeftGame_def multiBallGame_def hostGame_fields)

lemma outLeftGame_tick:
  "g_ball (fst (beforeScoring (1 / 120) 0 (sconst (1 / 2)) outLeftGame))
     = outLeftBall\<lparr>b_position := \<lparr>vec_x = 5 / 3, vec_y = 300\<rparr>\<rparr>"
  "snd (beforeScoring (1 / 120) 0 (sconst (1 / 2)) outLeftGame) = sconst (1 / 2)"
proof -
  define B where "B = outLeftBall\<lparr>b_position := \<lparr>vec_x = 5 / 3, vec_y = 300\<rparr>\<rparr>"
  define g6 where "g6 = outLeftGame
      \<lparr>g_powerUpManager :=
         (if cfg_enablePowerUps (g_config outLeftGame)
          then (g_powerUpManager outLeftGame)
                 \<lparr>pm_spawnTimer := pm_spawnTimer (g_powerUpManager outLeftGame)
                                      - 1 / 120 * g_gameSpeedMultiplier outLeftGame,
                  pm_activePowerUps := []\<rparr>
          else g_powerUpManager outLeftGame),
       g_playerPaddle := Paddle_update (1 / 120 * g_gameSpeedMultiplier outLeftGame)
                           (g_playerPaddle outLeftGame),
       g_opponentPaddle := Paddle_update (1 / 120 * g_gameSpeedMultiplier outLeftGame)
                             (g_opponentPaddle outLeftGame),
       g_ball := Ball_update (1 / 120 * g_gameSpeedMultiplier outLeftGame) (g_ball outLeftGame),
       g_additionalBalls := map (Ball_update (1 / 120 * g_gameSpeedMultiplier outLeftGame))
                              (g_additionalBalls outLeftGame)\<rparr>"
  have q: "\<not> g_turboModeActive outLeftGame" "pm_activePowerUps (g_powerUpManager outLeftGame) = []"
    "pm_powerUps (g_powerUpManager outLeftGame) = []"
    "1 / 120 * g_gameSpeedMultiplier outLeftGame < pm_spawnTimer (g_powerUpManager outLeftGame)"
    by (simp_all add: outLeftGame_def hostGame_objects PowerUpManager_new_def)
  have step: "beforeScoring (1 / 120) 0 (sconst (1 / 2)) outLeftGame
                = (checkBoundaryCollisions (fst (checkPaddleCollisions (sconst (1 / 2)) g6)),
                   snd (checkPaddleCollisions (sconst (1 / 2)) g6))"
    unfolding beforeScoring_no_powerUps [OF q] Let_def g6_def by (rule refl)
  have b: "g_ball g6 = B"
    by (simp add: g6_def B_def outLeftGame_def hostGame_objects Ball_update_def outLeftBall_def
          Ball_new_def)
  have g6: "g_role g6 = HOST" "g_fieldHeight g6 = 600" "g_additionalBalls g6 = []"
    "p_position (g_playerPaddle g6) = \<lparr>vec_x = 30, vec_y = 300\<rparr>"
    "p_width (g_playerPaddle g6) = 12" "p_height (g_playerPaddle g6) = 80"
    "p_position (g_opponentPaddle g6) = \<lparr>vec_x = 770, vec_y = 300\<rparr>"
    "p_width (g_opponentPaddle g6) = 12" "p_height (g_opponentPaddle g6) = 80"
    by (simp_all add: g6_def outLeftGame_def hostGame_fields hostGame_objects Paddle_update_new)
  have B: "b_position B = \<lparr>vec_x = 5 / 3, vec_y = 300\<rparr>" "b_radius B = 10"
    "b_velocity B = \<lparr>vec_x = - 400, vec_y = 0\<rparr>"
    by (simp_all add: B_def outLeftBall_def Ball_new_def)
  have c1: "checkPaddleCollision 30 300 12 80 True rs B = (False, B, rs)" for rs
    by (rule checkPaddleCollision_miss [where pl = 30 and pr = 42]) (simp_all add: B)
  have c2: "checkPaddleCollision 770 300 12 80 False rs B = (False, B, rs)" for rs
    by (rule checkPaddleCollision_miss [where pl = 758 and pr = 770]) (simp_all add: B)
  have c: "g_ball (fst (checkPaddleCollisions (sconst (1 / 2)) g6)) = B"
    "snd (checkPaddleCollisions (sconst (1 / 2)) g6) = sconst (1 / 2)"
    using checkPaddleCollisions_miss [of g6 "sconst (1 / 2)"]
    by (simp_all add: g6 b c1 c2)
  have w: "checkBoundaryCollision 0 600 B = (False, B)"
    by (rule checkBoundaryCollision_miss) (simp_all add: B)
  show "g_ball (fst (beforeScoring (1 / 120) 0 (sconst (1 / 2)) outLeftGame)) = B"
    by (simp add: step checkBoundaryCollisions_balls c g6 w)
  show "snd (beforeScoring (1 / 120) 0 (sconst (1 / 2)) outLeftGame) = sconst (1 / 2)"
    by (simp add: step c)
qed

lemma multiBallGame_tick:
  "g_ball (fst (beforeScoring (1 / 120) 0 (sconst (1 / 2)) multiBallGame)) = g_ball hostGame"
  "g_additionalBalls (fst (beforeScoring (1 / 120) 0 (sconst (1 / 2)) multiBallGame))
     = [Ball_new \<lparr>vec_x = 5 / 3, vec_y = 100\<rparr> 10 \<lparr>vec_x = - 400, vec_y = 0\<rparr> 400,
        Ball_new \<lparr>vec_x = 610 / 3, vec_y = 100\<rparr> 10 \<lparr>vec_x = 400, vec_y = 0\<rparr> 400]"
proof -
  define B where "B = g_ball hostGame"
  define B1 where "B1 = Ball_new \<lparr>vec_x = 5 / 3, vec_y = 100\<rparr> 10 \<lparr>vec_x = - 400, vec_y = 0\<rparr> 400"
  define B2 where "B2 = Ball_new \<lparr>vec_x = 610 / 3, vec_y = 100\<rparr> 10 \<lparr>vec_x = 400, vec_y = 0\<rparr> 400"
  define g6 where "g6 = multiBallGame
      \<lparr>g_powerUpManager :=
         (if cfg_enablePowerUps (g_config multiBallGame)
          then (g_powerUpManager multiBallGame)
                 \<lparr>pm_spawnTimer := pm_spawnTimer (g_powerUpManager multiBallGame)
                                      - 1 / 120 * g_gameSpeedMultiplier multiBallGame,
                  pm_activePowerUps := []\<rparr>
          else g_powerUpManager multiBallGame),
       g_playerPaddle := Paddle_update (1 / 120 * g_gameSpeedMultiplier multiBallGame)
                           (g_playerPaddle multiBallGame),
       g_opponentPaddle := Paddle_update (1 / 120 * g_gameSpeedMultiplier multiBallGame)
                             (g_opponentPaddle multiBallGame),
       g_ball := Ball_update (1 / 120 * g_gameSpeedMultiplier multiBallGame) (g_ball multiBallGame),
       g_additionalBalls := map (Ball_update (1 / 120 * g_gameSpeedMultiplier multiBallGame))
                              (g_additionalBalls multiBallGame)\<rparr>"
  have q: "\<not> g_turboModeActive multiBallGame"
    "pm_activePowerUps (g_powerUpManager multiBallGame) = []"
    "pm_powerUps (g_powerUpManager multiBallGame) = []"
    "1 / 120 * g_gameSpeedMultiplier multiBallGame < pm_spawnTimer (g_powerUpManager multiBallGame)"
    by (simp_all add: multiBallGame_def hostGame_objects PowerUpManager_new_def)
  have step: "beforeScoring (1 / 120) 0 (sconst (1 / 2)) multiBallGame
                = (checkBoundaryCollisions (fst (checkPaddleCollisions (sconst (1 / 2)) g6)),
                   snd (checkPaddleCollisions (sconst (1 / 2)) g6))"
    unfolding beforeScoring_no_powerUps [OF q] Let_def g6_def by (rule refl)
  have b: "g_ball g6 = B"
    by (simp add: g6_def B_def multiBallGame_def hostGame_objects hostGame_fields Ball_update_def
          Ball_new_def)
  have bs: "g_additionalBalls g6 = [B1, B2]"
    by (simp add: g6_def B1_def B2_def multiBallGame_def hostGame_objects Ball_update_def
          Ball_new_def)
  have g6: "g_role g6 = HOST" "g_fieldHeight g6 = 600"
    "p_position (g_playerPaddle g6) = \<lparr>vec_x = 30, vec_y = 300\<rparr>"
    "p_width (g_playerPaddle g6) = 12" "p_height (g_playerPaddle g6) = 80"
    "p_position (g_opponentPaddle g6) = \<lparr>vec_x = 770, vec_y = 300\<rparr>"
    "p_width (g_opponentPaddle g6) = 12" "p_height (g_opponentPaddle g6) = 80"
    by (simp_all add: g6_def multiBallGame_def hostGame_fields hostGame_objects Paddle_update_new)
  have B: "b_position B = \<lparr>vec_x = 400, vec_y = 300\<rparr>" "b_radius B = 10"
    "b_velocity B = \<lparr>vec_x = 0, vec_y = 0\<rparr>"
    "b_position B1 = \<lparr>vec_x = 5 / 3, vec_y = 100\<rparr>" "b_radius B1 = 10"
    "b_velocity B1 = \<lparr>vec_x = - 400, vec_y = 0\<rparr>"
    "b_position B2 = \<lparr>vec_x = 610 / 3, vec_y = 100\<rparr>" "b_radius B2 = 10"
    "b_velocity B2 = \<lparr>vec_x = 400, vec_y = 0\<rparr>"
    by (simp_all add: B_def B1_def B2_def hostGame_fields Ball_new_def)
  have c1: "checkPaddleCollision 30 300 12 80 True rs B = (False, B, rs)"
    "checkPaddleCollision 30 300 12 80 True rs B1 = (False, B1, rs)"
    "checkPaddleCollision 30 300 12 80 True rs B2 = (False, B2, rs)" for rs
    by (rule checkPaddleCollision_miss [where pl = 30 and pr = 42], simp_all add: B)+
  have c2: "checkPaddleCollision 770 300 12 80 False rs B = (False, B, rs)"
    "checkPaddleCollision 770 300 12 80 False rs B1 = (False, B1, rs)"
    "checkPaddleCollision 770 300 12 80 False rs B2 = (False, B2, rs)" for rs
    by (rule checkPaddleCollision_miss [where pl = 758 and pr = 770], simp_all add: B)+
  have c: "g_ball (fst (checkPaddleCollisions (sconst (1 / 2)) g6)) = B"
    "g_additionalBalls (fst (checkPaddleCollisions (sconst (1 / 2)) g6)) = [B1, B2]"
    using checkPaddleCollisions_miss [of g6 "sconst (1 / 2)"]
    by (simp_all add: g6 b bs c1 c2)
  have w: "checkBoundaryCollision 0 600 B = (False, B)"
    "checkBoundaryCollision 0 600 B1 = (False, B1)"
    "checkBoundaryCollision 0 600 B2 = (False, B2)"
    by (rule checkBoundaryCollision_miss, simp_all add: B)+
  show "g_ball (fst (beforeScoring (1 / 120) 0 (sconst (1 / 2)) multiBallGame)) = B"
    by (simp add: step checkBoundaryCollisions_balls c g6 w)
  show "g_additionalBalls (fst (beforeScoring (1 / 120) 0 (sconst (1 / 2)) multiBallGame))
          = [B1, B2]"
    by (simp add: step checkBoundaryCollisions_balls c g6 w)
qed

text \<open>
  Claim C6. In a PLAYING tick, when the main ball, after the movement and the collisions of
  the tick, is at a scoring boundary (\<open>x - radius \<le> 0\<close>, or else \<open>x + radius \<ge> fieldWidth\<close>),
  exactly one of the two scores of before the tick goes up by one: the opponent's when the
  ball left on the local player's side (left for the host, right otherwise), the player's
  otherwise; the other score is unchanged, and the hit combo of the paddle on the side the
  ball left is 0. After the tick the main ball is at the centre of the field with scale
  factor 1 and hit counter 0, its velocity is the serve vector
  \<open>(\<plusminus>ballSpeed, (random - 0.5) * ballSpeed / 2)\<close>, away from the boundary it left by,
  rescaled to the ball's base speed, and the list of additional balls is empty.
\<close>

theorem fixedUpdate_main_ball_scores:
  assumes playing: "g_status g = PLAYING"
    and crossing: "checkScoringBoundary 0 (g_fieldWidth g)
                     (g_ball (fst (beforeScoring deltaTime now rs g))) = Some side"
  shows "(let g' = fst (fixedUpdate deltaTime now rs g);
              serve = \<lparr>vec_x = (if side = RightB then - 1 else 1) * cfg_ballSpeed (g_config g),
                       vec_y = (shd (snd (beforeScoring deltaTime now rs g)) - 5 / 10)
                               * (cfg_ballSpeed (g_config g) * (5 / 10))\<rparr>;
              speed = sqrt (vec_x serve * vec_x serve + vec_y serve * vec_y serve)
          in (if (side = LeftB) = (g_role g = HOST)
              then g_opponentScore g' = g_opponentScore g + 1 \<and> g_playerScore g' = g_playerScore g
                   \<and> p_consecutiveHits (g_playerPaddle g') = 0
              else g_playerScore g' = g_playerScore g + 1 \<and> g_opponentScore g' = g_opponentScore g
                   \<and> p_consecutiveHits (g_opponentPaddle g') = 0)
             \<and> b_position (g_ball g') = \<lparr>vec_x = g_fieldWidth g / 2, vec_y = g_fieldHeight g / 2\<rparr>
             \<and> b_velocity (g_ball g')
                 = (if speed > 0
                    then \<lparr>vec_x = vec_x serve * (b_baseSpeed (g_ball g) / speed),
                          vec_y = vec_y serve * (b_baseSpeed (g_ball g) / speed)\<rparr>
                    else serve)
             \<and> b_speedScaleFactor (g_ball g') = 1
             \<and> b_hitCounter (g_ball g') = 0
             \<and> g_additionalBalls g' = [])"
proof -
  define g9 where "g9 = fst (beforeScoring deltaTime now rs g)"
  define rs9 where "rs9 = snd (beforeScoring deltaTime now rs g)"
  have t: "tally g9 = tally g" by (simp add: g9_def)
  note f = tally_fields [OF t]
  have c: "checkScoringBoundary 0 (g_fieldWidth g9) (g_ball g9) = Some side"
    using crossing by (simp add: g9_def [symmetric] f)
  have tick: "fixedUpdate deltaTime now rs g = playingTick deltaTime now rs g"
    using playing by (rule fixedUpdate_playing)
  show ?thesis
    using checkScoring_crossing [OF c, of rs9]
    unfolding tick Let_def playingTick_scoring g9_def [symmetric] rs9_def [symmetric] f
    by simp
qed

text \<open>The host's tick of 1/120 s with the main ball 5 px from the left edge and flying left:
  the opponent scores and the ball is served to the right from the centre.\<close>

theorem fixedUpdate_main_ball_scores_witness:
  "g_status outLeftGame = PLAYING
   \<and> checkScoringBoundary 0 (g_fieldWidth outLeftGame)
        (g_ball (fst (beforeScoring (1 / 120) 0 (sconst (1 / 2)) outLeftGame))) = Some LeftB
   \<and> g_opponentScore (fst (fixedUpdate (1 / 120) 0 (sconst (1 / 2)) outLeftGame)) = 1
   \<and> g_playerScore (fst (fixedUpdate (1 / 120) 0 (sconst (1 / 2)) outLeftGame)) = 0
   \<and> p_consecutiveHits (g_playerPaddle (fst (fixedUpdate (1 / 120) 0 (sconst (1 / 2)) outLeftGame)))
       = 0
   \<and> b_position (g_ball (fst (fixedUpdate (1 / 120) 0 (sconst (1 / 2)) outLeftGame)))
       = \<lparr>vec_x = 400, vec_y = 300\<rparr>
   \<and> b_velocity (g_ball (fst (fixedUpdate (1 / 120) 0 (sconst (1 / 2)) outLeftGame)))
       = \<lparr>vec_x = 400, vec_y = 0\<rparr>
   \<and> b_speedScaleFactor (g_ball (fst (fixedUpdate (1 / 120) 0 (sconst (1 / 2)) outLeftGame))) = 1
   \<and> b_hitCounter (g_ball (fst (fixedUpdate (1 / 120) 0 (sconst (1 / 2)) outLeftGame))) = 0
   \<and> g_additionalBalls (fst (fixedUpdate (1 / 120) 0 (sconst (1 / 2)) outLeftGame)) = []"
proof -
  have p: "g_status outLeftGame = PLAYING"
    by (rule example_fields)
  have h: "checkScoringBoundary 0 (g_fieldWidth outLeftGame)
             (g_ball (fst (beforeScoring (1 / 120) 0 (sconst (1 / 2)) outLeftGame))) = Some LeftB"
    by (simp add: outLeftGame_tick checkScoringBoundary_def outLeftBall_def Ball_new_def)
  show ?thesis
    using p h fixedUpdate_main_ball_scores [OF p h]
    by (simp add: Let_def outLeftGame_tick example_fields outLeftBall_def
          Ball_new_def GAME_DEFAULT_CONFIG_def sqrt_160000)
qed

lemma fixedUpdate_not_playing_scores:
  assumes "g_status g \<noteq> PLAYING"
  shows "g_playerScore (fst (fixedUpdate deltaTime now rs g)) = g_playerScore g"
    "g_opponentScore (fst (fixedUpdate deltaTime now rs g)) = g_opponentScore g"
  using assms
  by (cases "g_status g";
      simp add: fixedUpdate_def countdownTick_def countdownSafeguard_def startGame_def Let_def
        split_beta)+

text \<open>
  Claim C9. After a PLAYING tick no additional ball that is past a scoring boundary is left
  in the list, and the scores are decided by the main ball alone. When the main ball, after
  the movement and the collisions of the tick, is not at a boundary, both scores are those
  of before the tick, however many additional balls have crossed, and the list is the one
  after the movement without the balls past a boundary. When the main ball is at a
  boundary, the scores are those of before the tick with the one point of the main ball,
  and the list is empty. A tick in another status changes no score.
\<close>

theorem fixedUpdate_additional_balls_never_score:
  "(let g9 = fst (beforeScoring deltaTime now rs g);
        crossing = checkScoringBoundary 0 (g_fieldWidth g) (g_ball g9);
        g' = fst (fixedUpdate deltaTime now rs g)
    in (g_status g = PLAYING \<longrightarrow>
          list_all (\<lambda>b. checkScoringBoundary 0 (g_fieldWidth g) b = None) (g_additionalBalls g')
          \<and> (crossing = None \<longrightarrow>
                g_playerScore g' = g_playerScore g \<and> g_opponentScore g' = g_opponentScore g
                \<and> g_additionalBalls g'
                    = filter (\<lambda>b. checkScoringBoundary 0 (g_fieldWidth g) b = None)
                        (g_additionalBalls g9))
          \<and> (\<forall>side. crossing = Some side \<longrightarrow>
                g_playerScore g' = g_playerScore (creditScore side g)
                \<and> g_opponentScore g' = g_opponentScore (creditScore side g)
                \<and> g_additionalBalls g' = []))
       \<and> (g_status g \<noteq> PLAYING \<longrightarrow>
            g_playerScore g' = g_playerScore g \<and> g_opponentScore g' = g_opponentScore g))"
proof (cases "g_status g = PLAYING")
  case playing: True
  define g9 where "g9 = fst (beforeScoring deltaTime now rs g)"
  define rs9 where "rs9 = snd (beforeScoring deltaTime now rs g)"
  have t: "tally g9 = tally g" by (simp add: g9_def)
  note f = tally_fields [OF t]
  have tick: "fixedUpdate deltaTime now rs g = playingTick deltaTime now rs g"
    using playing by (rule fixedUpdate_playing)
  have crossed: "g_additionalBalls (fst (checkScoring rs9 g9)) = []"
    if "checkScoringBoundary 0 (g_fieldWidth g9) (g_ball g9) = Some side" for side
    using checkScoring_crossing [OF that, of rs9] by (simp add: Let_def)
  show ?thesis
    using checkScoring_additional_balls [of rs9 g9] crossed playing
    unfolding tick Let_def playingTick_scoring g9_def [symmetric] rs9_def [symmetric]
    by (simp add: f checkScoring_scores creditScore_tally [OF t])
next
  case False
  then show ?thesis
    by (simp add: Let_def fixedUpdate_not_playing_scores)
qed

text \<open>The host's tick of 1/120 s with the main ball at the centre and two additional balls,
  one of them 5 px from the left edge and flying left: it is removed, nobody scores. A tick
  of the finished game leaves the winner's 11 points.\<close>

theorem fixedUpdate_additional_balls_never_score_witness:
  "g_status multiBallGame = PLAYING
   \<and> checkScoringBoundary 0 (g_fieldWidth multiBallGame)
        (g_ball (fst (beforeScoring (1 / 120) 0 (sconst (1 / 2)) multiBallGame))) = None
   \<and> g_playerScore (fst (fixedUpdate (1 / 120) 0 (sconst (1 / 2)) multiBallGame)) = 0
   \<and> g_opponentScore (fst (fixedUpdate (1 / 120) 0 (sconst (1 / 2)) multiBallGame)) = 0
   \<and> g_additionalBalls (fst (fixedUpdate (1 / 120) 0 (sconst (1 / 2)) multiBallGame))
       = [Ball_new \<lparr>vec_x = 610 / 3, vec_y = 100\<rparr> 10 \<lparr>vec_x = 400, vec_y = 0\<rparr> 400]
   \<and> g_status finishedGame \<noteq> PLAYING
   \<and> g_playerScore (fst (fixedUpdate (1 / 120) 0 (sconst (1 / 2)) finishedGame)) = 11"
proof -
  have p: "g_status multiBallGame = PLAYING"
    by (rule example_fields)
  have h: "checkScoringBoundary 0 (g_fieldWidth multiBallGame)
             (g_ball (fst (beforeScoring (1 / 120) 0 (sconst (1 / 2)) multiBallGame))) = None"
    by (simp add: multiBallGame_tick example_fields hostGame_fields checkScoringBoundary_def
          Ball_new_def)
  have o: "g_status finishedGame = GAME_OVER" "g_playerScore finishedGame = 11"
    by (simp_all add: finishedGame_def)
  show ?thesis
    using p h o
      fixedUpdate_additional_balls_never_score [where g = multiBallGame and deltaTime = "1 / 120" and now = 0
        and rs = "sconst (1 / 2)"]
      fixedUpdate_additional_balls_never_score [where g = finishedGame and deltaTime = "1 / 120" and now = 0
        and rs = "sconst (1 / 2)"]
    by (simp add: Let_def multiBallGame_tick example_fields hostGame_fields
          checkScoringBoundary_def Ball_new_def)
qed


section \<open>Applying a snapshot without optional fields\<close>

lemma setState_applied:
  "\<not> entersCountdown state g \<Longrightarrow>
     fst (setState state rs g) = applySnapshot state (beforeSnapshot state rs g)"
  by (auto simp: setState_def entersCountdown_def beforeSnapshot_def servesFirst_def Let_def
        split: prod.splits)

lemma setState_entersCountdown:
  "entersCountdown state g \<Longrightarrow> setState state rs g = (g\<lparr>g_status := COUNTDOWN\<rparr>, rs)"
  by (auto simp: setState_def entersCountdown_def startCountdown_def Let_def split: prod.splits)

lemma beforeSnapshot_frame [simp]:
  "g_winner (beforeSnapshot state rs g) = g_winner g"
  "g_countdown (beforeSnapshot state rs g) = g_countdown g"
  "g_turboModeActive (beforeSnapshot state rs g) = g_turboModeActive g"
  "g_turboModeTimeRemaining (beforeSnapshot state rs g) = g_turboModeTimeRemaining g"
  "g_gameSpeedMultiplier (beforeSnapshot state rs g) = g_gameSpeedMultiplier g"
  "g_status (beforeSnapshot state rs g) = gs_status state"
  by (simp_all add: beforeSnapshot_def resetBall_def Let_def)

lemma beforeSnapshot_ball:
  "b_curveIntensity (g_ball (beforeSnapshot state rs g)) = b_curveIntensity (g_ball g)"
  "b_curveDirection (g_ball (beforeSnapshot state rs g)) = b_curveDirection (g_ball g)"
  "b_speedScaleFactor (g_ball (beforeSnapshot state rs g))
     = (if servesFirst state g then 1 else b_speedScaleFactor (g_ball g))"
  "b_hitCounter (g_ball (beforeSnapshot state rs g))
     = (if servesFirst state g then 0 else b_hitCounter (g_ball g))"
  by (simp_all add: beforeSnapshot_def resetBall_def Let_def Ball_reset_def
        resetSpeedScaling_def normalizeVelocity_def)

lemma beforeSnapshot_paddles:
  "p_isRebounding (g_playerPaddle (beforeSnapshot state rs g)) = p_isRebounding (g_playerPaddle g)"
  "p_reboundTime (g_playerPaddle (beforeSnapshot state rs g)) = p_reboundTime (g_playerPaddle g)"
  "p_isRebounding (g_opponentPaddle (beforeSnapshot state rs g))
     = p_isRebounding (g_opponentPaddle g)"
  "p_reboundTime (g_opponentPaddle (beforeSnapshot state rs g))
     = p_reboundTime (g_opponentPaddle g)"
  by (simp_all add: beforeSnapshot_def resetBall_def Let_def setPosition_def)

lemma Ball_setState_absent:
  "bs_speedScaleFactor st = None \<Longrightarrow>
     b_speedScaleFactor (Ball_setState st b) = b_speedScaleFactor b"
  "bs_hitCounter st = None \<Longrightarrow> b_hitCounter (Ball_setState st b) = b_hitCounter b"
  "bs_curveIntensity st = None \<Longrightarrow> b_curveIntensity (Ball_setState st b) = b_curveIntensity b"
  "bs_curveDirection st = None \<Longrightarrow> b_curveDirection (Ball_setState st b) = b_curveDirection b"
  by (simp_all add: Ball_setState_def Let_def split: option.splits)

lemma Paddle_setState_absent:
  "ps_isRebounding st = None \<Longrightarrow> p_isRebounding (Paddle_setState st p) = p_isRebounding p"
  "ps_reboundTime st = None \<Longrightarrow> p_reboundTime (Paddle_setState st p) = p_reboundTime p"
  by (simp_all add: Paddle_setState_def Let_def setPosition_def split: option.splits)

lemma applySnapshot_parts:
  "applySnapshot state g = snapshotBalls state (snapshotSpeed state (snapshotRequired state g))"
  unfolding applySnapshot_def snapshotBalls_def snapshotSpeed_def snapshotRequired_def Let_def
  by (rule refl)

lemma snapshotRequired_fields:
  "g_ball (snapshotRequired state g) = Ball_setState (gs_ball state) (g_ball g)"
  "g_playerPaddle (snapshotRequired state g)
     = Paddle_setState (gs_playerPaddle state) (g_playerPaddle g)"
  "g_opponentPaddle (snapshotRequired state g)
     = Paddle_setState (gs_opponentPaddle state) (g_opponentPaddle g)"
  "g_winner (snapshotRequired state g)
     = (case gs_winner state of Some (Some w) \<Rightarrow> Some w | _ \<Rightarrow> None)"
  "g_status (snapshotRequired state g) = g_status g"
  "g_turboModeActive (snapshotRequired state g) = g_turboModeActive g"
  "g_turboModeTimeRemaining (snapshotRequired state g) = g_turboModeTimeRemaining g"
  "g_gameSpeedMultiplier (snapshotRequired state g) = g_gameSpeedMultiplier g"
  "gs_countdown state = None \<Longrightarrow> g_countdown (snapshotRequired state g) = g_countdown g"
  by (simp_all add: snapshotRequired_def Let_def split: option.splits)

lemma snapshotSpeed_fields:
  "g_ball (snapshotSpeed state g) = g_ball g"
  "g_playerPaddle (snapshotSpeed state g) = g_playerPaddle g"
  "g_opponentPaddle (snapshotSpeed state g) = g_opponentPaddle g"
  "g_winner (snapshotSpeed state g) = g_winner g"
  "g_status (snapshotSpeed state g) = g_status g"
  "g_countdown (snapshotSpeed state g) = g_countdown g"
  "gs_turboModeActive state = None \<Longrightarrow>
     g_turboModeActive (snapshotSpeed state g) = g_turboModeActive g"
  "gs_turboModeTimeRemaining state = None \<Longrightarrow>
     g_turboModeTimeRemaining (snapshotSpeed state g) = g_turboModeTimeRemaining g"
  "gs_gameSpeedMultiplier state = None \<Longrightarrow>
     g_gameSpeedMultiplier (snapshotSpeed state g) = g_gameSpeedMultiplier g"
  by (simp_all add: snapshotSpeed_def Let_def split: option.splits)

lemma snapshotBalls_fields:
  "g_ball (snapshotBalls state g) = g_ball g"
  "g_playerPaddle (snapshotBalls state g) = g_playerPaddle g"
  "g_opponentPaddle (snapshotBalls state g) = g_opponentPaddle g"
  "g_winner (snapshotBalls state g) = g_winner g"
  "g_status (snapshotBalls state g) = g_status g"
  "g_countdown (snapshotBalls state g) = g_countdown g"
  "g_turboModeActive (snapshotBalls state g) = g_turboModeActive g"
  "g_turboModeTimeRemaining (snapshotBalls state g) = g_turboModeTimeRemaining g"
  "g_gameSpeedMultiplier (snapshotBalls state g) = g_gameSpeedMultiplier g"
  "gs_additionalBalls state = None \<Longrightarrow> g_additionalBalls (snapshotBalls state g) = []"
  by (simp_all add: snapshotBalls_def Let_def split: option.splits)

lemma applySnapshot_objects:
  "g_ball (applySnapshot state g) = Ball_setState (gs_ball state) (g_ball g)"
  "g_playerPaddle (applySnapshot state g)
     = Paddle_setState (gs_playerPaddle state) (g_playerPaddle g)"
  "g_opponentPaddle (applySnapshot state g)
     = Paddle_setState (gs_opponentPaddle state) (g_opponentPaddle g)"
  "g_status (applySnapshot state g) = g_status g"
  "g_winner (applySnapshot state g)
     = (case gs_winner state of Some (Some w) \<Rightarrow> Some w | _ \<Rightarrow> None)"
  by (simp_all add: applySnapshot_parts snapshotBalls_fields snapshotSpeed_fields
        snapshotRequired_fields)

lemma applySnapshot_absent:
  assumes "gs_countdown state = None" "gs_winner state = None" "gs_additionalBalls state = None"
    "gs_turboModeActive state = None" "gs_turboModeTimeRemaining state = None"
    "gs_gameSpeedMultiplier state = None"
  shows "g_winner (applySnapshot state g) = None"
    "g_additionalBalls (applySnapshot state g) = []"
    "g_countdown (applySnapshot state g) = g_countdown g"
    "g_turboModeActive (applySnapshot state g) = g_turboModeActive g"
    "g_turboModeTimeRemaining (applySnapshot state g) = g_turboModeTimeRemaining g"
    "g_gameSpeedMultiplier (applySnapshot state g) = g_gameSpeedMultiplier g"
  using assms
  by (simp_all add: applySnapshot_parts snapshotBalls_fields snapshotSpeed_fields
        snapshotRequired_fields)

lemma beforeSnapshot_powerUps [simp]:
  "g_powerUpManager (beforeSnapshot state rs g) = g_powerUpManager g"
  by (simp add: beforeSnapshot_def)

lemma applySnapshot_powerUps [simp]:
  "g_powerUpManager (applySnapshot state g) = g_powerUpManager g"
  by (simp add: applySnapshot_parts snapshotBalls_def snapshotSpeed_def snapshotRequired_def
        Let_def split: option.splits)

text \<open>The two \<^verbatim>\<open>while\<close> loops give the list the length of the received one.\<close>

lemma pushBalls_replicate:
  "pushBalls n fresh balls = balls @ replicate (n - length balls) fresh"
proof (induction n fresh balls rule: pushBalls.induct)
  case (1 n fresh balls)
  show ?case
  proof (cases "length balls < n")
    case True
    then have "n - length balls = Suc (n - Suc (length balls))" by simp
    then show ?thesis
      using True "1.IH" [OF True]
      by (subst pushBalls.simps) (simp add: replicate_append_same)
  next
    case False
    then show ?thesis by (subst pushBalls.simps) simp
  qed
qed

lemma popBalls_take: "popBalls n balls = take n balls"
proof (induction n balls rule: popBalls.induct)
  case (1 n balls)
  show ?case
  proof (cases "length balls > n")
    case True
    then show ?thesis
      using "1.IH" [OF True] by (subst popBalls.simps) (simp add: butlast_conv_take)
  next
    case False
    then show ?thesis by (subst popBalls.simps) simp
  qed
qed

text \<open>On lists of equal length the \<^verbatim>\<open>for\<close> loop stays in range and applies the i-th state
  to the i-th ball.\<close>

lemma setBallStates_in_range:
  "length balls = length states \<Longrightarrow> i \<le> length states \<Longrightarrow>
     setBallStates i states balls
       = Inr (take i balls @ map2 Ball_setState (drop i states) (drop i balls))"
proof (induction i states balls rule: setBallStates.induct)
  case (1 i states balls)
  show ?case
  proof (cases "i < length states")
    case True
    then have ib: "i < length balls" using "1.prems" by simp
    have len: "length (balls[i := Ball_setState (states ! i) (balls ! i)]) = length states"
      using "1.prems" by simp
    have "setBallStates i states balls
            = setBallStates (Suc i) states (balls[i := Ball_setState (states ! i) (balls ! i)])"
      using True ib by (subst setBallStates.simps) simp
    also have "\<dots> = Inr (take (Suc i) (balls[i := Ball_setState (states ! i) (balls ! i)])
                        @ map2 Ball_setState (drop (Suc i) states)
                            (drop (Suc i) (balls[i := Ball_setState (states ! i) (balls ! i)])))"
      using "1.IH" [OF True ib len] True by simp
    also have "\<dots> = Inr (take i balls @ map2 Ball_setState (drop i states) (drop i balls))"
      using True ib
      by (simp add: take_Suc_conv_app_nth Cons_nth_drop_Suc [symmetric])
    finally show ?thesis .
  next
    case False
    then show ?thesis
      using "1.prems" by (subst setBallStates.simps) simp
  qed
qed

lemma setBallStates_map2:
  "length balls = length states \<Longrightarrow>
     setBallStates 0 states balls = Inr (map2 Ball_setState states balls)"
  using setBallStates_in_range [of balls states 0] by simp

text \<open>The loops keep every index in range: the snapshot is applied without a raise, and
  the result is the one of the total model.\<close>

lemma applySnapshotE_total: "applySnapshotE state g = Inr (applySnapshot state g)"
proof -
  have loops: "setBallStates 0 states (popBalls (length states) (pushBalls (length states) fresh balls))
                 = Inr (map2 Ball_setState states
                          (take (length states) (balls @ replicate (length states - length balls) fresh)))"
    for states fresh balls
    by (simp add: pushBalls_replicate popBalls_take setBallStates_map2)
  show ?thesis
    unfolding applySnapshotE_def applySnapshot_def Let_def loops
    by (simp split: option.splits)
qed

lemma setStateE_total: "setStateE state rs g = Inr (setState state rs g)"
  unfolding setStateE_def setState_def Let_def applySnapshotE_total split_beta
  by simp

lemma bareState_absent: "optionalFieldsAbsent (bareState status)"
  by (simp add: optionalFieldsAbsent_def bareState_def)

lemma restingGame_fields:
  "g_status restingGame = WAITING_FOR_OPPONENT"
  "b_velocity (g_ball restingGame) = \<lparr>vec_x = 0, vec_y = 0\<rparr>"
  "b_hitCounter (g_ball restingGame) = 3" "b_speedScaleFactor (g_ball restingGame) = 31 / 25"
  by (simp_all add: restingGame_def Game_new_def initializeGameObjects_def Let_def Ball_new_def)

text \<open>
  Claim C8 as stated fails at two places. Where \<open>setState\<close> returns before it decodes: a
  finished game that receives a COUNTDOWN snapshot without optional fields keeps its
  winner. Where \<open>setState\<close> serves the ball first: a waiting game whose ball is at rest with
  hit counter 3 receives a PLAYING snapshot without optional fields, and the hit counter,
  for which no value was received, is 0 afterwards. Neither call raises.
\<close>

theorem setState_absent_counterexample:
  "optionalFieldsAbsent (bareState COUNTDOWN)
   \<and> setStateE (bareState COUNTDOWN) (sconst (1 / 2)) finishedGame
       = Inr (setState (bareState COUNTDOWN) (sconst (1 / 2)) finishedGame)
   \<and> g_winner (fst (setState (bareState COUNTDOWN) (sconst (1 / 2)) finishedGame)) = Some Player
   \<and> optionalFieldsAbsent (bareState PLAYING)
   \<and> setStateE (bareState PLAYING) (sconst (1 / 2)) restingGame
       = Inr (setState (bareState PLAYING) (sconst (1 / 2)) restingGame)
   \<and> b_hitCounter (g_ball restingGame) = 3
   \<and> b_hitCounter (g_ball (fst (setState (bareState PLAYING) (sconst (1 / 2)) restingGame))) = 0"
proof -
  have "entersCountdown (bareState COUNTDOWN) finishedGame"
    by (simp add: entersCountdown_def bareState_def finishedGame_def)
  then have early: "setState (bareState COUNTDOWN) (sconst (1 / 2)) finishedGame
               = (finishedGame\<lparr>g_status := COUNTDOWN\<rparr>, sconst (1 / 2))"
    by (rule setState_entersCountdown)
  have e: "\<not> entersCountdown (bareState PLAYING) restingGame"
    by (simp add: entersCountdown_def bareState_def)
  have s: "servesFirst (bareState PLAYING) restingGame"
    by (simp add: servesFirst_def restingGame_fields bareState_def)
  have served: "b_hitCounter (g_ball (fst (setState (bareState PLAYING) (sconst (1 / 2)) restingGame)))
                  = 0"
    using s bareState_absent [of PLAYING]
    by (simp add: setState_applied [OF e] applySnapshot_objects Ball_setState_absent
          optionalFieldsAbsent_def beforeSnapshot_ball)
  show ?thesis
    using early served by (simp add: bareState_absent finishedGame_def setStateE_total
        restingGame_fields)
qed

text \<open>
  Claim C8, amended. For a snapshot whose optional fields are all absent and that does not
  take the game into COUNTDOWN from another status, \<open>setState\<close> completes without a
  \<^verbatim>\<open>TypeError\<close>; afterwards the winner is null and the list of additional balls is empty;
  the power-up manager, the countdown, the turbo flag, the turbo time, the speed multiplier,
  the curve of the ball and the rebound state of both paddles have the values of before
  the call; scale factor and hit counter of the ball have the values of before the call,
  or 1 and 0 when \<open>setState\<close> has served the ball first. \<open>Ball.setState\<close> and
  \<open>Paddle.setState\<close> themselves keep every field whose value is absent.
\<close>

theorem setState_absent_defaults:
  assumes absent: "optionalFieldsAbsent state" and applied: "\<not> entersCountdown state g"
  shows "(case setStateE state rs g of
            Inl e \<Rightarrow> False
          | Inr result \<Rightarrow>
              (let g' = fst result
               in g_winner g' = None \<and> g_additionalBalls g' = []
                  \<and> g_powerUpManager g' = g_powerUpManager g
                  \<and> g_countdown g' = g_countdown g
                  \<and> g_turboModeActive g' = g_turboModeActive g
                  \<and> g_turboModeTimeRemaining g' = g_turboModeTimeRemaining g
                  \<and> g_gameSpeedMultiplier g' = g_gameSpeedMultiplier g
                  \<and> b_curveIntensity (g_ball g') = b_curveIntensity (g_ball g)
                  \<and> b_curveDirection (g_ball g') = b_curveDirection (g_ball g)
                  \<and> b_speedScaleFactor (g_ball g')
                      = (if servesFirst state g then 1 else b_speedScaleFactor (g_ball g))
                  \<and> b_hitCounter (g_ball g')
                      = (if servesFirst state g then 0 else b_hitCounter (g_ball g))
                  \<and> p_isRebounding (g_playerPaddle g') = p_isRebounding (g_playerPaddle g)
                  \<and> p_reboundTime (g_playerPaddle g') = p_reboundTime (g_playerPaddle g)
                  \<and> p_isRebounding (g_opponentPaddle g') = p_isRebounding (g_opponentPaddle g)
                  \<and> p_reboundTime (g_opponentPaddle g') = p_reboundTime (g_opponentPaddle g)))
         \<and> b_speedScaleFactor (Ball_setState (gs_ball state) b) = b_speedScaleFactor b
         \<and> b_hitCounter (Ball_setState (gs_ball state) b) = b_hitCounter b
         \<and> b_curveIntensity (Ball_setState (gs_ball state) b) = b_curveIntensity b
         \<and> b_curveDirection (Ball_setState (gs_ball state) b) = b_curveDirection b
         \<and> p_isRebounding (Paddle_setState (gs_playerPaddle state) p) = p_isRebounding p
         \<and> p_reboundTime (Paddle_setState (gs_playerPaddle state) p) = p_reboundTime p
         \<and> p_isRebounding (Paddle_setState (gs_opponentPaddle state) p) = p_isRebounding p
         \<and> p_reboundTime (Paddle_setState (gs_opponentPaddle state) p) = p_reboundTime p"
proof -
  have a: "gs_countdown state = None" "gs_winner state = None" "gs_additionalBalls state = None"
    "gs_turboModeActive state = None" "gs_turboModeTimeRemaining state = None"
    "gs_gameSpeedMultiplier state = None"
    and b: "bs_speedScaleFactor (gs_ball state) = None" "bs_hitCounter (gs_ball state) = None"
    "bs_curveIntensity (gs_ball state) = None" "bs_curveDirection (gs_ball state) = None"
    and p: "ps_isRebounding (gs_playerPaddle state) = None"
    "ps_reboundTime (gs_playerPaddle state) = None"
    "ps_isRebounding (gs_opponentPaddle state) = None"
    "ps_reboundTime (gs_opponentPaddle state) = None"
    using absent by (simp_all add: optionalFieldsAbsent_def)
  have g': "fst (setState state rs g) = applySnapshot state (beforeSnapshot state rs g)"
    using applied by (rule setState_applied)
  show ?thesis
    unfolding setStateE_total sum.case Let_def g'
    by (simp add: applySnapshot_absent [OF a] a applySnapshot_objects Ball_setState_absent b
          Paddle_setState_absent p beforeSnapshot_ball beforeSnapshot_paddles)
qed

theorem setState_absent_defaults_witness:
  "optionalFieldsAbsent (bareState PLAYING) \<and> \<not> entersCountdown (bareState PLAYING) turboGame
   \<and> setStateE (bareState PLAYING) (sconst (1 / 2)) turboGame
       = Inr (setState (bareState PLAYING) (sconst (1 / 2)) turboGame)
   \<and> g_winner (fst (setState (bareState PLAYING) (sconst (1 / 2)) turboGame)) = None
   \<and> g_additionalBalls (fst (setState (bareState PLAYING) (sconst (1 / 2)) turboGame)) = []
   \<and> g_powerUpManager (fst (setState (bareState PLAYING) (sconst (1 / 2)) turboGame))
       = PowerUpManager_new 800 600 15
   \<and> g_turboModeActive (fst (setState (bareState PLAYING) (sconst (1 / 2)) turboGame))
   \<and> g_turboModeTimeRemaining (fst (setState (bareState PLAYING) (sconst (1 / 2)) turboGame)) = 3
   \<and> g_gameSpeedMultiplier (fst (setState (bareState PLAYING) (sconst (1 / 2)) turboGame)) = 3 / 2
   \<and> b_speedScaleFactor (g_ball (fst (setState (bareState PLAYING) (sconst (1 / 2)) turboGame))) = 1"
proof -
  have e: "\<not> entersCountdown (bareState PLAYING) turboGame"
    by (simp add: entersCountdown_def bareState_def)
  have s: "\<not> servesFirst (bareState PLAYING) turboGame"
    by (simp add: servesFirst_def turboGame_def hostGame_fields)
  have pm: "g_powerUpManager turboGame = PowerUpManager_new 800 600 15"
    by (simp add: turboGame_def hostGame_def Game_new_def initializeGameObjects_def Let_def
          GAME_DEFAULT_CONFIG_def)
  show ?thesis
    using e s
      setState_absent_defaults [OF bareState_absent e, where rs = "sconst (1 / 2)"]
    by (simp add: Let_def bareState_absent setStateE_total pm)
       (simp add: turboGame_def hostGame_fields Ball_new_def)
qed


section \<open>The client's handler of host snapshots\<close>

lemma needsReconciliation_sync:
  "sy_config sy' = sy_config sy \<Longrightarrow> needsReconciliation l r sy' = needsReconciliation l r sy"
  by (simp add: needsReconciliation_def)

lemma SyncService_start_config [simp]: "sy_config (fst (SyncService_start now sy)) = sy_config sy"
  by (simp add: SyncService_start_def)

lemma bufferGameState_config [simp]: "sy_config (bufferGameState st sy) = sy_config sy"
  by (simp add: bufferGameState_def Let_def)

lemma getState_status [simp]: "gs_status (getState now g) = g_status g"
  by (simp add: getState_def)

lemma clientPrepared_game:
  "gm_game (clientPrepared now message m) = afterWaitingCheck (gsm_state message) (gm_game m)"
  by (simp add: clientPrepared_def afterWaitingCheck_def Let_def split_beta)

lemma clientPrepared_config:
  "sy_config (gm_sync (clientPrepared now message m)) = sy_config (gm_sync m)"
  by (simp add: clientPrepared_def Let_def split_beta)

lemma onGameState_client:
  assumes "\<not> gm_isHost m"
  shows "onGameState now rs message m
           = (let m2 = clientPrepared now message m;
                  localState = getState now (gm_game m);
                  st = (if needsReconciliation localState (gsm_state message) (gm_sync m2)
                        then gsm_state message
                        else softMerged localState (gsm_state message))
              in (m2\<lparr>gm_game := fst (setState st rs (gm_game m2))\<rparr>,
                  snd (setState st rs (gm_game m2))))"
  using assms
  unfolding onGameState_def clientPrepared_def softMerged_def Let_def split_beta
  by simp

lemma onGameState_game:
  assumes "\<not> gm_isHost m"
  shows "gm_game (fst (onGameState now rs message m))
           = fst (setState
                   (if needsReconciliation (getState now (gm_game m)) (gsm_state message) (gm_sync m)
                    then gsm_state message
                    else softMerged (getState now (gm_game m)) (gsm_state message))
                   rs (afterWaitingCheck (gsm_state message) (gm_game m)))"
proof -
  have n: "needsReconciliation l r (gm_sync (clientPrepared now message m))
             = needsReconciliation l r (gm_sync m)" for l r
    by (rule needsReconciliation_sync) (rule clientPrepared_config)
  show ?thesis
    by (simp add: onGameState_client [OF assms] Let_def n clientPrepared_game)
qed

lemma softMerged_fields [simp]:
  "gs_status (softMerged l r) = gs_status r"
  "gs_ball (softMerged l r) = gs_ball r"
  by (simp_all add: softMerged_def)

lemma afterWaitingCheck_fields [simp]:
  "g_ball (afterWaitingCheck remote g) = g_ball g"
  "g_status (afterWaitingCheck remote g)
     = (if g_status g = WAITING_FOR_OPPONENT \<and> gs_status remote \<noteq> WAITING_FOR_OPPONENT
        then gs_status remote else g_status g)"
  by (simp_all add: afterWaitingCheck_def setStatus_def)

lemma Ball_setState_position [simp]: "b_position (Ball_setState st b) = bs_position st"
  by (simp add: Ball_setState_def Let_def split: option.splits)

lemma setState_ball_position:
  "b_position (g_ball (fst (setState st rs g)))
     = (if entersCountdown st g then b_position (g_ball g) else bs_position (gs_ball st))"
  by (simp add: setState_entersCountdown setState_applied applySnapshot_objects)

lemma entersCountdown_afterWaitingCheck:
  assumes "gs_status st = gs_status remote"
  shows "entersCountdown st (afterWaitingCheck remote g)
           \<longleftrightarrow> gs_status remote = COUNTDOWN \<and> pastCountdown (g_status g)"
  using assms by (cases "g_status g") (auto simp: entersCountdown_def pastCountdown_def)

lemma onGameState_ball_position:
  assumes "\<not> gm_isHost m"
  shows "b_position (g_ball (gm_game (fst (onGameState now rs message m))))
           = (if gs_status (gsm_state message) = COUNTDOWN \<and> pastCountdown (g_status (gm_game m))
              then b_position (g_ball (gm_game m))
              else bs_position (gs_ball (gsm_state message)))"
  by (simp add: onGameState_game [OF assms] setState_ball_position
        entersCountdown_afterWaitingCheck)

lemma clientManager_fields:
  "\<not> gm_isHost clientManager" "gm_game clientManager = clientGame"
  "gm_sync clientManager = syncService"
  by (simp_all add: clientManager_def GameManager_new_def Let_def)

lemma clientGame_fields:
  "g_status clientGame = PLAYING" "b_position (g_ball clientGame) = \<lparr>vec_x = 400, vec_y = 300\<rparr>"
  by (simp_all add: clientGame_def servedBall_def Ball_reset_served)

lemma needsReconciliation_snapshotAt:
  "needsReconciliation (getState 0 clientGame) (gsm_state (snapshotAt x)) syncService
     \<longleftrightarrow> 10 < \<bar>400 - x\<bar>"
  by (simp add: needsReconciliation_def snapshotAt_def getState_def Ball_getState_def
        clientGame_fields syncService_def SyncService_new_def SYNC_DEFAULT_CONFIG_def)

text \<open>
  Claim C1 as stated fails on the soft-merge path: the handler copies the snapshot's ball
  into the state it applies, so a difference of 3 px, below the threshold, still moves the
  local ball to the remote position.
\<close>

theorem onGameState_soft_merge_counterexample:
  "\<not> needsReconciliation (getState 0 (gm_game clientManager)) (gsm_state (snapshotAt 403))
        (gm_sync clientManager)
   \<and> b_position (g_ball (gm_game clientManager)) = \<lparr>vec_x = 400, vec_y = 300\<rparr>
   \<and> b_position (g_ball (gm_game (fst (onGameState 0 (sconst (1 / 2)) (snapshotAt 403)
                                            clientManager))))
       = \<lparr>vec_x = 403, vec_y = 300\<rparr>"
  by (simp add: onGameState_ball_position clientManager_fields clientGame_fields
        needsReconciliation_snapshotAt)
     (simp add: snapshotAt_def clientGame_fields)

text \<open>
  Claim C1, amended. On a client, the handler of a host snapshot leaves the local ball at
  exactly the remote ball position, on the soft-merge path (every difference within the
  threshold) as on the path of the full reconciliation (some difference above it). This is
  stated for every snapshot that does not take a game that is PLAYING, PAUSED or GAME_OVER
  into COUNTDOWN.
\<close>

theorem onGameState_ball_follows_remote:
  assumes "\<not> gm_isHost m"
    and "\<not> (gs_status (gsm_state message) = COUNTDOWN \<and> pastCountdown (g_status (gm_game m)))"
  shows "b_position (g_ball (gm_game (fst (onGameState now rs message m))))
           = bs_position (gs_ball (gsm_state message))"
  unfolding onGameState_ball_position [OF assms(1)] using assms(2) by (rule if_not_P)

text \<open>The client in play with the ball at (400, 300) receives the ball at (403, 300), which
  is within the threshold, and at (450, 300), which is not.\<close>

theorem onGameState_ball_follows_remote_witness:
  "\<not> gm_isHost clientManager
   \<and> g_status (gm_game clientManager) = PLAYING
   \<and> gs_status (gsm_state (snapshotAt 403)) = PLAYING
   \<and> \<not> needsReconciliation (getState 0 (gm_game clientManager)) (gsm_state (snapshotAt 403))
          (gm_sync clientManager)
   \<and> b_position (g_ball (gm_game (fst (onGameState 0 (sconst (1 / 2)) (snapshotAt 403)
                                            clientManager))))
       = \<lparr>vec_x = 403, vec_y = 300\<rparr>
   \<and> gs_status (gsm_state (snapshotAt 450)) = PLAYING
   \<and> needsReconciliation (getState 0 (gm_game clientManager)) (gsm_state (snapshotAt 450))
        (gm_sync clientManager)
   \<and> b_position (g_ball (gm_game (fst (onGameState 0 (sconst (1 / 2)) (snapshotAt 450)
                                            clientManager))))
       = \<lparr>vec_x = 450, vec_y = 300\<rparr>"
proof -
  have s: "gs_status (gsm_state (snapshotAt x)) = PLAYING"
    "bs_position (gs_ball (gsm_state (snapshotAt x))) = \<lparr>vec_x = x, vec_y = 300\<rparr>" for x
    by (simp_all add: snapshotAt_def clientGame_fields)
  have c: "\<not> (gs_status (gsm_state (snapshotAt x)) = COUNTDOWN
               \<and> pastCountdown (g_status (gm_game clientManager)))" for x
    by (simp add: s)
  show ?thesis
    using onGameState_ball_follows_remote [OF clientManager_fields(1) c,
        where now = 0 and rs = "sconst (1 / 2)" and x1 = 403]
      onGameState_ball_follows_remote [OF clientManager_fields(1) c,
        where now = 0 and rs = "sconst (1 / 2)" and x1 = 450]
    by (simp add: s clientManager_fields clientGame_fields needsReconciliation_snapshotAt)
qed


section \<open>Status, countdown and winner\<close>

lemma lifecycle_updates [simp]:
  "lifecycle (g\<lparr>g_ball := b\<rparr>) = lifecycle g"
  "lifecycle (g\<lparr>g_playerPaddle := p\<rparr>) = lifecycle g"
  "lifecycle (g\<lparr>g_opponentPaddle := p\<rparr>) = lifecycle g"
  "lifecycle (g\<lparr>g_additionalBalls := bs\<rparr>) = lifecycle g"
  "lifecycle (g\<lparr>g_powerUpManager := pm\<rparr>) = lifecycle g"
  "lifecycle (g\<lparr>g_turboModeActive := t\<rparr>) = lifecycle g"
  "lifecycle (g\<lparr>g_turboModeTimeRemaining := r\<rparr>) = lifecycle g"
  "lifecycle (g\<lparr>g_gameSpeedMultiplier := r\<rparr>) = lifecycle g"
  "lifecycle (g\<lparr>g_playerScore := r\<rparr>) = lifecycle g"
  "lifecycle (g\<lparr>g_opponentScore := r\<rparr>) = lifecycle g"
  "lifecycle (g\<lparr>g_countdown := r\<rparr>) = lifecycle g"
  "lifecycle (g\<lparr>g_countdownTimer := r\<rparr>) = lifecycle g"
  "lifecycle (g\<lparr>g_lastUpdateTime := r\<rparr>) = lifecycle g"
  "lifecycle (g\<lparr>g_accumulator := r\<rparr>) = lifecycle g"
  "lifecycle (g\<lparr>g_countdownTimeout := c\<rparr>) = lifecycle g"
  by (simp_all add: lifecycle_def)

lemma lifecycle_updateGameSpeed [simp]: "lifecycle (updateGameSpeed dt g) = lifecycle g"
  by (simp add: updateGameSpeed_def Let_def)

lemma lifecycle_updatePaddleShrinking [simp]: "lifecycle (updatePaddleShrinking g) = lifecycle g"
  by (simp add: updatePaddleShrinking_def Let_def)

lemma lifecycle_checkPaddleCollisions [simp]:
  "lifecycle (fst (checkPaddleCollisions rs g)) = lifecycle g"
  by (simp add: checkPaddleCollisions_def Let_def split_beta)

lemma lifecycle_checkBoundaryCollisions [simp]:
  "lifecycle (checkBoundaryCollisions g) = lifecycle g"
  by (simp add: checkBoundaryCollisions_def)

lemma lifecycle_addExtraBall [simp]: "lifecycle (fst (addExtraBall rs g)) = lifecycle g"
  by (simp add: addExtraBall_def Let_def)

lemma lifecycle_applyPowerUpEffect [simp]:
  "lifecycle (fst (applyPowerUpEffect powerUp rs g)) = lifecycle g"
  by (cases "pu_type powerUp") (simp_all add: applyPowerUpEffect_def Let_def)

lemma lifecycle_collectFor [simp]: "lifecycle (fst (collectFor ball now rs g)) = lifecycle g"
  by (simp add: collectFor_def Let_def split_beta split: option.splits)

lemma lifecycle_additionalBallsCollect [simp]:
  "lifecycle (fst (additionalBallsCollect now i rs g)) = lifecycle g"
proof (induction now i rs g rule: additionalBallsCollect.induct)
  case (1 now i rs g)
  show ?case
  proof (cases "i < length (g_additionalBalls g)")
    case True
    obtain g1 rs1 where c: "collectFor (g_additionalBalls g ! i) now rs g = (g1, rs1)"
      by (cases "collectFor (g_additionalBalls g ! i) now rs g") auto
    have "lifecycle g1 = lifecycle g"
      using lifecycle_collectFor [of "g_additionalBalls g ! i" now rs g] by (simp add: c)
    then show ?thesis
      using True c "1.IH" [OF True c [symmetric]]
      by (subst additionalBallsCollect.simps) simp
  next
    case False
    then show ?thesis by (subst additionalBallsCollect.simps) simp
  qed
qed

lemma lifecycle_checkPowerUpCollections [simp]:
  "lifecycle (fst (checkPowerUpCollections now rs g)) = lifecycle g"
  by (simp add: checkPowerUpCollections_def split_beta)

lemma lifecycle_resetBall [simp]: "lifecycle (fst (resetBall serveToLeft rs g)) = lifecycle g"
  by (simp add: lifecycle_def)

lemma lifecycle_creditScore [simp]: "lifecycle (creditScore side g) = lifecycle g"
  by (simp add: creditScore_def)

lemma lifecycle_mainBallScored [simp]: "lifecycle (fst (mainBallScored rs g)) = lifecycle g"
proof (cases "checkScoringBoundary 0 (g_fieldWidth g) (g_ball g)")
  case None
  then show ?thesis by (simp add: mainBallScored_none)
next
  case (Some side)
  then show ?thesis by (simp add: mainBallScored_crossing)
qed

lemma afterMainBall_lifecycle:
  "lifecycle (fst (afterMainBall (g1, rs1, scored))) = lifecycle g1
   \<or> (g_status (fst (afterMainBall (g1, rs1, scored))) = GAME_OVER)"
  by (simp add: afterMainBall_def Let_def endGame_def lifecycle_def)

lemma checkScoring_lifecycle:
  "lifecycle (fst (checkScoring rs g)) = lifecycle g \<or> g_status (fst (checkScoring rs g)) = GAME_OVER"
proof -
  obtain g1 rs1 scored where m: "mainBallScored rs g = (g1, rs1, scored)"
    by (cases "mainBallScored rs g") auto
  have "lifecycle g1 = lifecycle g"
    using lifecycle_mainBallScored [of rs g] by (simp add: m)
  then show ?thesis
    using afterMainBall_lifecycle [of g1 rs1 scored] by (simp add: checkScoring_split m)
qed

lemma lifecycle_beforeScoring [simp]:
  "lifecycle (fst (beforeScoring deltaTime now rs g)) = lifecycle g"
  by (simp add: beforeScoring_def Let_def split_beta)

lemma playingTick_lifecycle:
  "lifecycle (fst (playingTick deltaTime now rs g)) = lifecycle g
   \<or> g_status (fst (playingTick deltaTime now rs g)) = GAME_OVER"
proof -
  obtain g9 rs9 where b: "beforeScoring deltaTime now rs g = (g9, rs9)"
    by (cases "beforeScoring deltaTime now rs g") auto
  have g9: "lifecycle g9 = lifecycle g"
    using lifecycle_beforeScoring [of deltaTime now rs g] by (simp add: b)
  have "lifecycle (fst (playingTick deltaTime now rs g)) = lifecycle (fst (checkScoring rs9 g9))"
    by (simp add: playingTick_parts b split_beta lifecycle_def updatePaddleShrinking_def Let_def)
  moreover have "g_status (fst (playingTick deltaTime now rs g))
                   = g_status (fst (checkScoring rs9 g9))"
    using calculation by (simp add: lifecycle_def)
  ultimately show ?thesis
    using checkScoring_lifecycle [of rs9 g9] g9 by auto
qed

lemma winner_startGame [simp]: "g_winner (fst (startGame rs g)) = g_winner g"
  by (simp add: startGame_def Let_def)

lemma winner_countdownSafeguard [simp]: "g_winner (fst (countdownSafeguard rs g)) = g_winner g"
  by (simp add: countdownSafeguard_def)

lemma winner_countdownTick [simp]: "g_winner (fst (countdownTick deltaTime rs g)) = g_winner g"
  by (simp add: countdownTick_def Let_def split_beta)

lemma fixedUpdate_winnerOnlyWhenOver:
  assumes "winnerOnlyWhenOver g"
  shows "winnerOnlyWhenOver (fst (fixedUpdate deltaTime now rs g))"
proof (cases "g_status g")
  case COUNTDOWN
  then have "g_winner g = None" using assms by (simp add: winnerOnlyWhenOver_def)
  then show ?thesis using COUNTDOWN by (simp add: fixedUpdate_def winnerOnlyWhenOver_def)
next
  case PLAYING
  then show ?thesis
    using assms playingTick_lifecycle [of deltaTime now rs g]
    by (auto simp: fixedUpdate_def winnerOnlyWhenOver_def lifecycle_def)
qed (use assms in \<open>simp_all add: fixedUpdate_def\<close>)

lemma updateLoop_stop:
  assumes "\<not> (g_accumulator g \<ge> fixedTimeStep \<and> steps < maxSteps)"
  shows "updateLoop now steps rs g = (g, steps, rs)"
  by (subst updateLoop.simps) (rule if_not_P [OF assms])

lemma updateLoop_step:
  assumes "g_accumulator g \<ge> fixedTimeStep \<and> steps < maxSteps"
    and "fixedUpdate fixedTimeStep now rs g = (g1, rs1)"
  shows "updateLoop now steps rs g
           = updateLoop now (Suc steps) rs1 (g1\<lparr>g_accumulator := g_accumulator g1 - fixedTimeStep\<rparr>)"
  by (subst updateLoop.simps) (simp only: if_P [OF assms(1)] assms(2) prod.case)

lemma updateLoop_winnerOnlyWhenOver:
  "winnerOnlyWhenOver g \<Longrightarrow> winnerOnlyWhenOver (fst (updateLoop now steps rs g))"
proof (induction now steps rs g rule: updateLoop.induct)
  case (1 now steps rs g)
  show ?case
  proof (cases "g_accumulator g \<ge> fixedTimeStep \<and> steps < maxSteps")
    case True
    obtain g1 rs1 where f: "fixedUpdate fixedTimeStep now rs g = (g1, rs1)"
      by (cases "fixedUpdate fixedTimeStep now rs g") auto
    have "winnerOnlyWhenOver g1"
      using fixedUpdate_winnerOnlyWhenOver [OF "1.prems", of fixedTimeStep now rs] by (simp add: f)
    then have "winnerOnlyWhenOver (g1\<lparr>g_accumulator := g_accumulator g1 - fixedTimeStep\<rparr>)"
      by (simp add: winnerOnlyWhenOver_def)
    then show ?thesis
      using "1.IH" [OF True f [symmetric]] by (simp add: updateLoop_step [OF True f])
  next
    case False
    then show ?thesis using "1.prems" by (simp add: updateLoop_stop)
  qed
qed

lemma Game_update_winnerOnlyWhenOver:
  assumes "winnerOnlyWhenOver g"
  shows "winnerOnlyWhenOver (fst (Game_update currentTime now rs g))"
proof (cases "g_lastUpdateTime g = 0")
  case True
  then show ?thesis using assms by (simp add: Game_update_def winnerOnlyWhenOver_def)
next
  case False
  define g2 where "g2 = g\<lparr>g_lastUpdateTime := currentTime,
      g_accumulator := g_accumulator g + min ((currentTime - g_lastUpdateTime g) / 1000) (1 / 10)\<rparr>"
  have "winnerOnlyWhenOver g2" using assms by (simp add: g2_def winnerOnlyWhenOver_def)
  then have l: "winnerOnlyWhenOver (fst (updateLoop now 0 rs g2))"
    by (rule updateLoop_winnerOnlyWhenOver)
  have "winnerOnlyWhenOver (fst (Game_update currentTime now rs g))
          = winnerOnlyWhenOver (fst (updateLoop now 0 rs g2))"
    using False by (simp add: Game_update_def Let_def split_beta g2_def winnerOnlyWhenOver_def)
  then show ?thesis using l by simp
qed

lemma pauseGame_winnerOnlyWhenOver:
  "winnerOnlyWhenOver g \<Longrightarrow> winnerOnlyWhenOver (pauseGame g)"
  by (auto simp: pauseGame_def winnerOnlyWhenOver_def)

lemma resumeGame_winnerOnlyWhenOver:
  "winnerOnlyWhenOver g \<Longrightarrow> winnerOnlyWhenOver (resumeGame g)"
  by (auto simp: resumeGame_def winnerOnlyWhenOver_def)

lemma winner_initializeGameObjects [simp]:
  "g_winner (initializeGameObjects g) = g_winner g"
  by (simp add: initializeGameObjects_def Let_def)

lemma winner_setupCountdownFailsafe [simp]:
  "g_winner (fst (setupCountdownFailsafe rs g)) = g_winner g"
  by (simp add: setupCountdownFailsafe_def Let_def)

lemma winner_startCountdown [simp]: "g_winner (fst (startCountdown rs g)) = g_winner g"
  by (simp add: startCountdown_def Let_def split_beta)

lemma restartGame_winner: "g_winner (fst (restartGame rs g)) = None"
  by (simp add: restartGame_def Let_def cleanup_def)

lemma Game_new_winner: "g_winner (Game_new role config) = None"
  by (simp add: Game_new_def Let_def)

lemma getState_winner [simp]: "gs_winner (getState now g) = Some (g_winner g)"
  by (simp add: getState_def)

lemma getState_consistent:
  "statusFieldsConsistent (getState now g) = winnerOnlyWhenOver g"
  by (simp add: statusFieldsConsistent_def getState_def winnerOnlyWhenOver_def)

lemma startCountdown_status:
  "g_status g \<noteq> PLAYING \<Longrightarrow> g_status (fst (startCountdown rs g)) = COUNTDOWN"
  by (simp add: startCountdown_def setupCountdownFailsafe_def Let_def split_beta)

lemma gameOverSnapshot_fields:
  "gs_status gameOverSnapshot = GAME_OVER" "gs_winner gameOverSnapshot = Some (Some Player)"
  by (simp_all add: gameOverSnapshot_def bareState_def)

lemma overGame_fields: "g_status overGame = GAME_OVER" "g_winner overGame = Some Player"
proof -
  have e: "\<not> entersCountdown gameOverSnapshot (Game_new CLIENT GAME_DEFAULT_CONFIG)"
    by (simp add: entersCountdown_def gameOverSnapshot_fields)
  show "g_status overGame = GAME_OVER" "g_winner overGame = Some Player"
    unfolding overGame_def setState_applied [OF e]
    by (simp_all add: applySnapshot_objects gameOverSnapshot_fields)
qed

text \<open>
  Claim C7 as stated fails for the winner. The finished game satisfies the constraint;
  after \<open>setStatus\<close> (as the manager calls it when the connection is lost), after
  \<open>startCountdown\<close> and after \<open>setState\<close> with a COUNTDOWN snapshot the state that
  \<open>getState\<close> returns still names the winner although the status is no longer GAME_OVER.
\<close>

theorem status_winner_counterexample:
  "statusFieldsConsistent (getState 0 overGame)
   \<and> gs_status (getState 0 (setStatus WAITING_FOR_OPPONENT overGame)) = WAITING_FOR_OPPONENT
   \<and> gs_winner (getState 0 (setStatus WAITING_FOR_OPPONENT overGame)) = Some (Some Player)
   \<and> \<not> statusFieldsConsistent (getState 0 (setStatus WAITING_FOR_OPPONENT overGame))
   \<and> \<not> statusFieldsConsistent (getState 0 (fst (startCountdown (sconst (1 / 2)) overGame)))
   \<and> \<not> statusFieldsConsistent
         (getState 0 (fst (setState (bareState COUNTDOWN) (sconst (1 / 2)) overGame)))"
proof -
  have e: "entersCountdown (bareState COUNTDOWN) overGame"
    by (simp add: entersCountdown_def overGame_fields bareState_def)
  have c: "g_status (fst (startCountdown (sconst (1 / 2)) overGame)) = COUNTDOWN"
    by (rule startCountdown_status) (simp add: overGame_fields)
  show ?thesis
    by (simp add: getState_consistent winnerOnlyWhenOver_def overGame_fields setStatus_def
          setState_entersCountdown [OF e] c)
qed

text \<open>
  Claim C7, amended. The state that \<open>getState\<close> returns has a countdown only when the status
  is COUNTDOWN, for every game. That it names a winner only when the status is GAME_OVER
  holds for a new game and after \<open>restartGame\<close> and \<open>endGame\<close>, and is preserved by \<open>update\<close>
  (with the end of the game by scoring), \<open>pauseGame\<close> and \<open>resumeGame\<close>.
\<close>

theorem status_fields_invariant:
  "(gs_countdown (getState now g) = None \<or> gs_status (getState now g) = COUNTDOWN)
   \<and> statusFieldsConsistent (getState now (Game_new role config))
   \<and> statusFieldsConsistent (getState now (fst (restartGame rs g)))
   \<and> statusFieldsConsistent (getState now (endGame winner g))
   \<and> (statusFieldsConsistent (getState now g) \<longrightarrow>
        statusFieldsConsistent (getState now (fst (Game_update currentTime now rs g)))
        \<and> statusFieldsConsistent (getState now (pauseGame g))
        \<and> statusFieldsConsistent (getState now (resumeGame g)))"
proof -
  have "gs_countdown (getState now g) = None \<or> gs_status (getState now g) = COUNTDOWN"
    by (simp add: getState_def)
  moreover have "statusFieldsConsistent (getState now (Game_new role config))"
    by (simp add: getState_consistent winnerOnlyWhenOver_def Game_new_winner)
  moreover have "statusFieldsConsistent (getState now (fst (restartGame rs g)))"
    by (simp add: getState_consistent winnerOnlyWhenOver_def restartGame_winner)
  moreover have "statusFieldsConsistent (getState now (endGame winner g))"
    by (simp add: getState_consistent winnerOnlyWhenOver_def endGame_def)
  ultimately show ?thesis
    by (simp add: getState_consistent Game_update_winnerOnlyWhenOver
          pauseGame_winnerOnlyWhenOver resumeGame_winnerOnlyWhenOver)
qed

theorem status_fields_invariant_witness:
  "statusFieldsConsistent (getState 0 hostGame)
   \<and> statusFieldsConsistent (getState 0 (fst (Game_update 2000 0 (sconst (1 / 2)) hostGame)))
   \<and> statusFieldsConsistent (getState 0 (pauseGame hostGame))
   \<and> gs_status (getState 0 (pauseGame hostGame)) = PAUSED
   \<and> statusFieldsConsistent (getState 0 (resumeGame (pauseGame hostGame)))"
proof -
  have h: "statusFieldsConsistent (getState 0 hostGame)"
    by (simp add: getState_consistent winnerOnlyWhenOver_def hostGame_fields)
  have p: "statusFieldsConsistent (getState 0 (pauseGame hostGame))"
    using h status_fields_invariant [where g = hostGame and now = 0] by simp
  show ?thesis
    using h p
      status_fields_invariant [where g = hostGame and now = 0 and currentTime = 2000
        and rs = "sconst (1 / 2)"]
      status_fields_invariant [where g = "pauseGame hostGame" and now = 0]
    by (simp add: pauseGame_def hostGame_fields)
qed


section \<open>Bounded catch-up of the update loop\<close>

text \<open>The loop runs \<open>tickStep\<close> as many times as its counter goes up, never past
  \<open>maxSteps\<close>, and leaves an accumulator of a full step only at the cap.\<close>

lemma updateLoop_result:
  "steps \<le> maxSteps \<Longrightarrow>
     (case updateLoop now steps rs g of
        (g', steps', rs') \<Rightarrow>
          steps \<le> steps' \<and> steps' \<le> maxSteps
          \<and> (g', rs') = (tickStep now ^^ (steps' - steps)) (g, rs)
          \<and> (g_accumulator g' < fixedTimeStep \<or> steps' = maxSteps))"
proof (induction now steps rs g rule: updateLoop.induct)
  case (1 now steps rs g)
  show ?case
  proof (cases "g_accumulator g \<ge> fixedTimeStep \<and> steps < maxSteps")
    case True
    obtain g1 rs1 where f: "fixedUpdate fixedTimeStep now rs g = (g1, rs1)"
      by (cases "fixedUpdate fixedTimeStep now rs g") auto
    define g2 where "g2 = g1\<lparr>g_accumulator := g_accumulator g1 - fixedTimeStep\<rparr>"
    have t: "tickStep now (g, rs) = (g2, rs1)"
      by (simp add: tickStep_def f g2_def)
    obtain g' steps' rs' where u: "updateLoop now (Suc steps) rs1 g2 = (g', steps', rs')"
      by (cases "updateLoop now (Suc steps) rs1 g2") auto
    have le: "Suc steps \<le> maxSteps" using True by simp
    have ih: "Suc steps \<le> steps' \<and> steps' \<le> maxSteps
          \<and> (g', rs') = (tickStep now ^^ (steps' - Suc steps)) (g2, rs1)
          \<and> (g_accumulator g' < fixedTimeStep \<or> steps' = maxSteps)"
      using "1.IH" [OF True f [symmetric] le] by (simp add: g2_def [symmetric] u)
    from ih have "Suc steps \<le> steps'" by (rule conjunct1)
    then have "steps' - steps = Suc (steps' - Suc steps)" by arith
    then have "(tickStep now ^^ (steps' - steps)) (g, rs)
                 = (tickStep now ^^ (steps' - Suc steps)) (g2, rs1)"
      by (simp add: funpow_swap1 t)
    then show ?thesis
      using ih by (simp add: updateLoop_step [OF True f] g2_def [symmetric] u)
  next
    case False
    then show ?thesis using "1.prems" by (auto simp: updateLoop_stop)
  qed
qed

text \<open>
  Claim C4. A call of \<open>Game.update\<close>, whatever the elapsed time, runs \<open>fixedUpdate\<close> at
  most 5 times: the loop counter \<open>steps\<close> ends at most at 5 and the game is the result of
  \<open>steps\<close> iterations of the loop body. The functions are total (the loop's termination
  is proved where it is defined), and after the call the accumulator is below one fixed
  step: a remainder of a full step or more at the cap is set to 0. The first call (no
  previous time recorded) only records the time.
\<close>

theorem update_bounded_catch_up:
  "(case Game_update currentTime now rs g of
      (g', steps, rs') \<Rightarrow>
        steps \<le> 5
        \<and> (g_lastUpdateTime g = 0 \<longrightarrow> steps = 0 \<and> g' = g\<lparr>g_lastUpdateTime := currentTime\<rparr>)
        \<and> (g_lastUpdateTime g \<noteq> 0 \<longrightarrow>
             g_accumulator g' < fixedTimeStep
             \<and> (let g2 = g\<lparr>g_lastUpdateTime := currentTime,
                            g_accumulator := g_accumulator g
                              + min ((currentTime - g_lastUpdateTime g) / 1000) (1 / 10)\<rparr>;
                     (gl, rsl) = (tickStep now ^^ steps) (g2, rs)
                 in rs' = rsl
                    \<and> g' = (if 5 \<le> steps \<and> fixedTimeStep \<le> g_accumulator gl
                            then gl\<lparr>g_accumulator := 0\<rparr> else gl))))"
proof (cases "g_lastUpdateTime g = 0")
  case True
  then show ?thesis by (simp add: Game_update_def)
next
  case False
  define g2 where "g2 = g\<lparr>g_lastUpdateTime := currentTime,
      g_accumulator := g_accumulator g + min ((currentTime - g_lastUpdateTime g) / 1000) (1 / 10)\<rparr>"
  obtain gl steps rsl where u: "updateLoop now 0 rs g2 = (gl, steps, rsl)"
    by (cases "updateLoop now 0 rs g2") auto
  have r: "steps \<le> maxSteps" "(gl, rsl) = (tickStep now ^^ steps) (g2, rs)"
    "g_accumulator gl < fixedTimeStep \<or> steps = maxSteps"
    using updateLoop_result [where steps = 0 and now = now and rs = rs and g = g2]
    by (simp_all add: u)
  have up: "Game_update currentTime now rs g
              = (if steps \<ge> maxSteps \<and> g_accumulator gl \<ge> fixedTimeStep
                 then gl\<lparr>g_accumulator := 0\<rparr> else gl, steps, rsl)"
    using False by (simp add: Game_update_def Let_def g2_def [symmetric] u)
  have pos: "0 < fixedTimeStep" by (simp add: fixedTimeStep_def)
  show ?thesis
    using False r pos
    by (auto simp: up maxSteps_def g2_def [symmetric] Let_def r(2) [symmetric])
qed

lemma stalledGame_fields:
  "g_status stalledGame = PAUSED" "g_lastUpdateTime stalledGame = 1000"
  "g_accumulator stalledGame = 0"
  by (simp_all add: stalledGame_def hostGame_def Game_new_def initializeGameObjects_def Let_def)

lemma fixedUpdate_paused: "g_status g = PAUSED \<Longrightarrow> fixedUpdate deltaTime now rs g = (g, rs)"
  by (simp add: fixedUpdate_def)

lemma stalledGame_update:
  "Game_update 3601000 0 (sconst (1 / 2)) stalledGame
     = (stalledGame\<lparr>g_lastUpdateTime := 3601000, g_accumulator := 0\<rparr>, 5, sconst (1 / 2))"
  by (simp add: Game_update_def Let_def stalledGame_fields updateLoop.simps fixedUpdate_paused
        fixedTimeStep_def maxSteps_def)

theorem update_bounded_catch_up_witness:
  "g_lastUpdateTime stalledGame \<noteq> 0
   \<and> fst (snd (Game_update 3601000 0 (sconst (1 / 2)) stalledGame)) = 5
   \<and> g_accumulator (fst (Game_update 3601000 0 (sconst (1 / 2)) stalledGame)) = 0
   \<and> g_accumulator (fst (Game_update 3601000 0 (sconst (1 / 2)) stalledGame)) < fixedTimeStep
   \<and> fst ((tickStep 0 ^^ 5)
             (stalledGame\<lparr>g_lastUpdateTime := 3601000, g_accumulator := 1 / 10\<rparr>, sconst (1 / 2)))
       = stalledGame\<lparr>g_lastUpdateTime := 3601000, g_accumulator := 7 / 120\<rparr>"
proof -
  have t: "tickStep 0 (stalledGame\<lparr>g_lastUpdateTime := 3601000, g_accumulator := a\<rparr>, sconst (1 / 2))
             = (stalledGame\<lparr>g_lastUpdateTime := 3601000, g_accumulator := a - 1 / 120\<rparr>,
                sconst (1 / 2))" for a
    by (simp add: tickStep_def fixedUpdate_paused stalledGame_fields fixedTimeStep_def)
  have five: "(tickStep 0 ^^ 5)
                (stalledGame\<lparr>g_lastUpdateTime := 3601000, g_accumulator := 1 / 10\<rparr>, sconst (1 / 2))
              = (stalledGame\<lparr>g_lastUpdateTime := 3601000, g_accumulator := 7 / 120\<rparr>,
                 sconst (1 / 2))"
    by (simp add: numeral_eq_Suc funpow_swap1 t)
  show ?thesis
    using update_bounded_catch_up [where g = stalledGame and currentTime = 3601000
        and now = 0 and rs = "sconst (1 / 2)"]
    by (simp add: stalledGame_update stalledGame_fields five fixedTimeStep_def)
qed


section \<open>Game-control messages\<close>

lemma onGameControl_older_ignored:
  assumes "gm_lastProcessedGameControl m = Some (lastAction, lastTimestamp)"
    and "gcm_timestamp message = Some t"
    and "lastTimestamp \<noteq> 0" and "t \<noteq> 0" and "t < lastTimestamp"
  shows "onGameControl now rs message m = (m, rs)"
  using assms by (simp add: onGameControl_def)

lemma onGameControl_processed:
  assumes "gcm_timestamp message = Some t" and "t \<noteq> 0"
    and "gm_lastProcessedGameControl m = None
         \<or> (\<exists>a t0. gm_lastProcessedGameControl m = Some (a, t0) \<and> t0 \<le> t)"
    and "gcm_action message = RESTART"
  shows "onGameControl now rs message m
           = GameManager_restartGame now rs
               (m\<lparr>gm_lastProcessedGameControl := Some (RESTART, t)\<rparr>)"
  using assms by (auto simp: onGameControl_def Let_def)

lemma GameManager_restartGame_local:
  assumes "\<not> gm_isNetworkGame m"
  shows "GameManager_restartGame now rs m
           = (m\<lparr>gm_game := fst (restartGame rs (gm_game m))\<rparr>, snd (restartGame rs (gm_game m)))"
  using assms by (simp add: GameManager_restartGame_def Let_def split_beta)

lemma restartGame_restarted: "restartGame rs g = startCountdown rs (restarted g)"
  by (simp add: restartGame_def restarted_def Let_def)

lemma restarted_fields:
  "g_status (restarted g) = g_status g"
  "g_countdownTimeout (restarted g) = None"
  "g_config (restarted g) = g_config g"
  "g_fieldWidth (restarted g) = g_fieldWidth g"
  "g_fieldHeight (restarted g) = g_fieldHeight g"
  "g_ball (restarted g)
     = Ball_new \<lparr>vec_x = g_fieldWidth g / 2, vec_y = g_fieldHeight g / 2\<rparr> 10
         \<lparr>vec_x = 0, vec_y = 0\<rparr> (cfg_ballSpeed (g_config g))"
  by (simp_all add: restarted_def cleanup_def initializeGameObjects_def Let_def)

lemma startCountdown_running:
  "g_status g = COUNTDOWN \<Longrightarrow> startCountdown rs g = (g, rs)"
  by (simp add: startCountdown_def)

lemma startCountdown_fresh:
  assumes "g_status g \<noteq> PLAYING" and "g_status g \<noteq> COUNTDOWN"
  shows "g_status (fst (startCountdown rs g)) = COUNTDOWN"
    "g_countdownTimeout (fst (startCountdown rs g)) = Some FailsafeCb"
    "g_ball (fst (startCountdown rs g)) = g_ball (fst (resetBall (shd rs < 5 / 10) (stl rs) g))"
  using assms
  by (simp_all add: startCountdown_def setupCountdownFailsafe_def Let_def split_beta
        resetBall_effect)

lemma localManager_fields:
  "\<not> gm_isNetworkGame localManager" "gm_lastProcessedGameControl localManager = None"
  "g_status (gm_game localManager) = WAITING_FOR_OPPONENT"
  "g_config (gm_game localManager) = GAME_DEFAULT_CONFIG"
  "g_fieldWidth (gm_game localManager) = 800" "g_fieldHeight (gm_game localManager) = 600"
  by (simp_all add: localManager_def GameManager_new_def Game_new_def initializeGameObjects_def
        Let_def)

lemma firstDelivery_eq:
  "firstDelivery
     = localManager\<lparr>gm_lastProcessedGameControl := Some (RESTART, 100),
                     gm_game := fst (startCountdown (sconst (1 / 2))
                                       (restarted (gm_game localManager)))\<rparr>"
proof -
  have "onGameControl 100 (sconst (1 / 2)) restartAt100 localManager
          = GameManager_restartGame 100 (sconst (1 / 2))
              (localManager\<lparr>gm_lastProcessedGameControl := Some (RESTART, 100)\<rparr>)"
    by (rule onGameControl_processed [where t = 100])
       (simp_all add: restartAt100_def localManager_fields)
  then show ?thesis
    by (simp add: firstDelivery_def GameManager_restartGame_local localManager_fields
          restartGame_restarted)
qed

lemma firstDelivery_fields:
  "\<not> gm_isNetworkGame firstDelivery"
  "gm_lastProcessedGameControl firstDelivery = Some (RESTART, 100)"
  "g_status (gm_game firstDelivery) = COUNTDOWN"
  "g_countdownTimeout (gm_game firstDelivery) = Some FailsafeCb"
  "b_velocity (g_ball (gm_game firstDelivery)) = \<lparr>vec_x = 400, vec_y = 0\<rparr>"
  "g_config (gm_game firstDelivery) = GAME_DEFAULT_CONFIG"
  "g_fieldWidth (gm_game firstDelivery) = 800" "g_fieldHeight (gm_game firstDelivery) = 600"
proof -
  have s: "g_status (restarted (gm_game localManager)) \<noteq> PLAYING"
    "g_status (restarted (gm_game localManager)) \<noteq> COUNTDOWN"
    by (simp_all add: restarted_fields localManager_fields)
  show "\<not> gm_isNetworkGame firstDelivery"
    "gm_lastProcessedGameControl firstDelivery = Some (RESTART, 100)"
    by (simp_all add: firstDelivery_eq localManager_fields)
  show "g_status (gm_game firstDelivery) = COUNTDOWN"
    "g_countdownTimeout (gm_game firstDelivery) = Some FailsafeCb"
    by (simp_all add: firstDelivery_eq startCountdown_fresh [OF s])
  show "b_velocity (g_ball (gm_game firstDelivery)) = \<lparr>vec_x = 400, vec_y = 0\<rparr>"
    by (simp add: firstDelivery_eq startCountdown_fresh [OF s] resetBall_effect restarted_fields
          localManager_fields GAME_DEFAULT_CONFIG_def Ball_reset_served Ball_new_def
          sqrt_160000)
  show "g_config (gm_game firstDelivery) = GAME_DEFAULT_CONFIG"
    "g_fieldWidth (gm_game firstDelivery) = 800" "g_fieldHeight (gm_game firstDelivery) = 600"
    by (simp_all add: firstDelivery_eq startCountdown_def setupCountdownFailsafe_def Let_def
          split_beta restarted_fields localManager_fields s)
qed

lemma secondDelivery_eq:
  "secondDelivery = firstDelivery\<lparr>gm_game := restarted (gm_game firstDelivery)\<rparr>"
proof -
  have "onGameControl 100 (sconst (1 / 2)) restartAt100 firstDelivery
          = GameManager_restartGame 100 (sconst (1 / 2))
              (firstDelivery\<lparr>gm_lastProcessedGameControl := Some (RESTART, 100)\<rparr>)"
    by (rule onGameControl_processed [where t = 100])
       (simp_all add: restartAt100_def firstDelivery_fields)
  then show ?thesis
    by (simp add: secondDelivery_def GameManager_restartGame_local firstDelivery_fields
          restartGame_restarted startCountdown_running restarted_fields)
qed

text \<open>
  Claim C2 at the specification's own example: RESTART with timestamp 100 delivered twice.
  The handler compares with \<open><\<close>, so the second delivery is not older and is processed
  again: \<open>restartGame\<close> cancels the countdown timer the first delivery armed and replaces
  the served ball by one at rest, and \<open>startCountdown\<close> returns at once because the status
  is already COUNTDOWN.
\<close>

theorem duplicate_restart_is_processed:
  "gm_lastProcessedGameControl firstDelivery = Some (RESTART, 100)
   \<and> g_status (gm_game firstDelivery) = COUNTDOWN
   \<and> g_countdownTimeout (gm_game firstDelivery) = Some FailsafeCb
   \<and> b_velocity (g_ball (gm_game firstDelivery)) = \<lparr>vec_x = 400, vec_y = 0\<rparr>
   \<and> g_status (gm_game secondDelivery) = COUNTDOWN
   \<and> g_countdownTimeout (gm_game secondDelivery) = None
   \<and> b_velocity (g_ball (gm_game secondDelivery)) = \<lparr>vec_x = 0, vec_y = 0\<rparr>
   \<and> secondDelivery \<noteq> firstDelivery"
proof -
  have t: "g_countdownTimeout (gm_game secondDelivery) = None"
    by (simp add: secondDelivery_eq restarted_fields)
  have "g_countdownTimeout (gm_game secondDelivery) \<noteq> g_countdownTimeout (gm_game firstDelivery)"
    by (simp add: t firstDelivery_fields)
  then have ne: "secondDelivery \<noteq> firstDelivery" by auto
  show ?thesis
    using ne t
    by (simp add: firstDelivery_fields secondDelivery_eq restarted_fields Ball_new_def)
qed

end
